theory Spec2Isabelle
  imports Main
begin

section \<open>Data model of CheckLeakAutoVar (lib/checkleakautovar.cpp)\<close>

text \<open>
  The checker reads a token graph built by the tokenizer. A token is modelled by the
  attributes the checker reads from it: its text, its variable id (0 when it is no
  variable), its position, the text of the previous token (\<open>strAt(-1)\<close>) and the
  text of the root of its syntax tree (\<open>astTop()\<close>).
\<close>

record Token =
  tokStr :: string
  tokVarId :: int
  tokIndex :: nat
  prevStr :: string
  astTopStr :: string

datatype AllocStatus = REALLOC | OWNED | DEALLOC | NOALLOC | ALLOC

text \<open>
  Modelled from the spec: the class \<open>VarInfo\<close> and its nested \<open>AllocInfo\<close> are
  declared in lib/checkleakautovar.h, which is not among the sources. The record follows
  section 3 of the specification (family, status, origin, optional back-reference); the
  field names are the ones lib/checkleakautovar.cpp uses.
\<close>

record AllocInfo =
  status :: AllocStatus
  atype :: int
  reallocedFromType :: "int option"
  allocTok :: "Token option"

text \<open>The constructor \<open>AllocInfo(type, status, allocTok)\<close> with its defaults.\<close>

definition mkAllocInfo :: "int \<Rightarrow> AllocStatus \<Rightarrow> Token option \<Rightarrow> AllocInfo" where
  "mkAllocInfo ty st tk = \<lparr>status = st, atype = ty, reallocedFromType = None, allocTok = tk\<rparr>"

definition defaultAllocInfo :: AllocInfo where
  "defaultAllocInfo = mkAllocInfo 0 NOALLOC None"

text \<open>
  Modelled from the spec: \<open>AllocInfo::managed()\<close> (declared in the header). A record is
  managed when its status is one of Deallocated, Reallocated, ExternallyOwned.
\<close>

definition managed :: "AllocInfo \<Rightarrow> bool" where
  "managed a = (status a = DEALLOC \<or> status a = REALLOC \<or> status a = OWNED)"

datatype Usage = USED | NORET

subsection \<open>std::map<int, V> as a key-ordered association list\<close>

type_synonym 'v intmap = "(int \<times> 'v) list"

text \<open>\<open>m.find(k)\<close>: the entry, or none.\<close>

definition map_find :: "'v intmap \<Rightarrow> int \<Rightarrow> 'v option" where
  "map_find m k = map_of m k"

text \<open>\<open>m.erase(k)\<close>.\<close>

definition map_erase :: "int \<Rightarrow> 'v intmap \<Rightarrow> 'v intmap" where
  "map_erase k m = filter (\<lambda>kv. fst kv \<noteq> k) m"

text \<open>\<open>m[k] = v\<close>: overwrite the entry of \<open>k\<close> or insert it at its place in key order.\<close>

fun map_assign :: "int \<Rightarrow> 'v \<Rightarrow> 'v intmap \<Rightarrow> 'v intmap" where
  "map_assign k v [] = [(k, v)]"
| "map_assign k v ((k', v') # m) =
     (if k < k' then (k, v) # (k', v') # m
      else if k = k' then (k, v) # m
      else (k', v') # map_assign k v m)"

text \<open>\<open>m.insert({k, v})\<close>: std::map::insert leaves an existing entry untouched.\<close>

definition map_insert :: "int \<Rightarrow> 'v \<Rightarrow> 'v intmap \<Rightarrow> 'v intmap" where
  "map_insert k v m = (case map_find m k of Some _ \<Rightarrow> m | None \<Rightarrow> map_assign k v m)"

text \<open>\<open>m.insert(first, last)\<close>: the range is inserted element by element.\<close>

fun map_insert_range :: "'v intmap \<Rightarrow> 'v intmap \<Rightarrow> 'v intmap" where
  "map_insert_range [] m = m"
| "map_insert_range ((k, v) # src) m = map_insert_range src (map_insert k v m)"

subsection \<open>VarInfo\<close>

record VarInfo =
  alloctype :: "AllocInfo intmap"
  possibleUsage :: "(Token option \<times> Usage) intmap"
  conditionalAlloc :: "int set"
  referenced :: "int set"

definition emptyVarInfo :: VarInfo where
  "emptyVarInfo = \<lparr>alloctype = [], possibleUsage = [], conditionalAlloc = {}, referenced = {}\<rparr>"

text \<open>
  Modelled from the spec: \<open>VarInfo::clear()\<close> and \<open>VarInfo::erase(varid)\<close> are defined
  in the header. \<open>clear\<close> drops all tracked state; \<open>erase\<close> removes the tracking of
  one variable id from each of the four containers.
\<close>

definition clear :: "VarInfo \<Rightarrow> VarInfo" where
  "clear vi = emptyVarInfo"

definition erase :: "VarInfo \<Rightarrow> int \<Rightarrow> VarInfo" where
  "erase vi k = \<lparr>alloctype = map_erase k (alloctype vi),
                 possibleUsage = map_erase k (possibleUsage vi),
                 conditionalAlloc = conditionalAlloc vi - {k},
                 referenced = referenced vi - {k}\<rparr>"

subsection \<open>Library metadata and diagnostics\<close>

record AllocFunc =
  groupId :: int
  arg :: int
  reallocArg :: int

text \<open>
  The library configuration is external data: the lookups the checker performs on it
  are fields of a record. \<open>isresource\<close> is \<open>Library::isresource\<close>.
\<close>

record Library =
  getAllocFuncInfo :: "Token \<Rightarrow> AllocFunc option"
  getDeallocFuncInfo :: "Token \<Rightarrow> AllocFunc option"
  getReallocFuncInfo :: "Token \<Rightarrow> AllocFunc option"
  isresource :: "int \<Rightarrow> bool"
  getFunctionName :: "Token \<Rightarrow> string"

text \<open>
  One constructor per reporting function, with the token or the list of locations, the name of
  the variable and, for \<open>doubleFree\<close>, the message.
\<close>

datatype Diag =
    MemLeak Token string
  | ResourceLeak Token string
  | Mismatch "Token option list" string
  | DeallocUse Token string
  | DeallocRet "Token option list" string
  | CheckLibraryUseIgnore Token string
  | DoubleFree "Token option list" string string

fun isLeak :: "Diag \<Rightarrow> bool" where
  "isLeak (MemLeak _ _) = True"
| "isLeak (ResourceLeak _ _) = True"
| "isLeak _ = False"

fun isDoubleFree :: "Diag \<Rightarrow> bool" where
  "isDoubleFree (DoubleFree _ _ _) = True"
| "isDoubleFree _ = False"


definition leakError :: "Library \<Rightarrow> Token \<Rightarrow> string \<Rightarrow> int \<Rightarrow> Diag list" where
  "leakError lib tok varname ty =
     (if isresource lib ty then [ResourceLeak tok varname] else [MemLeak tok varname])"

definition mismatchError :: "Token \<Rightarrow> Token option \<Rightarrow> string \<Rightarrow> Diag list" where
  "mismatchError deallocTok allocTk varname = [Mismatch [allocTk, Some deallocTok] varname]"

definition deallocReturnError :: "Token \<Rightarrow> Token option \<Rightarrow> string \<Rightarrow> Diag list" where
  "deallocReturnError tok deallocTok varname = [DeallocRet [deallocTok, Some tok] varname]"

definition doubleFreeError :: "Library \<Rightarrow> Token \<Rightarrow> Token option \<Rightarrow> string \<Rightarrow> int \<Rightarrow> Diag list" where
  "doubleFreeError lib tok prevFreeTok varname ty =
     (if isresource lib ty
      then [DoubleFree [prevFreeTok, Some tok] varname
              (''$symbol:'' @ varname @ [CHR 0x0A] @ ''Resource handle '$symbol' freed twice.'')]
      else [DoubleFree [prevFreeTok, Some tok] varname
              (''$symbol:'' @ varname @ [CHR 0x0A]
               @ ''Memory pointed to by '$symbol' is freed twice.'')])"

section \<open>changeAllocStatus and changeAllocStatusIfRealloc\<close>

definition changeAllocStatus ::
  "Library \<Rightarrow> VarInfo \<Rightarrow> AllocInfo \<Rightarrow> Token \<Rightarrow> Token \<Rightarrow> VarInfo \<times> Diag list" where
  "changeAllocStatus lib varInfo allocation tok argT =
     (case map_find (alloctype varInfo) (tokVarId argT) of
        Some var \<Rightarrow>
          if (case allocTok allocation of None \<Rightarrow> False
              | Some t \<Rightarrow> getAllocFuncInfo lib t \<noteq> None)
          then (erase varInfo (tokVarId argT), [])
          else if status allocation = NOALLOC then
            (let vi = varInfo\<lparr>possibleUsage :=
                        map_assign (tokVarId argT) (Some tok, USED) (possibleUsage varInfo)\<rparr>
             in if status var = DEALLOC \<and> prevStr argT = ''&''
                then (erase vi (tokVarId argT), [])
                else (vi, []))
          else if managed var then
            (varInfo\<lparr>alloctype :=
                map_assign (tokVarId argT) (var\<lparr>status := status allocation\<rparr>) (alloctype varInfo)\<rparr>,
             doubleFreeError lib tok (allocTok var) (tokStr argT) (atype allocation))
          else if atype var \<noteq> atype allocation \<and> atype var \<noteq> 0 then
            (erase varInfo (tokVarId argT), mismatchError tok (allocTok var) (tokStr argT))
          else
            (varInfo\<lparr>alloctype :=
                map_assign (tokVarId argT)
                  (var\<lparr>status := status allocation, atype := atype allocation,
                        allocTok := allocTok allocation\<rparr>) (alloctype varInfo)\<rparr>, [])
      | None \<Rightarrow>
          if status allocation \<noteq> NOALLOC \<and> status allocation \<noteq> OWNED
             \<and> astTopStr tok \<noteq> ''return''
          then (varInfo\<lparr>alloctype :=
                  map_assign (tokVarId argT)
                    (defaultAllocInfo\<lparr>status := DEALLOC, allocTok := Some tok,
                                       atype := atype allocation\<rparr>) (alloctype varInfo)\<rparr>, [])
          else (varInfo, []))"

text \<open>
  \<open>changeAllocStatusIfRealloc(alloctype, fTok, retTok)\<close>. \<open>args\<close> is
  \<open>getArguments(fTok)\<close>, so \<open>numberOfArguments(fTok)\<close> is its length.
\<close>

definition changeAllocStatusIfRealloc ::
  "Library \<Rightarrow> AllocInfo intmap \<Rightarrow> Token \<Rightarrow> Token list \<Rightarrow> Token \<Rightarrow> AllocInfo intmap \<times> Diag list" where
  "changeAllocStatusIfRealloc lib at fTok args retTok =
     (case getReallocFuncInfo lib fTok of
        None \<Rightarrow> (at, [])
      | Some f \<Rightarrow>
          if arg f = -1 \<and> reallocArg f > 0 \<and> reallocArg f \<le> int (length args) then
            (let argTok = args ! nat (reallocArg f - 1);
                 (at1, ds) =
                   (case map_find at (tokVarId argTok) of
                      None \<Rightarrow> (at, [])
                    | Some argAlloc \<Rightarrow>
                        (map_assign (tokVarId argTok)
                           (argAlloc\<lparr>status := REALLOC, allocTok := Some fTok\<rparr>) at,
                         if atype argAlloc \<noteq> 0 \<and> atype argAlloc \<noteq> groupId f
                         then mismatchError fTok (allocTok argAlloc) (tokStr argTok) else []));
                 retAlloc = (case map_find at1 (tokVarId retTok) of
                               None \<Rightarrow> defaultAllocInfo | Some r \<Rightarrow> r)
             in (map_assign (tokVarId retTok)
                   (retAlloc\<lparr>atype := groupId f, status := ALLOC, allocTok := Some fTok,
                             reallocedFromType := Some (tokVarId argTok)\<rparr>) at1, ds))
          else (at, []))"

section \<open>The if/else join of checkScope\<close>

text \<open>
  The join is the code of \<open>checkScope\<close> that follows the analysis of the two blocks.
  \<open>varInfo\<close> is the state before the \<open>if\<close> (\<open>old\<close> after the swap, which leaves
  \<open>varInfo\<close> empty), \<open>varInfo1\<close> and \<open>varInfo2\<close> are the copies the two blocks were
  analysed in, and \<open>conditionalAlloc0\<close> is the copy of \<open>varInfo.conditionalAlloc\<close> that
  \<open>checkScope\<close> takes on entry.
\<close>

text \<open>First loop: variables of \<open>old\<close> that were conditionally allocated and are gone in a block.\<close>

fun eraseLostConditional ::
  "VarInfo \<Rightarrow> AllocInfo intmap \<Rightarrow> VarInfo \<Rightarrow> VarInfo \<Rightarrow> VarInfo \<times> VarInfo" where
  "eraseLostConditional old [] varInfo1 varInfo2 = (varInfo1, varInfo2)"
| "eraseLostConditional old ((varId, a) # it) varInfo1 varInfo2 =
     (if varId \<notin> conditionalAlloc old then eraseLostConditional old it varInfo1 varInfo2
      else if map_find (alloctype varInfo1) varId = None \<or> map_find (alloctype varInfo2) varId = None
           then eraseLostConditional old it (erase varInfo1 varId) (erase varInfo2 varId)
           else eraseLostConditional old it varInfo1 varInfo2)"

text \<open>
  Second and third loop ("Conditional allocation in varInfo1", "... in varInfo2"): \<open>acc\<close> is
  \<open>varInfo.conditionalAlloc\<close>.
\<close>

fun conditionalAllocIn :: "AllocInfo intmap \<Rightarrow> VarInfo \<Rightarrow> VarInfo \<Rightarrow> int set \<Rightarrow> int set" where
  "conditionalAllocIn [] other old acc = acc"
| "conditionalAllocIn ((k, a) # it) other old acc =
     conditionalAllocIn it other old
       (if map_find (alloctype other) k = None \<and> map_find (alloctype old) k = None
        then insert k acc else acc)"

text \<open>Fourth and fifth loop ("Conditional allocation/deallocation").\<close>

fun conditionalDealloc ::
  "AllocInfo intmap \<Rightarrow> int set \<Rightarrow> int set \<Rightarrow> VarInfo \<Rightarrow> int set \<times> VarInfo" where
  "conditionalDealloc [] conditionalAlloc0 acc other = (acc, other)"
| "conditionalDealloc ((k, a) # it) conditionalAlloc0 acc other =
     (if managed a \<and> k \<in> conditionalAlloc0
      then conditionalDealloc it conditionalAlloc0 (acc - {k}) (erase other k)
      else conditionalDealloc it conditionalAlloc0 acc other)"

definition mergeBranches :: "int set \<Rightarrow> VarInfo \<Rightarrow> VarInfo \<Rightarrow> VarInfo \<Rightarrow> VarInfo" where
  "mergeBranches conditionalAlloc0 varInfo varInfo1 varInfo2 =
     (let old = varInfo;
          (v1, v2) = eraseLostConditional old (alloctype old) varInfo1 varInfo2;
          ca1 = conditionalAllocIn (alloctype v1) v2 old {};
          ca2 = conditionalAllocIn (alloctype v2) v1 old ca1;
          (ca3, v2') = conditionalDealloc (alloctype v1) conditionalAlloc0 ca2 v2;
          (ca4, v1') = conditionalDealloc (alloctype v2') conditionalAlloc0 ca3 v1
      in \<lparr>alloctype = map_insert_range (alloctype v2') (map_insert_range (alloctype v1') []),
          possibleUsage =
            map_insert_range (possibleUsage v2') (map_insert_range (possibleUsage v1') []),
          conditionalAlloc = ca4,
          referenced = {}\<rparr>)"

section \<open>Comparisons in the condition of an if\<close>

definition alloc_failed_conds :: "(string \<times> string) list" where
  "alloc_failed_conds = [(''=='', ''0''), (''<'', ''0''), (''=='', ''-1''), (''<='', ''-1'')]"

definition alloc_success_conds :: "(string \<times> string) list" where
  "alloc_success_conds =
     [(''!='', ''0''), (''>'', ''0''), (''!='', ''-1''), (''>='', ''0''), (''>'', ''-1'')]"

text \<open>
  \<open>astIsVariableComparison(tok, comp, rhs, &vartok)\<close> belongs to the syntax-tree utilities.
  A token of the condition carries its answers: the pairs \<open>(comp, rhs)\<close> it matches, each with
  the variable token it yields.
\<close>

type_synonym CondTok = "((string \<times> string) \<times> Token) list"

definition astIsVariableComparison :: "CondTok \<Rightarrow> string \<Rightarrow> string \<Rightarrow> Token option" where
  "astIsVariableComparison tok cmp rhs = map_of tok (cmp, rhs)"

text \<open>\<open>isVarTokComparison\<close>: \<open>any_of\<close> stops at the first pair that matches.\<close>

fun isVarTokComparison :: "CondTok \<Rightarrow> (string \<times> string) list \<Rightarrow> Token option" where
  "isVarTokComparison tok [] = None"
| "isVarTokComparison tok (c # ops) =
     (case astIsVariableComparison tok (fst c) (snd c) of
        Some vartok \<Rightarrow> Some vartok
      | None \<Rightarrow> isVarTokComparison tok ops)"

text \<open>
  The syntax tree of the condition, by the cases the visitor distinguishes: no token,
  \<open>&&\<close> or \<open>||\<close>, a call of \<open>LIKELY\<close> or \<open>UNLIKELY\<close>, any other call (its arguments with
  their \<open>isComparisonOp\<close>), any other token.
\<close>

datatype CondAst =
    CNull
  | CLogic CondAst CondAst
  | CLikely CondAst
  | CCall "(bool \<times> CondTok) list"
  | CLeaf CondTok

datatype Build = ASAN | MINGW32 | OtherBuild

text \<open>The constant \<open>recursiveLimit\<close> of \<open>checkScope\<close>, selected by the preprocessor.\<close>

fun recursiveLimit :: "Build \<Rightarrow> int" where
  "recursiveLimit ASAN = 300"
| "recursiveLimit MINGW32 = 600"
| "recursiveLimit OtherBuild = 1000"

text \<open>
  \<open>++recursiveCount\<close> on a 32-bit \<open>int\<close>. At \<open>INT_MAX\<close> the increment overflows, which
  C++ leaves undefined; it is taken as the wrap-around to \<open>INT_MIN\<close>.
\<close>

definition preIncrement :: "int \<Rightarrow> int" where
  "preIncrement n = (if n = 2147483647 then - 2147483648 else n + 1)"

text \<open>A variable of the symbol database, by what \<open>ret\<close> reads from it.\<close>

record Variable =
  varName :: string
  varIsReference :: bool
  varScopeBodyEnd :: "Token option"

datatype PtrUsage = NONE | DEREF | PTR

text \<open>
  What the analysis takes from outside lib/checkleakautovar.cpp. \<open>reallocToAlloc\<close> is
  \<open>VarInfo::reallocToAlloc\<close>, defined in the header. \<open>outparamRet\<close> is
  \<open>getReturnValueFromOutparamAlloc\<close>, \<open>ptrUsage tok varid\<close> is the value of \<open>used\<close> that
  the scan of the return expression in \<open>ret\<close> finds, and \<open>outparamChecked tok info\<close> says
  whether the test "returning after checking return value of outparam allocation" in \<open>ret\<close>
  leaves by \<open>continue\<close>: all three are walks over the token graph. \<open>usageHasBody\<close> is
  \<open>functionUsage.first && functionUsage.first->function() && ...->hasBody()\<close> and
  \<open>usageIsVariable\<close> is \<open>use->second.first->variable()\<close>.
\<close>

record Env =
  library :: Library
  build :: Build
  reallocToAlloc :: "VarInfo \<Rightarrow> int \<Rightarrow> VarInfo"
  outparamRet :: "Token option \<Rightarrow> Token option"
  getVariableFromVarId :: "int \<Rightarrow> Variable option"
  ptrUsage :: "Token \<Rightarrow> int \<Rightarrow> PtrUsage"
  outparamChecked :: "Token \<Rightarrow> AllocInfo \<Rightarrow> bool"
  checkLibrary :: bool
  usageHasBody :: "Token option \<Rightarrow> bool"
  usageIsVariable :: "Token option \<Rightarrow> bool"

text \<open>Arguments of a call in the condition: either kind of comparison erases the variable.\<close>

fun visitCallParams :: "(bool \<times> CondTok) list \<Rightarrow> VarInfo \<times> VarInfo \<Rightarrow> VarInfo \<times> VarInfo" where
  "visitCallParams [] s = s"
| "visitCallParams ((isComparisonOp, par) # params) (varInfo1, varInfo2) =
     (if \<not> isComparisonOp then visitCallParams params (varInfo1, varInfo2)
      else (case (case isVarTokComparison par alloc_success_conds of
                    Some vartok \<Rightarrow> Some vartok
                  | None \<Rightarrow> isVarTokComparison par alloc_failed_conds) of
              Some vartok \<Rightarrow>
                visitCallParams params
                  (erase varInfo1 (tokVarId vartok), erase varInfo2 (tokVarId vartok))
            | None \<Rightarrow> visitCallParams params (varInfo1, varInfo2)))"

text \<open>The visitor on a token that is neither a logical operator nor a call.\<close>

definition visitComparison ::
  "Env \<Rightarrow> int set \<Rightarrow> CondTok \<Rightarrow> VarInfo \<times> VarInfo \<Rightarrow> VarInfo \<times> VarInfo" where
  "visitComparison env notzero tok3 s =
     (let varInfo1 = fst s; varInfo2 = snd s in
      case isVarTokComparison tok3 alloc_success_conds of
        Some vartok \<Rightarrow>
          (let v2a = erase (reallocToAlloc env varInfo2 (tokVarId vartok)) (tokVarId vartok);
               vartok' = astIsVariableComparison tok3 ''!='' ''0'';
               v2b = (case vartok' of
                        Some vt \<Rightarrow> if tokVarId vt \<in> notzero then clear v2a else v2a
                      | None \<Rightarrow> v2a);
               v1a = (if list_ex (\<lambda>info.
                            status (snd info) = ALLOC \<and>
                            (case (outparamRet env (allocTok (snd info)), vartok') of
                               (Some rtok, Some vt) \<Rightarrow> tokVarId rtok \<noteq> 0 \<and> tokVarId rtok = tokVarId vt
                             | _ \<Rightarrow> False))
                          (alloctype varInfo1)
                      then clear varInfo1 else varInfo1)
           in (v1a, v2b))
      | None \<Rightarrow>
          (case isVarTokComparison tok3 alloc_failed_conds of
             Some vartok \<Rightarrow>
               (erase (reallocToAlloc env varInfo1 (tokVarId vartok)) (tokVarId vartok), varInfo2)
           | None \<Rightarrow> (varInfo1, varInfo2)))"

text \<open>\<open>visitAstNodes\<close> with the visitor of \<open>checkScope\<close>: first operand before second.\<close>

fun visitCond :: "Env \<Rightarrow> int set \<Rightarrow> CondAst \<Rightarrow> VarInfo \<times> VarInfo \<Rightarrow> VarInfo \<times> VarInfo" where
  "visitCond env notzero CNull s = s"
| "visitCond env notzero (CLogic op1 op2) s =
     visitCond env notzero op2 (visitCond env notzero op1 s)"
| "visitCond env notzero (CLikely op2) s = visitCond env notzero op2 s"
| "visitCond env notzero (CCall params) s = visitCallParams params s"
| "visitCond env notzero (CLeaf tok3) s = visitComparison env notzero tok3 s"

section \<open>Reporting at a return and at the end of a scope\<close>

definition configurationInfo ::
  "Env \<Rightarrow> Token \<Rightarrow> Token option \<times> Usage \<Rightarrow> Diag list" where
  "configurationInfo env tok functionUsage =
     (if checkLibrary env \<and> snd functionUsage = USED \<and> \<not> usageHasBody env (fst functionUsage)
      then (let funcStr = (case fst functionUsage of
                             None \<Rightarrow> ''f''
                           | Some t \<Rightarrow> getFunctionName (library env) t)
            in [CheckLibraryUseIgnore tok
                  (if funcStr = [] then ''unknown::'' @ (case fst functionUsage of
                                                           None \<Rightarrow> [] | Some t \<Rightarrow> tokStr t)
                   else funcStr)])
      else [])"

definition leakIfAllocated :: "Env \<Rightarrow> Token \<Rightarrow> VarInfo \<Rightarrow> Diag list" where
  "leakIfAllocated env vartok varInfo =
     (case map_find (alloctype varInfo) (tokVarId vartok) of
        None \<Rightarrow> []
      | Some var \<Rightarrow>
          if status var = ALLOC then
            (case map_find (possibleUsage varInfo) (tokVarId vartok) of
               None \<Rightarrow> leakError (library env) vartok (tokStr vartok) (atype var)
             | Some use \<Rightarrow> configurationInfo env vartok use)
          else [])"

text \<open>What \<open>ret\<close> reports for one record that it does not skip.\<close>

definition retReport ::
  "Env \<Rightarrow> Token \<Rightarrow> VarInfo \<Rightarrow> int \<Rightarrow> AllocInfo \<Rightarrow> Variable \<Rightarrow> Diag list" where
  "retReport env tok varInfo varid info var =
     (let used = ptrUsage env tok varid in
      if used \<noteq> NONE \<and> status info = DEALLOC
      then deallocReturnError tok (allocTok info) (varName var)
      else if used \<noteq> PTR \<and> \<not> managed info \<and> \<not> varIsReference var then
        (case map_find (possibleUsage varInfo) varid of
           None \<Rightarrow> leakError (library env) tok (varName var) (atype info)
         | Some use \<Rightarrow>
             if \<not> usageIsVariable env (fst use) then configurationInfo env tok use else [])
      else [])"

text \<open>The loop of \<open>ret\<close> over \<open>alloctype\<close>: the ids to remove and the diagnostics.\<close>

fun retLoop ::
  "Env \<Rightarrow> Token \<Rightarrow> VarInfo \<Rightarrow> bool \<Rightarrow> AllocInfo intmap \<Rightarrow> int list \<times> Diag list" where
  "retLoop env tok varInfo isEndOfScope [] = ([], [])"
| "retLoop env tok varInfo isEndOfScope ((varid, info) # it) =
     (let r = retLoop env tok varInfo isEndOfScope it in
      if \<not> isEndOfScope \<and> \<not> managed info \<and> varid \<in> conditionalAlloc varInfo then r
      else if varid \<in> referenced varInfo then r
      else (case getVariableFromVarId env varid of
              None \<Rightarrow> r
            | Some var \<Rightarrow>
                if isEndOfScope \<and> (case varScopeBodyEnd var of None \<Rightarrow> False | Some e \<Rightarrow> tok \<noteq> e)
                then r
                else if outparamChecked env tok info then r
                else (varid # fst r, retReport env tok varInfo varid info var @ snd r)))"

definition ret :: "Env \<Rightarrow> Token \<Rightarrow> VarInfo \<Rightarrow> bool \<Rightarrow> VarInfo \<times> Diag list" where
  "ret env tok varInfo isEndOfScope =
     (let r = retLoop env tok varInfo isEndOfScope (alloctype varInfo)
      in (fold (\<lambda>varId vi. erase vi varId) (fst r) varInfo, snd r))"

section \<open>The statements checkScope dispatches on\<close>

datatype ScopeType =
    eGlobal | eClass | eStruct | eUnion | eNamespace | eFunction | eIf | eElse | eFor
  | eWhile | eDo | eSwitch | eUnconditional | eTry | eCatch | eLambda | eEnum

text \<open>A scope of the symbol database: its type and the answer of \<open>isExecutable()\<close>.\<close>

record Scope =
  scopeType :: ScopeType
  isExecutable :: bool

text \<open>
  The deleter of a smart pointer, as far as the tokens resolve it: the name after \<open>&\<close> when
  the deleter is a pointer to a function, and the tokens from \<open>tscopeStart\<close> up to
  \<open>tscopeEnd\<close> when the body of a lambda, of the deleter function or of the deleter class was
  found.
\<close>

record Deleter =
  delFuncPtr :: "Token option"
  delScope :: "Token list option"

text \<open>
  A smart pointer statement: \<open>spMatches\<close> is the match of \<open>> %var% {|( %var% ,|)|}\<close> and
  \<open>spReleased endToken\<close> is \<open>isPointerReleased(typeEndTok->tokAt(2), endToken, varid)\<close>, a scan
  of the tokens up to the end of the block that is being walked.
\<close>

record SmartPtr =
  spFtok :: Token
  spVtok :: Token
  spMatches :: bool
  spReleased :: "Token \<Rightarrow> bool"
  spArrayDelete :: bool
  spDeleter :: "Deleter option"

text \<open>
  The syntax tree below a token: no token, or a token with its two operands.
\<close>

datatype Ast = ANull | ANode Token Ast Ast

fun isVarUsedInTree :: "Ast \<Rightarrow> int \<Rightarrow> bool" where
  "isVarUsedInTree ANull varid = False"
| "isVarUsedInTree (ANode tok astOperand1 astOperand2) varid =
     (if tokVarId tok = varid then True
      else if tokStr tok = ''('' \<and> (case astOperand1 of ANull \<Rightarrow> False
                                      | ANode t a b \<Rightarrow> tokStr t = ''sizeof'')
      then False
      else isVarUsedInTree astOperand1 varid \<or> isVarUsedInTree astOperand2 varid)"


text \<open>
  An assignment \<open>varTok = ...\<close> (or an initialisation), by what the assignment branch reads:
  \<open>asOtherVars\<close> holds the variable ids other than 0 of the tokens from \<open>varTok\<close> to the semicolon when
  \<open>= %var% +|;|?|%comp%\<close> matches with another variable; \<open>asRhs\<close> is
  \<open>tokRightAstOperand\<close> after the casts; \<open>asCall\<close> holds \<open>fTok\<close> and \<open>getArguments(fTok)\<close> when
  \<open>fTok\<close> matches \<open>%type% (\<close>; \<open>asNew\<close> holds \<open>arrayNew\<close> and \<open>varTok->tokAt(2)\<close> when the
  file is C++ and \<open>new !!(\<close> matches there; \<open>asNotzero\<close> says that the value assigned is a
  number other than zero or the negation of an upper-case name.
\<close>

record Assignment =
  asVarTok :: Token
  asOtherVars :: "int list option"
  asRhs :: Ast
  asLocalVarNoAutoDealloc :: bool
  asCall :: "(Token \<times> Token list) option"
  asNew :: "(bool \<times> Token) option"
  asNotzero :: bool

text \<open>
  An effect on the state and on \<open>notzero\<close> that a part of the dispatcher which is not unfolded
  here computes from the tokens, from the copy of \<open>conditionalAlloc\<close> that \<open>checkScope\<close> took on
  entry and from \<open>endToken\<close>.
\<close>

type_synonym Effect =
  "int set \<Rightarrow> Token \<Rightarrow> VarInfo \<times> int set \<Rightarrow> (VarInfo \<times> int set) \<times> Diag list"

text \<open>
  The parts of an \<open>if\<close>: the known value of the condition, the effect of the calls and
  assignments inside the condition (the loop over \<open>innerTok\<close>), whether \<open>) {\<close> follows, the
  syntax tree of the condition after the commas, the effect of the main loop on the tokens of the
  condition when it walks over them, the first and last token of the two blocks.
\<close>

record IfInfo =
  condKnown :: "bool option"
  condEffect :: "VarInfo \<Rightarrow> VarInfo \<times> Diag list"
  braces :: bool
  condAst :: CondAst
  condWalk :: Effect
  ifStart :: Token
  ifEnd :: Token
  hasElse :: bool
  elseStart :: Token
  elseEnd :: Token

text \<open>
  A block is the list of its statements, by the branch of the dispatcher that takes them:
  \<open>Opaque\<close> stands for the branches that only change the state and go on (delete, function
  call, member access, and \<open>checkTokenInsideExpression\<close> on the tokens in between),
  \<open>Assign\<close> for the assignment branch, \<open>UnknownControl\<close> for \<open>%type% ( ... ) {\<close> and
  \<open>do {\<close>, \<open>Throw\<close> for a \<open>throw\<close> of a C++ file with the scopes from \<open>tok->scope()\<close>
  outwards.
\<close>

datatype Stmt =
    Opaque Effect
  | Assign Assignment
  | IfElse IfInfo "Stmt list" "Stmt list"
  | UnknownControl
  | Return Token
  | Throw Token "Scope list"
  | Goto
  | BreakContinue
  | SmartPointer SmartPtr

datatype ErrorType = AST | SYNTAX | UNKNOWN_MACRO | INTERNAL | LIMIT | INSTANTIATION

datatype InternalError = InternalError Token string ErrorType

text \<open>How a call of \<open>checkScope\<close> ends: by the exception or with its result and the state.\<close>

datatype Outcome = Thrown InternalError | Returned bool VarInfo

definition NEW_ARRAY :: int where "NEW_ARRAY = -2"
definition NEW :: int where "NEW = -1"

subsection \<open>The branches without recursion\<close>

definition returnStmt :: "Env \<Rightarrow> Token \<Rightarrow> VarInfo \<Rightarrow> VarInfo \<times> Diag list" where
  "returnStmt env tok varInfo = (clear (fst (ret env tok varInfo False)), snd (ret env tok varInfo False))"

text \<open>The loop over \<open>scope->nestedIn\<close> of the \<open>throw\<close> branch.\<close>

fun tryFoundIn :: "Scope list \<Rightarrow> bool \<Rightarrow> bool" where
  "tryFoundIn [] tryFound = tryFound"
| "tryFoundIn (scope # nestedIn) tryFound =
     (if isExecutable scope
      then tryFoundIn nestedIn (if scopeType scope = eTry then True else tryFound)
      else tryFound)"

definition throwStmt :: "Env \<Rightarrow> Token \<Rightarrow> Scope list \<Rightarrow> VarInfo \<Rightarrow> VarInfo \<times> Diag list" where
  "throwStmt env tok scopes varInfo =
     (if \<not> tryFoundIn scopes False
      then (clear (fst (ret env tok varInfo False)), snd (ret env tok varInfo False))
      else (clear varInfo, []))"

text \<open>The scan of the deleter's body for a deallocation function.\<close>

fun findDealloc :: "Library \<Rightarrow> Token list \<Rightarrow> AllocFunc option" where
  "findDealloc lib [] = None"
| "findDealloc lib (tok2 # toks) =
     (case getDeallocFuncInfo lib tok2 of Some af \<Rightarrow> Some af | None \<Rightarrow> findDealloc lib toks)"

text \<open>
  "Check deleter": \<open>Some af\<close> is the value of \<open>af\<close> with which the branch goes on, \<open>None\<close>
  says that there is a deleter that cannot be checked.
\<close>

definition checkDeleter :: "Library \<Rightarrow> Deleter option \<Rightarrow> AllocFunc option option" where
  "checkDeleter lib deleter =
     (case deleter of
        None \<Rightarrow> Some None
      | Some d \<Rightarrow>
          (let af = (case delFuncPtr d of None \<Rightarrow> None | Some dtok \<Rightarrow> getDeallocFuncInfo lib dtok)
           in if delFuncPtr d = None \<or> af = None
              then (case delScope d of
                      Some toks \<Rightarrow> Some (findDealloc lib toks)
                    | None \<Rightarrow> None)
              else Some af))"

definition smartPointerStmt ::
  "Env \<Rightarrow> Token \<Rightarrow> SmartPtr \<Rightarrow> VarInfo \<Rightarrow> VarInfo \<times> Diag list" where
  "smartPointerStmt env endToken sp varInfo =
     (if \<not> spMatches sp then (varInfo, [])
      else if spReleased sp endToken then (varInfo, [])
      else (case checkDeleter (library env) (spDeleter sp) of
              None \<Rightarrow> (clear varInfo, [])
            | Some af \<Rightarrow>
                changeAllocStatus (library env) varInfo
                  (mkAllocInfo (case af of Some f \<Rightarrow> groupId f
                                | None \<Rightarrow> if spArrayDelete sp then NEW_ARRAY else NEW)
                     OWNED (Some (spFtok sp)))
                  (spVtok sp) (spVtok sp)))"

text \<open>
  The smart pointer branch of \<open>functionCall\<close>, for a smart pointer that is constructed as an
  argument of a call: \<open>spMatches\<close> is the match of \<open>> {|( %var% ,|)|}\<close>, the deleter is a
  pointer to a function or a class whose body is scanned, and \<open>allocTok\<close> is the token of the
  deallocation function found in that body.
\<close>

definition smartPointerArg :: "Env \<Rightarrow> SmartPtr \<Rightarrow> VarInfo \<Rightarrow> VarInfo \<times> Diag list" where
  "smartPointerArg env sp varInfo =
     (if \<not> spMatches sp then (varInfo, [])
      else
       (let sp_af = (case spDeleter sp of
                       None \<Rightarrow> None
                     | Some d \<Rightarrow>
                         (case delFuncPtr d of
                            Some dtok \<Rightarrow> getDeallocFuncInfo (library env) dtok
                          | None \<Rightarrow> (case delScope d of
                                      None \<Rightarrow> None
                                    | Some toks \<Rightarrow> findDealloc (library env) toks)));
            allocTk = (case spDeleter sp of
                         None \<Rightarrow> None
                       | Some d \<Rightarrow>
                           (case delFuncPtr d of
                              Some dtok \<Rightarrow> None
                            | None \<Rightarrow> (case delScope d of
                                        None \<Rightarrow> None
                                      | Some toks \<Rightarrow>
                                          find (\<lambda>tok2. getDeallocFuncInfo (library env) tok2 \<noteq> None)
                                            toks)))
        in changeAllocStatus (library env) varInfo
             (mkAllocInfo (case sp_af of Some f \<Rightarrow> groupId f
                           | None \<Rightarrow> if spArrayDelete sp then NEW_ARRAY else NEW)
                OWNED allocTk)
             (spVtok sp) (spVtok sp)))"

text \<open>\<open>alloctype[k]\<close>: the record of \<open>k\<close>, a default one when there is none.\<close>

definition allocSubscript :: "AllocInfo intmap \<Rightarrow> int \<Rightarrow> AllocInfo" where
  "allocSubscript at k = (case map_find at k of None \<Rightarrow> defaultAllocInfo | Some r \<Rightarrow> r)"

text \<open>
  The assignment branch. It leaves by \<open>continue\<close> when the variable is used in the right-hand
  side, and again when the variable is not a local variable without automatic deallocation.
\<close>

definition assignmentStmt :: "Env \<Rightarrow> Assignment \<Rightarrow> Effect" where
  "assignmentStmt env a conditionalAlloc0 endToken s =
     (let varInfo = fst s; notzero = snd s; varTok = asVarTok a; varid = tokVarId varTok;
          d1 = (case asOtherVars a of None \<Rightarrow> []
                | Some ids \<Rightarrow> leakIfAllocated env varTok varInfo);
          vi1 = (case asOtherVars a of None \<Rightarrow> varInfo
                 | Some ids \<Rightarrow> fold (\<lambda>k v. erase v k) ids varInfo)
      in if isVarUsedInTree (asRhs a) varid then ((vi1, notzero), d1)
         else
          (let d2 = (if varid \<notin> conditionalAlloc0 then leakIfAllocated env varTok vi1 else []);
               vi2 = erase vi1 varid
           in if \<not> asLocalVarNoAutoDealloc a then ((vi2, notzero), d1 @ d2)
              else
               (let r = (case asCall a of
                           Some call \<Rightarrow>
                             changeAllocStatusIfRealloc (library env)
                               (case getAllocFuncInfo (library env) (fst call) of
                                  None \<Rightarrow> alloctype vi2
                                | Some f \<Rightarrow>
                                    if arg f = -1
                                    then map_assign varid
                                           ((allocSubscript (alloctype vi2) varid)
                                              \<lparr>atype := groupId f, status := ALLOC,
                                               allocTok := Some (fst call)\<rparr>)
                                           (alloctype vi2)
                                    else alloctype vi2)
                               (fst call) (snd call) varTok
                         | None \<Rightarrow>
                             (case asNew a of
                                Some n \<Rightarrow>
                                  (map_assign varid
                                     ((allocSubscript (alloctype vi2) varid)
                                        \<lparr>atype := (if fst n then NEW_ARRAY else NEW), status := ALLOC,
                                         allocTok := Some (snd n)\<rparr>)
                                     (alloctype vi2), [])
                              | None \<Rightarrow> (alloctype vi2, [])))
                in ((vi2\<lparr>alloctype := fst r\<rparr>,
                     if asNotzero a then insert varid notzero else notzero - {varid}),
                    d1 @ d2 @ snd r))))"

subsection \<open>checkScope\<close>

definition limitMessage :: string where
  "limitMessage =
     ''Internal limit: CheckLeakAutoVar::checkScope() Maximum recursive count of 1000 reached.''"

definition addDiags :: "Diag list \<Rightarrow> Outcome \<times> Diag list \<Rightarrow> Outcome \<times> Diag list" where
  "addDiags ds r = (fst r, ds @ snd r)"

fun stmtSize :: "Stmt \<Rightarrow> nat" where
  "stmtSize (IfElse info ifBlock elseBlock) =
     Suc (sum_list (map stmtSize ifBlock) + sum_list (map stmtSize elseBlock))"
| "stmtSize _ = 1"

text \<open>
  \<open>checkScope\<close> on the block from \<open>startToken\<close> to \<open>endToken\<close> with the statements
  \<open>block\<close>; \<open>walk\<close> is its loop over the tokens, with \<open>conditionalAlloc0\<close> the copy of
  \<open>varInfo.conditionalAlloc\<close> taken before the loop and \<open>recursiveCount\<close> already incremented.
  The effects of the statements get that copy and \<open>endToken\<close>, so that a statement of a block
  that is walked again in the enclosing block is handled with the copy and the end of that block.
  When the analysis of the if-block returns false the loop clears the state and goes on with
  the token after \<open>if\<close>: it walks over the condition and then takes the statements of the
  two blocks as statements of the block it is in.
\<close>

function (sequential) checkScope ::
    "Env \<Rightarrow> Token \<Rightarrow> Token \<Rightarrow> Stmt list \<Rightarrow> VarInfo \<Rightarrow> int set \<Rightarrow> int \<Rightarrow> Outcome \<times> Diag list"
  and walk ::
    "Env \<Rightarrow> int set \<Rightarrow> Token \<Rightarrow> Stmt list \<Rightarrow> VarInfo \<Rightarrow> int set \<Rightarrow> int \<Rightarrow> Outcome \<times> Diag list"
  where
  "checkScope env startToken endToken block varInfo notzero recursiveCount =
     (if preIncrement recursiveCount > recursiveLimit (build env)
      then (Thrown (InternalError startToken limitMessage LIMIT), [])
      else walk env (conditionalAlloc varInfo) endToken block varInfo notzero
             (preIncrement recursiveCount))"
| "walk env conditionalAlloc0 endToken [] varInfo notzero recursiveCount =
     (Returned True (fst (ret env endToken varInfo True)), snd (ret env endToken varInfo True))"
| "walk env conditionalAlloc0 endToken (Opaque effect # rest) varInfo notzero recursiveCount =
     addDiags (snd (effect conditionalAlloc0 endToken (varInfo, notzero)))
       (walk env conditionalAlloc0 endToken rest
          (fst (fst (effect conditionalAlloc0 endToken (varInfo, notzero))))
          (snd (fst (effect conditionalAlloc0 endToken (varInfo, notzero)))) recursiveCount)"
| "walk env conditionalAlloc0 endToken (Assign a # rest) varInfo notzero recursiveCount =
     addDiags (snd (assignmentStmt env a conditionalAlloc0 endToken (varInfo, notzero)))
       (walk env conditionalAlloc0 endToken rest
          (fst (fst (assignmentStmt env a conditionalAlloc0 endToken (varInfo, notzero))))
          (snd (fst (assignmentStmt env a conditionalAlloc0 endToken (varInfo, notzero))))
          recursiveCount)"
| "walk env conditionalAlloc0 endToken (IfElse info ifBlock elseBlock # rest) varInfo notzero recursiveCount =
     (let skipIfBlock = (case condKnown info of None \<Rightarrow> False | Some b \<Rightarrow> \<not> b);
          skipElseBlock = (case condKnown info of None \<Rightarrow> False | Some b \<Rightarrow> b);
          varInfo0 = fst (condEffect info varInfo);
          dc = snd (condEffect info varInfo)
      in if \<not> braces info
         then addDiags dc (walk env conditionalAlloc0 endToken rest varInfo0 notzero recursiveCount)
         else
          (let varInfo1 = fst (visitCond env notzero (condAst info) (varInfo0, varInfo0));
               varInfo2 = snd (visitCond env notzero (condAst info) (varInfo0, varInfo0));
               r1 = (if skipIfBlock then (Returned True varInfo1, [])
                     else checkScope env (ifStart info) (ifEnd info) ifBlock varInfo1 notzero
                            recursiveCount)
           in case fst r1 of
                Thrown e \<Rightarrow> (Thrown e, dc @ snd r1)
              | Returned False v \<Rightarrow>
                  addDiags (dc @ snd r1
                            @ snd (condWalk info conditionalAlloc0 endToken (clear varInfo0, notzero)))
                    (walk env conditionalAlloc0 endToken
                       (ifBlock @ (if hasElse info then elseBlock else []) @ rest)
                       (fst (fst (condWalk info conditionalAlloc0 endToken (clear varInfo0, notzero))))
                       (snd (fst (condWalk info conditionalAlloc0 endToken (clear varInfo0, notzero))))
                       recursiveCount)
              | Returned True varInfo1' \<Rightarrow>
                  (let r2 = (if hasElse info \<and> \<not> skipElseBlock
                             then checkScope env (elseStart info) (elseEnd info) elseBlock varInfo2
                                    notzero recursiveCount
                             else (Returned True varInfo2, []))
                   in case fst r2 of
                        Thrown e \<Rightarrow> (Thrown e, dc @ snd r1 @ snd r2)
                      | Returned False v \<Rightarrow> (Returned False (clear varInfo0), dc @ snd r1 @ snd r2)
                      | Returned True varInfo2' \<Rightarrow>
                          addDiags (dc @ snd r1 @ snd r2)
                            (walk env conditionalAlloc0 endToken rest
                               (mergeBranches conditionalAlloc0 varInfo0 varInfo1' varInfo2')
                               notzero recursiveCount))))"
| "walk env conditionalAlloc0 endToken (UnknownControl # rest) varInfo notzero recursiveCount =
     (Returned False (clear varInfo), [])"
| "walk env conditionalAlloc0 endToken (Return tok # rest) varInfo notzero recursiveCount =
     addDiags (snd (returnStmt env tok varInfo))
       (walk env conditionalAlloc0 endToken rest (fst (returnStmt env tok varInfo)) notzero
          recursiveCount)"
| "walk env conditionalAlloc0 endToken (Throw tok scopes # rest) varInfo notzero recursiveCount =
     addDiags (snd (throwStmt env tok scopes varInfo))
       (walk env conditionalAlloc0 endToken rest (fst (throwStmt env tok scopes varInfo)) notzero
          recursiveCount)"
| "walk env conditionalAlloc0 endToken (Goto # rest) varInfo notzero recursiveCount =
     (Returned False (clear varInfo), [])"
| "walk env conditionalAlloc0 endToken (BreakContinue # rest) varInfo notzero recursiveCount =
     walk env conditionalAlloc0 endToken rest (clear varInfo) notzero recursiveCount"
| "walk env conditionalAlloc0 endToken (SmartPointer sp # rest) varInfo notzero recursiveCount =
     addDiags (snd (smartPointerStmt env endToken sp varInfo))
       (walk env conditionalAlloc0 endToken rest (fst (smartPointerStmt env endToken sp varInfo))
          notzero recursiveCount)"
  by pat_completeness auto
termination
  by (relation "measure (\<lambda>x. case x of
          Inl (env, startToken, endToken, block, r) \<Rightarrow> Suc (2 * sum_list (map stmtSize block))
        | Inr (env, ca, endToken, block, r) \<Rightarrow> 2 * sum_list (map stmtSize block))")
     auto

text \<open>
  \<open>check\<close> (when the clang import is not in use), on the function scopes that have no inline
  or lambda function: each is analysed from the empty state with \<open>recursiveCount\<close> 0. There is
  no handler for the exception, so it ends the loop over the function scopes.
\<close>

fun check :: "Env \<Rightarrow> (Token \<times> Token \<times> Stmt list) list \<Rightarrow> Outcome option \<times> Diag list" where
  "check env [] = (None, [])"
| "check env ((bodyStart, bodyEnd, body) # functionScopes) =
     (let r = checkScope env bodyStart bodyEnd body emptyVarInfo {} 0
      in case fst r of
           Thrown e \<Rightarrow> (Some (Thrown e), snd r)
         | Returned b v \<Rightarrow> (fst (check env functionScopes), snd r @ snd (check env functionScopes)))"

subsection \<open>The control skeleton of the loop\<close>

text \<open>
  Whether \<open>walk\<close> throws, returns false or returns true is decided by the statements and the
  recursion count alone. \<open>ctl\<close> follows \<open>walk\<close> and leaves the state out; it is used to
  reason about the result of \<open>walk\<close> and is not part of the checker.
\<close>

datatype Ctl = CThrow | CFalse | CTrue

function (sequential) ctl :: "int \<Rightarrow> int \<Rightarrow> Stmt list \<Rightarrow> Ctl" where
  "ctl L rc [] = CTrue"
| "ctl L rc (IfElse info ifBlock elseBlock # rest) =
     (if \<not> braces info then ctl L rc rest
      else (case (if condKnown info = Some False then CTrue
                  else if preIncrement rc > L then CThrow else ctl L (preIncrement rc) ifBlock) of
              CThrow \<Rightarrow> CThrow
            | CFalse \<Rightarrow> ctl L rc (ifBlock @ (if hasElse info then elseBlock else []) @ rest)
            | CTrue \<Rightarrow>
                (case (if hasElse info \<and> condKnown info \<noteq> Some True
                       then (if preIncrement rc > L then CThrow else ctl L (preIncrement rc) elseBlock)
                       else CTrue) of
                   CThrow \<Rightarrow> CThrow
                 | CFalse \<Rightarrow> CFalse
                 | CTrue \<Rightarrow> ctl L rc rest)))"
| "ctl L rc (UnknownControl # rest) = CFalse"
| "ctl L rc (Goto # rest) = CFalse"
| "ctl L rc (s # rest) = ctl L rc rest"
  by pat_completeness auto
termination
  by (relation "measure (\<lambda>(L, rc, block). sum_list (map stmtSize block))") auto

text \<open>An outcome of \<open>walk\<close> agrees with a value of \<open>ctl\<close>; a false result comes with the empty state.\<close>

fun agrees :: "Outcome \<Rightarrow> Ctl \<Rightarrow> bool" where
  "agrees (Thrown e) c = (c = CThrow)"
| "agrees (Returned b v) c = (c = (if b then CTrue else CFalse) \<and> (\<not> b \<longrightarrow> v = emptyVarInfo))"

subsection \<open>Names for the steps of the if branch\<close>

text \<open>
  The state after the calls and assignments of the condition, the two copies after the
  comparisons of the condition, and the results of the analysis of the two blocks, as \<open>walk\<close>
  computes them for \<open>IfElse info ifBlock elseBlock\<close>.
\<close>

definition ifCopies :: "Env \<Rightarrow> IfInfo \<Rightarrow> VarInfo \<Rightarrow> int set \<Rightarrow> VarInfo \<times> VarInfo" where
  "ifCopies env info varInfo notzero =
     visitCond env notzero (condAst info) (fst (condEffect info varInfo), fst (condEffect info varInfo))"

definition ifResult ::
  "Env \<Rightarrow> IfInfo \<Rightarrow> Stmt list \<Rightarrow> VarInfo \<Rightarrow> int set \<Rightarrow> int \<Rightarrow> Outcome \<times> Diag list" where
  "ifResult env info ifBlock varInfo notzero recursiveCount =
     (if condKnown info = Some False
      then (Returned True (fst (ifCopies env info varInfo notzero)), [])
      else checkScope env (ifStart info) (ifEnd info) ifBlock
             (fst (ifCopies env info varInfo notzero)) notzero recursiveCount)"

definition elseResult ::
  "Env \<Rightarrow> IfInfo \<Rightarrow> Stmt list \<Rightarrow> VarInfo \<Rightarrow> int set \<Rightarrow> int \<Rightarrow> Outcome \<times> Diag list" where
  "elseResult env info elseBlock varInfo notzero recursiveCount =
     (if hasElse info \<and> condKnown info \<noteq> Some True
      then checkScope env (elseStart info) (elseEnd info) elseBlock
             (snd (ifCopies env info varInfo notzero)) notzero recursiveCount
      else (Returned True (snd (ifCopies env info varInfo notzero)), []))"


subsection \<open>The depth of the recursion\<close>

text \<open>
  \<open>checkScopeDepth\<close> counts the calls of \<open>checkScope\<close> that are active at the same time
  at most while \<open>checkScope\<close> runs on the same arguments, the call itself included, and
  \<open>walkDepth\<close> does so for the calls that the loop makes. The two functions follow
  \<open>checkScope\<close> and \<open>walk\<close> equation by equation: where the loop calls \<open>checkScope\<close> for a
  block the count of that call is taken, and where the loop goes on, it goes on from the same
  state. They measure the analysis and are not part of it.
\<close>

function (sequential) checkScopeDepth ::
    "Env \<Rightarrow> Token \<Rightarrow> Token \<Rightarrow> Stmt list \<Rightarrow> VarInfo \<Rightarrow> int set \<Rightarrow> int \<Rightarrow> nat"
  and walkDepth ::
    "Env \<Rightarrow> int set \<Rightarrow> Token \<Rightarrow> Stmt list \<Rightarrow> VarInfo \<Rightarrow> int set \<Rightarrow> int \<Rightarrow> nat"
  where
  "checkScopeDepth env startToken endToken block varInfo notzero recursiveCount =
     Suc (if preIncrement recursiveCount > recursiveLimit (build env) then 0
          else walkDepth env (conditionalAlloc varInfo) endToken block varInfo notzero
                 (preIncrement recursiveCount))"
| "walkDepth env conditionalAlloc0 endToken [] varInfo notzero recursiveCount = 0"
| "walkDepth env conditionalAlloc0 endToken (Opaque effect # rest) varInfo notzero recursiveCount =
     walkDepth env conditionalAlloc0 endToken rest
       (fst (fst (effect conditionalAlloc0 endToken (varInfo, notzero))))
       (snd (fst (effect conditionalAlloc0 endToken (varInfo, notzero)))) recursiveCount"
| "walkDepth env conditionalAlloc0 endToken (Assign a # rest) varInfo notzero recursiveCount =
     walkDepth env conditionalAlloc0 endToken rest
       (fst (fst (assignmentStmt env a conditionalAlloc0 endToken (varInfo, notzero))))
       (snd (fst (assignmentStmt env a conditionalAlloc0 endToken (varInfo, notzero))))
       recursiveCount"
| "walkDepth env conditionalAlloc0 endToken (IfElse info ifBlock elseBlock # rest) varInfo notzero
       recursiveCount =
     (if \<not> braces info
      then walkDepth env conditionalAlloc0 endToken rest (fst (condEffect info varInfo)) notzero
             recursiveCount
      else
       (let d1 = (if condKnown info = Some False then 0
                  else checkScopeDepth env (ifStart info) (ifEnd info) ifBlock
                         (fst (ifCopies env info varInfo notzero)) notzero recursiveCount)
        in case fst (ifResult env info ifBlock varInfo notzero recursiveCount) of
             Thrown e \<Rightarrow> d1
           | Returned False v \<Rightarrow>
               max d1
                 (walkDepth env conditionalAlloc0 endToken
                    (ifBlock @ (if hasElse info then elseBlock else []) @ rest)
                    (fst (fst (condWalk info conditionalAlloc0 endToken
                                 (clear (fst (condEffect info varInfo)), notzero))))
                    (snd (fst (condWalk info conditionalAlloc0 endToken
                                 (clear (fst (condEffect info varInfo)), notzero))))
                    recursiveCount)
           | Returned True varInfo1' \<Rightarrow>
               (let d2 = (if hasElse info \<and> condKnown info \<noteq> Some True
                          then checkScopeDepth env (elseStart info) (elseEnd info) elseBlock
                                 (snd (ifCopies env info varInfo notzero)) notzero recursiveCount
                          else 0)
                in case fst (elseResult env info elseBlock varInfo notzero recursiveCount) of
                     Thrown e \<Rightarrow> max d1 d2
                   | Returned False v \<Rightarrow> max d1 d2
                   | Returned True varInfo2' \<Rightarrow>
                       max (max d1 d2)
                         (walkDepth env conditionalAlloc0 endToken rest
                            (mergeBranches conditionalAlloc0 (fst (condEffect info varInfo))
                               varInfo1' varInfo2')
                            notzero recursiveCount))))"
| "walkDepth env conditionalAlloc0 endToken (UnknownControl # rest) varInfo notzero recursiveCount = 0"
| "walkDepth env conditionalAlloc0 endToken (Return tok # rest) varInfo notzero recursiveCount =
     walkDepth env conditionalAlloc0 endToken rest (fst (returnStmt env tok varInfo)) notzero
       recursiveCount"
| "walkDepth env conditionalAlloc0 endToken (Throw tok scopes # rest) varInfo notzero recursiveCount =
     walkDepth env conditionalAlloc0 endToken rest (fst (throwStmt env tok scopes varInfo)) notzero
       recursiveCount"
| "walkDepth env conditionalAlloc0 endToken (Goto # rest) varInfo notzero recursiveCount = 0"
| "walkDepth env conditionalAlloc0 endToken (BreakContinue # rest) varInfo notzero recursiveCount =
     walkDepth env conditionalAlloc0 endToken rest (clear varInfo) notzero recursiveCount"
| "walkDepth env conditionalAlloc0 endToken (SmartPointer sp # rest) varInfo notzero recursiveCount =
     walkDepth env conditionalAlloc0 endToken rest (fst (smartPointerStmt env endToken sp varInfo))
       notzero recursiveCount"
  by pat_completeness auto
termination
  by (relation "measure (\<lambda>x. case x of
          Inl (env, startToken, endToken, block, r) \<Rightarrow> Suc (2 * sum_list (map stmtSize block))
        | Inr (env, ca, endToken, block, r) \<Rightarrow> 2 * sum_list (map stmtSize block))")
     auto

text \<open>
  The nesting of the \<open>if\<close> statements with braces in a statement and in a block, as the
  source text shows it.
\<close>

fun ifDepth :: "Stmt \<Rightarrow> nat" and blockDepth :: "Stmt list \<Rightarrow> nat" where
  "ifDepth (IfElse info ifBlock elseBlock) =
     (if braces info
      then Suc (max (blockDepth ifBlock) (if hasElse info then blockDepth elseBlock else 0))
      else 0)"
| "ifDepth (Opaque effect) = 0"
| "ifDepth (Assign a) = 0"
| "ifDepth UnknownControl = 0"
| "ifDepth (Return tok) = 0"
| "ifDepth (Throw tok scopes) = 0"
| "ifDepth Goto = 0"
| "ifDepth BreakContinue = 0"
| "ifDepth (SmartPointer sp) = 0"
| "blockDepth [] = 0"
| "blockDepth (s # ss) = max (ifDepth s) (blockDepth ss)"

text \<open>
  Two predicates for the proofs about the limit: an outcome that is no exception other than the
  one of the limit, and a depth that fits an outcome of a run at the count \<open>rc\<close> under the
  limit \<open>L\<close>, which is the full depth up to the limit when the run threw and less otherwise.
\<close>

fun limitOnly :: "Outcome \<Rightarrow> bool" where
  "limitOnly (Thrown err) = (\<exists>t. err = InternalError t limitMessage LIMIT)"
| "limitOnly (Returned b v) = True"

fun depthFits :: "int \<Rightarrow> int \<Rightarrow> Outcome \<Rightarrow> nat \<Rightarrow> bool" where
  "depthFits L rc (Thrown err) d = (d = nat (L - rc) + 1)"
| "depthFits L rc (Returned b v) d = (d \<le> nat (L - rc))"
section \<open>Sample inputs\<close>

text \<open>
  A small library configuration: \<open>malloc\<close> allocates and \<open>free\<close> releases family 1,
  \<open>realloc\<close> reallocates its first argument, and \<open>fdopen\<close> both releases its
  argument and allocates its result.
\<close>

definition exLib :: Library where
  "exLib = \<lparr>getAllocFuncInfo = (\<lambda>t. if tokStr t = ''fdopen'' \<or> tokStr t = ''malloc''
                                      then Some \<lparr>groupId = 1, arg = -1, reallocArg = 0\<rparr> else None),
            getDeallocFuncInfo = (\<lambda>t. if tokStr t = ''free'' \<or> tokStr t = ''fdopen''
                                      then Some \<lparr>groupId = 1, arg = 1, reallocArg = 0\<rparr> else None),
            getReallocFuncInfo = (\<lambda>t. if tokStr t = ''realloc''
                                      then Some \<lparr>groupId = 1, arg = -1, reallocArg = 1\<rparr> else None),
            isresource = (\<lambda>ty. False),
            getFunctionName = tokStr\<rparr>"

definition mkTok :: "string \<Rightarrow> int \<Rightarrow> nat \<Rightarrow> Token" where
  "mkTok s v i = \<lparr>tokStr = s, tokVarId = v, tokIndex = i, prevStr = ''('', astTopStr = ''(''\<rparr>"

text \<open>The state after \<open>p = malloc(..); free(p);\<close> for the variable \<open>p\<close> with id 1.\<close>

definition exFreed :: VarInfo where
  "exFreed = emptyVarInfo\<lparr>alloctype := [(1, mkAllocInfo 1 DEALLOC (Some (mkTok ''free'' 0 1)))]\<rparr>"

text \<open>The state after \<open>p = malloc(..);\<close>, and the same with the allocation at another token.\<close>

definition exAlloc :: VarInfo where
  "exAlloc = emptyVarInfo\<lparr>alloctype := [(1, mkAllocInfo 1 ALLOC (Some (mkTok ''malloc'' 0 2)))]\<rparr>"

definition exAlloc2 :: VarInfo where
  "exAlloc2 = emptyVarInfo\<lparr>alloctype := [(1, mkAllocInfo 1 ALLOC (Some (mkTok ''malloc'' 0 9)))]\<rparr>"

text \<open>
  Modelled from the spec: \<open>VarInfo::reallocToAlloc\<close> is defined in the header. Section 4.3
  of the specification says it converts the variable's Reallocated status back to Allocated.
  It is used for the sample environment only; the analysis takes the function from \<open>Env\<close>.
\<close>

definition reallocToAllocSpec :: "VarInfo \<Rightarrow> int \<Rightarrow> VarInfo" where
  "reallocToAllocSpec vi k =
     (case map_find (alloctype vi) k of
        Some a \<Rightarrow> if status a = REALLOC
                  then vi\<lparr>alloctype := map_assign k (a\<lparr>status := ALLOC\<rparr>) (alloctype vi)\<rparr>
                  else vi
      | None \<Rightarrow> vi)"

text \<open>
  A sample environment: the variables with ids 1 and 2 are the local pointers \<open>p\<close> and \<open>q\<close>
  of a function whose body ends at token 99; no return expression uses them.
\<close>

definition exEnv :: Env where
  "exEnv = \<lparr>library = exLib, build = OtherBuild, reallocToAlloc = reallocToAllocSpec,
            outparamRet = (\<lambda>t. None),
            getVariableFromVarId = (\<lambda>v. if v = 1 then Some \<lparr>varName = ''p'', varIsReference = False,
                                                    varScopeBodyEnd = Some (mkTok ''}'' 0 99)\<rparr>
                                         else if v = 2 then Some \<lparr>varName = ''q'', varIsReference = False,
                                                    varScopeBodyEnd = Some (mkTok ''}'' 0 99)\<rparr>
                                         else None),
            ptrUsage = (\<lambda>t v. NONE),
            outparamChecked = (\<lambda>t a. False),
            checkLibrary = False,
            usageHasBody = (\<lambda>t. False),
            usageIsVariable = (\<lambda>t. False)\<rparr>"


text \<open>The state after \<open>p = malloc(..); q = malloc(..);\<close>.\<close>

definition exTwo :: VarInfo where
  "exTwo = emptyVarInfo\<lparr>alloctype := [(1, mkAllocInfo 1 ALLOC (Some (mkTok ''malloc'' 0 2))),
                                         (2, mkAllocInfo 1 ALLOC (Some (mkTok ''malloc'' 0 8)))]\<rparr>"

text \<open>
  \<open>std::unique_ptr<T, D> up(p, d);\<close> with a deleter \<open>d\<close> that is neither a pointer to a
  function nor a lambda, and whose type has no body to scan.
\<close>

definition exSmartPtr :: SmartPtr where
  "exSmartPtr = \<lparr>spFtok = mkTok ''unique_ptr'' 0 12, spVtok = mkTok ''p'' 1 20, spMatches = True,
                 spReleased = (\<lambda>endToken. False), spArrayDelete = False,
                 spDeleter = Some \<lparr>delFuncPtr = None, delScope = None\<rparr>\<rparr>"

definition exTryScopes :: "Scope list" where
  "exTryScopes = [\<lparr>scopeType = eIf, isExecutable = True\<rparr>, \<lparr>scopeType = eTry, isExecutable = True\<rparr>,
                  \<lparr>scopeType = eFunction, isExecutable = True\<rparr>,
                  \<lparr>scopeType = eGlobal, isExecutable = False\<rparr>]"

definition exFunScopes :: "Scope list" where
  "exFunScopes = [\<lparr>scopeType = eIf, isExecutable = True\<rparr>, \<lparr>scopeType = eFunction, isExecutable = True\<rparr>,
                  \<lparr>scopeType = eGlobal, isExecutable = False\<rparr>]"


text \<open>
  \<open>if (c) { ... }\<close> with a condition of unknown value that holds no call, assignment or
  comparison.
\<close>

definition exIf :: IfInfo where
  "exIf = \<lparr>condKnown = None, condEffect = (\<lambda>v. (v, [])), braces = True, condAst = CNull,
           condWalk = (\<lambda>ca endToken s. (s, [])), ifStart = mkTok ''{'' 0 40, ifEnd = mkTok ''}'' 0 50,
           hasElse = False, elseStart = mkTok ''{'' 0 52, elseEnd = mkTok ''}'' 0 60\<rparr>"

text \<open>\<open>n\<close> nested \<open>if\<close> statements.\<close>

fun nestIf :: "nat \<Rightarrow> Stmt list" where
  "nestIf 0 = []"
| "nestIf (Suc n) = [IfElse exIf (nestIf n) []]"

text \<open>
  The scopes around a \<open>throw\<close> in a member function of a class that is declared inside a
  \<open>try\<close> block.
\<close>

definition exLocalClassScopes :: "Scope list" where
  "exLocalClassScopes = [\<lparr>scopeType = eFunction, isExecutable = True\<rparr>,
                         \<lparr>scopeType = eClass, isExecutable = False\<rparr>,
                         \<lparr>scopeType = eTry, isExecutable = True\<rparr>,
                         \<lparr>scopeType = eFunction, isExecutable = True\<rparr>,
                         \<lparr>scopeType = eGlobal, isExecutable = False\<rparr>]"

text \<open>The assignment \<open>p = malloc(2);\<close> at the tokens 42 to 48.\<close>

definition exAssignment :: Assignment where
  "exAssignment =
     \<lparr>asVarTok = mkTok ''p'' 1 42, asOtherVars = None,
      asRhs = ANode (mkTok ''('' 0 45) (ANode (mkTok ''malloc'' 0 44) ANull ANull)
                (ANode (mkTok ''2'' 0 46) ANull ANull),
      asLocalVarNoAutoDealloc = True,
      asCall = Some (mkTok ''malloc'' 0 44, [mkTok ''2'' 0 46]),
      asNew = None, asNotzero = False\<rparr>"

text \<open>The body \<open>{ p = malloc(2); }\<close>, whose end is token 99.\<close>

definition exLeaky :: "Stmt list" where
  "exLeaky = [Assign exAssignment]"



text \<open>The state after \<open>p = new T; q = malloc(..);\<close>.\<close>

definition exNewAndMalloc :: VarInfo where
  "exNewAndMalloc =
     emptyVarInfo\<lparr>alloctype := [(1, mkAllocInfo NEW ALLOC (Some (mkTok ''new'' 0 3))),
                                (2, mkAllocInfo 1 ALLOC (Some (mkTok ''malloc'' 0 8)))]\<rparr>"

text \<open>
  The assignment \<open>p = malloc(n);\<close> whose tokens start at index \<open>i\<close>, and the two
  statements \<open>if (c) { p = malloc(2); p = malloc(3); goto out; }\<close> and
  \<open>if (c) { } else { p = malloc(2); p = malloc(3); goto out; }\<close>, each by its \<open>if\<close> and
  the statements of the block that is not empty.
\<close>

definition assignMalloc :: "nat \<Rightarrow> string \<Rightarrow> Assignment" where
  "assignMalloc i n =
     \<lparr>asVarTok = mkTok ''p'' 1 i, asOtherVars = None,
      asRhs = ANode (mkTok ''('' 0 (i + 3)) (ANode (mkTok ''malloc'' 0 (i + 2)) ANull ANull)
                (ANode (mkTok n 0 (i + 4)) ANull ANull),
      asLocalVarNoAutoDealloc = True,
      asCall = Some (mkTok ''malloc'' 0 (i + 2), [mkTok n 0 (i + 4)]),
      asNew = None, asNotzero = False\<rparr>"

definition exIfGoto :: IfInfo where
  "exIfGoto = exIf\<lparr>ifEnd := mkTok ''}'' 0 59\<rparr>"

definition exGotoBlock :: "Stmt list" where
  "exGotoBlock = [Assign (assignMalloc 42 ''2''), Assign (assignMalloc 49 ''3''), Goto]"

definition exElseGoto :: IfInfo where
  "exElseGoto = exIf\<lparr>ifEnd := mkTok ''}'' 0 41, hasElse := True, elseStart := mkTok ''{'' 0 43,
                      elseEnd := mkTok ''}'' 0 62\<rparr>"

definition exGotoElseBlock :: "Stmt list" where
  "exGotoElseBlock = [Assign (assignMalloc 45 ''2''), Assign (assignMalloc 52 ''3''), Goto]"
section \<open>Facts about the map operations\<close>

lemma map_find_assign: "map_find (map_assign k v m) k' = (if k' = k then Some v else map_find m k')"
  by (induction m) (auto simp: map_find_def)

lemma map_find_erase: "map_find (map_erase k m) k' = (if k' = k then None else map_find m k')"
  by (induction m) (auto simp: map_find_def map_erase_def)

lemma map_find_insert:
  "map_find (map_insert k v m) k' =
     (case map_find m k' of Some w \<Rightarrow> Some w | None \<Rightarrow> if k' = k then Some v else None)"
  by (auto simp: map_insert_def map_find_assign split: option.splits)

lemma map_find_Cons: "map_find ((k', v) # m) k = (if k = k' then Some v else map_find m k)"
  by (simp add: map_find_def)

lemma map_find_insert_range:
  "map_find (map_insert_range src m) k =
     (case map_find m k of Some w \<Rightarrow> Some w | None \<Rightarrow> map_find src k)"
proof (induction src arbitrary: m)
  case Nil
  show ?case by (simp add: map_find_def split: option.splits)
next
  case (Cons kv src)
  obtain k' v' where kv: "kv = (k', v')" by (cases kv)
  have "map_find (map_insert_range (kv # src) m) k =
        (case map_find (map_insert k' v' m) k of Some w \<Rightarrow> Some w | None \<Rightarrow> map_find src k)"
    by (simp add: kv Cons.IH)
  also have "\<dots> = (case map_find m k of Some w \<Rightarrow> Some w | None \<Rightarrow> map_find (kv # src) k)"
    by (cases "map_find m k") (simp_all add: kv map_find_insert map_find_Cons)
  finally show ?case .
qed

lemma doubleFreeError_one:
  "length (filter isDoubleFree (doubleFreeError lib tok prev v ty)) = 1
   \<and> filter isLeak (doubleFreeError lib tok prev v ty) = []
   \<and> length (doubleFreeError lib tok prev v ty) = 1"
  by (simp add: doubleFreeError_def)

section \<open>Facts about the iterations of the join\<close>

lemma map_find_None_iff: "map_find m k = None \<longleftrightarrow> k \<notin> fst ` set m"
  by (simp add: map_find_def map_of_eq_None_iff)

lemma map_find_Some_iff:
  "distinct (map fst m) \<Longrightarrow> map_find m k = Some a \<longleftrightarrow> (k, a) \<in> set m"
  by (simp add: map_find_def)

lemma distinct_map_erase: "distinct (map fst m) \<Longrightarrow> distinct (map fst (map_erase k m))"
  by (simp add: map_erase_def distinct_map_filter)

lemma erase_simps:
  "alloctype (erase vi k) = map_erase k (alloctype vi)"
  "possibleUsage (erase vi k) = map_erase k (possibleUsage vi)"
  "conditionalAlloc (erase vi k) = conditionalAlloc vi - {k}"
  "referenced (erase vi k) = referenced vi - {k}"
  by (simp_all add: erase_def)

lemma eraseLost_keep:
  "\<not> (k \<in> conditionalAlloc old \<and> k \<in> fst ` set it
       \<and> (map_find (alloctype v1) k = None \<or> map_find (alloctype v2) k = None)) \<Longrightarrow>
   map_find (alloctype (fst (eraseLostConditional old it v1 v2))) k = map_find (alloctype v1) k
   \<and> map_find (alloctype (snd (eraseLostConditional old it v1 v2))) k = map_find (alloctype v2) k
   \<and> map_find (possibleUsage (fst (eraseLostConditional old it v1 v2))) k = map_find (possibleUsage v1) k
   \<and> map_find (possibleUsage (snd (eraseLostConditional old it v1 v2))) k = map_find (possibleUsage v2) k"
proof (induction old it v1 v2 rule: eraseLostConditional.induct)
  case (1 old varInfo1 varInfo2)
  show ?case by simp
next
  case (2 old varId a it varInfo1 varInfo2)
  show ?case
  proof (cases "varId \<in> conditionalAlloc old \<and>
      (map_find (alloctype varInfo1) varId = None \<or> map_find (alloctype varInfo2) varId = None)")
    case True
    then have ne: "k \<noteq> varId" using "2.prems" by auto
    have "\<not> (k \<in> conditionalAlloc old \<and> k \<in> fst ` set it \<and>
             (map_find (alloctype (erase varInfo1 varId)) k = None \<or>
              map_find (alloctype (erase varInfo2 varId)) k = None))"
      using "2.prems" ne by (auto simp: erase_simps map_find_erase)
    from "2.IH"(2) [OF _ _ this] True ne show ?thesis
      by (auto simp: erase_simps map_find_erase)
  next
    case False
    then show ?thesis using "2.IH"(1,3) "2.prems" by auto
  qed
qed

lemma eraseLost_distinct:
  "distinct (map fst (alloctype v1)) \<Longrightarrow> distinct (map fst (alloctype v2)) \<Longrightarrow>
   distinct (map fst (alloctype (fst (eraseLostConditional old it v1 v2))))
   \<and> distinct (map fst (alloctype (snd (eraseLostConditional old it v1 v2))))"
  by (induction old it v1 v2 rule: eraseLostConditional.induct)
     (auto simp: erase_simps distinct_map_erase)

lemma conditionalAllocIn_eq:
  "conditionalAllocIn it other old acc =
     acc \<union> {k \<in> fst ` set it. map_find (alloctype other) k = None \<and> map_find (alloctype old) k = None}"
  by (induction it other old acc rule: conditionalAllocIn.induct) auto

lemma conditionalDealloc_fst:
  "fst (conditionalDealloc it ca0 acc other) =
     acc - {k \<in> ca0. \<exists>a. (k, a) \<in> set it \<and> managed a}"
  by (induction it ca0 acc other rule: conditionalDealloc.induct) auto

lemma conditionalDealloc_find:
  "map_find (alloctype (snd (conditionalDealloc it ca0 acc other))) k =
     (if k \<in> ca0 \<and> (\<exists>a. (k, a) \<in> set it \<and> managed a) then None
      else map_find (alloctype other) k)"
proof (induction it ca0 acc other rule: conditionalDealloc.induct)
  case (1 ca0 acc other)
  show ?case by simp
next
  case (2 k' a' it ca0 acc other)
  show ?case
  proof (cases "managed a' \<and> k' \<in> ca0")
    case True
    then have e: "conditionalDealloc ((k', a') # it) ca0 acc other =
                  conditionalDealloc it ca0 (acc - {k'}) (erase other k')"
      by simp
    have "map_find (alloctype (snd (conditionalDealloc it ca0 (acc - {k'}) (erase other k')))) k =
        (if k \<in> ca0 \<and> (\<exists>a. (k, a) \<in> set it \<and> managed a) then None
         else map_find (alloctype (erase other k')) k)"
      using "2.IH"(1) True by simp
    with True show ?thesis
      unfolding e by (cases "k = k'") (auto simp: erase_simps map_find_erase)
  next
    case False
    then have e: "conditionalDealloc ((k', a') # it) ca0 acc other =
                  conditionalDealloc it ca0 acc other"
      by auto
    have "map_find (alloctype (snd (conditionalDealloc it ca0 acc other))) k =
        (if k \<in> ca0 \<and> (\<exists>a. (k, a) \<in> set it \<and> managed a) then None
         else map_find (alloctype other) k)"
      using "2.IH"(2) False by simp
    with False show ?thesis
      unfolding e by auto
  qed
qed

lemma conditionalDealloc_findU:
  "map_find (possibleUsage (snd (conditionalDealloc it ca0 acc other))) k =
     (if k \<in> ca0 \<and> (\<exists>a. (k, a) \<in> set it \<and> managed a) then None
      else map_find (possibleUsage other) k)"
proof (induction it ca0 acc other rule: conditionalDealloc.induct)
  case (1 ca0 acc other)
  show ?case by simp
next
  case (2 k' a' it ca0 acc other)
  show ?case
  proof (cases "managed a' \<and> k' \<in> ca0")
    case True
    then have e: "conditionalDealloc ((k', a') # it) ca0 acc other =
                  conditionalDealloc it ca0 (acc - {k'}) (erase other k')"
      by simp
    have "map_find (possibleUsage (snd (conditionalDealloc it ca0 (acc - {k'}) (erase other k')))) k =
        (if k \<in> ca0 \<and> (\<exists>a. (k, a) \<in> set it \<and> managed a) then None
         else map_find (possibleUsage (erase other k')) k)"
      using "2.IH"(1) True by simp
    with True show ?thesis
      unfolding e by (cases "k = k'") (auto simp: erase_simps map_find_erase)
  next
    case False
    then have e: "conditionalDealloc ((k', a') # it) ca0 acc other =
                  conditionalDealloc it ca0 acc other"
      by auto
    have "map_find (possibleUsage (snd (conditionalDealloc it ca0 acc other))) k =
        (if k \<in> ca0 \<and> (\<exists>a. (k, a) \<in> set it \<and> managed a) then None
         else map_find (possibleUsage other) k)"
      using "2.IH"(2) False by simp
    with False show ?thesis
      unfolding e by auto
  qed
qed

lemma conditionalDealloc_distinct:
  "distinct (map fst (alloctype other)) \<Longrightarrow>
   distinct (map fst (alloctype (snd (conditionalDealloc it ca0 acc other))))"
  by (induction it ca0 acc other rule: conditionalDealloc.induct)
     (simp_all add: erase_simps distinct_map_erase)

lemma conditionalDealloc_snd_acc:
  "snd (conditionalDealloc it ca0 acc other) = snd (conditionalDealloc it ca0 {} other)"
  by (induction it ca0 acc other rule: conditionalDealloc.induct) simp_all

lemma mergeBranches_maps:
  "alloctype (mergeBranches ca0 old varInfo1 varInfo2) =
     map_insert_range
       (alloctype (snd (conditionalDealloc
          (alloctype (fst (eraseLostConditional old (alloctype old) varInfo1 varInfo2))) ca0 {}
          (snd (eraseLostConditional old (alloctype old) varInfo1 varInfo2)))))
       (map_insert_range
          (alloctype (snd (conditionalDealloc
             (alloctype (snd (conditionalDealloc
                (alloctype (fst (eraseLostConditional old (alloctype old) varInfo1 varInfo2))) ca0 {}
                (snd (eraseLostConditional old (alloctype old) varInfo1 varInfo2))))) ca0 {}
             (fst (eraseLostConditional old (alloctype old) varInfo1 varInfo2))))) [])"
  "possibleUsage (mergeBranches ca0 old varInfo1 varInfo2) =
     map_insert_range
       (possibleUsage (snd (conditionalDealloc
          (alloctype (fst (eraseLostConditional old (alloctype old) varInfo1 varInfo2))) ca0 {}
          (snd (eraseLostConditional old (alloctype old) varInfo1 varInfo2)))))
       (map_insert_range
          (possibleUsage (snd (conditionalDealloc
             (alloctype (snd (conditionalDealloc
                (alloctype (fst (eraseLostConditional old (alloctype old) varInfo1 varInfo2))) ca0 {}
                (snd (eraseLostConditional old (alloctype old) varInfo1 varInfo2))))) ca0 {}
             (fst (eraseLostConditional old (alloctype old) varInfo1 varInfo2))))) [])"
  "referenced (mergeBranches ca0 old varInfo1 varInfo2) = {}"
proof -
  obtain v1 v2 where e: "eraseLostConditional old (alloctype old) varInfo1 varInfo2 = (v1, v2)"
    by (cases "eraseLostConditional old (alloctype old) varInfo1 varInfo2")
  obtain ca3 v2' where c: "conditionalDealloc (alloctype v1) ca0
       (conditionalAllocIn (alloctype v2) v1 old (conditionalAllocIn (alloctype v1) v2 old {})) v2 = (ca3, v2')"
    by (cases "conditionalDealloc (alloctype v1) ca0
       (conditionalAllocIn (alloctype v2) v1 old (conditionalAllocIn (alloctype v1) v2 old {})) v2")
  obtain ca4 v1' where c': "conditionalDealloc (alloctype v2') ca0 ca3 v1 = (ca4, v1')"
    by (cases "conditionalDealloc (alloctype v2') ca0 ca3 v1")
  have v2': "snd (conditionalDealloc (alloctype v1) ca0 {} v2) = v2'"
    using c conditionalDealloc_snd_acc [of "alloctype v1" ca0 _ v2] by (metis snd_conv)
  have v1': "snd (conditionalDealloc (alloctype v2') ca0 {} v1) = v1'"
    using c' conditionalDealloc_snd_acc [of "alloctype v2'" ca0 _ v1] by (metis snd_conv)
  have m: "mergeBranches ca0 old varInfo1 varInfo2 =
      \<lparr>alloctype = map_insert_range (alloctype v2') (map_insert_range (alloctype v1') []),
       possibleUsage = map_insert_range (possibleUsage v2') (map_insert_range (possibleUsage v1') []),
       conditionalAlloc = ca4, referenced = {}\<rparr>"
    by (simp add: mergeBranches_def Let_def e c c')
  show "alloctype (mergeBranches ca0 old varInfo1 varInfo2) =
     map_insert_range
       (alloctype (snd (conditionalDealloc
          (alloctype (fst (eraseLostConditional old (alloctype old) varInfo1 varInfo2))) ca0 {}
          (snd (eraseLostConditional old (alloctype old) varInfo1 varInfo2)))))
       (map_insert_range
          (alloctype (snd (conditionalDealloc
             (alloctype (snd (conditionalDealloc
                (alloctype (fst (eraseLostConditional old (alloctype old) varInfo1 varInfo2))) ca0 {}
                (snd (eraseLostConditional old (alloctype old) varInfo1 varInfo2))))) ca0 {}
             (fst (eraseLostConditional old (alloctype old) varInfo1 varInfo2))))) [])"
    by (simp add: m e v2' v1')
  show "possibleUsage (mergeBranches ca0 old varInfo1 varInfo2) =
     map_insert_range
       (possibleUsage (snd (conditionalDealloc
          (alloctype (fst (eraseLostConditional old (alloctype old) varInfo1 varInfo2))) ca0 {}
          (snd (eraseLostConditional old (alloctype old) varInfo1 varInfo2)))))
       (map_insert_range
          (possibleUsage (snd (conditionalDealloc
             (alloctype (snd (conditionalDealloc
                (alloctype (fst (eraseLostConditional old (alloctype old) varInfo1 varInfo2))) ca0 {}
                (snd (eraseLostConditional old (alloctype old) varInfo1 varInfo2))))) ca0 {}
             (fst (eraseLostConditional old (alloctype old) varInfo1 varInfo2))))) [])"
    by (simp add: m e v2' v1')
  show "referenced (mergeBranches ca0 old varInfo1 varInfo2) = {}"
    by (simp add: m)
qed

lemma map_find_Nil: "map_find [] k = None"
  by (simp add: map_find_def)

lemma mergeBranches_conditionalAlloc:
  "conditionalAlloc (mergeBranches ca0 old varInfo1 varInfo2) =
     (({k \<in> fst ` set (alloctype (fst (eraseLostConditional old (alloctype old) varInfo1 varInfo2))).
          map_find (alloctype (snd (eraseLostConditional old (alloctype old) varInfo1 varInfo2))) k = None
          \<and> map_find (alloctype old) k = None}
       \<union> {k \<in> fst ` set (alloctype (snd (eraseLostConditional old (alloctype old) varInfo1 varInfo2))).
          map_find (alloctype (fst (eraseLostConditional old (alloctype old) varInfo1 varInfo2))) k = None
          \<and> map_find (alloctype old) k = None})
      - {k \<in> ca0. \<exists>a. (k, a) \<in> set (alloctype (fst (eraseLostConditional old (alloctype old) varInfo1 varInfo2)))
                       \<and> managed a})
     - {k \<in> ca0. \<exists>a. (k, a) \<in> set (alloctype (snd (conditionalDealloc
            (alloctype (fst (eraseLostConditional old (alloctype old) varInfo1 varInfo2))) ca0 {}
            (snd (eraseLostConditional old (alloctype old) varInfo1 varInfo2))))) \<and> managed a}"
proof -
  have indep: "snd (conditionalDealloc it ca0 acc other) = snd (conditionalDealloc it ca0 {} other)"
    for it acc other
    by (induction it ca0 acc other rule: conditionalDealloc.induct) simp_all
  obtain v1 v2 where e: "eraseLostConditional old (alloctype old) varInfo1 varInfo2 = (v1, v2)"
    by (cases "eraseLostConditional old (alloctype old) varInfo1 varInfo2")
  obtain ca3 v2' where c: "conditionalDealloc (alloctype v1) ca0
       (conditionalAllocIn (alloctype v2) v1 old (conditionalAllocIn (alloctype v1) v2 old {})) v2 = (ca3, v2')"
    by (cases "conditionalDealloc (alloctype v1) ca0
       (conditionalAllocIn (alloctype v2) v1 old (conditionalAllocIn (alloctype v1) v2 old {})) v2")
  have v2': "snd (conditionalDealloc (alloctype v1) ca0 {} v2) = v2'"
    using c indep [of "alloctype v1" _ v2] by (metis snd_conv)
  have ca3: "ca3 = (conditionalAllocIn (alloctype v2) v1 old (conditionalAllocIn (alloctype v1) v2 old {}))
                   - {k \<in> ca0. \<exists>a. (k, a) \<in> set (alloctype v1) \<and> managed a}"
    using c conditionalDealloc_fst [of "alloctype v1" ca0 _ v2] by (metis fst_conv)
  have "conditionalAlloc (mergeBranches ca0 old varInfo1 varInfo2)
          = fst (conditionalDealloc (alloctype v2') ca0 ca3 v1)"
    by (simp add: mergeBranches_def Let_def e c split_beta)
  then show ?thesis
    by (simp add: e v2' ca3 conditionalDealloc_fst conditionalAllocIn_eq)
qed

lemma merge_conditional_iff:
  assumes d1: "distinct (map fst (alloctype varInfo1))"
    and d2: "distinct (map fst (alloctype varInfo2))"
    and old: "map_find (alloctype old) k = None"
    and one: "map_find (alloctype varInfo1) k = Some a \<and> map_find (alloctype varInfo2) k = None
            \<or> map_find (alloctype varInfo1) k = None \<and> map_find (alloctype varInfo2) k = Some a"
  shows "k \<in> conditionalAlloc (mergeBranches ca0 old varInfo1 varInfo2)
           \<longleftrightarrow> \<not> (managed a \<and> k \<in> ca0)"
proof -
  define v1 where "v1 = fst (eraseLostConditional old (alloctype old) varInfo1 varInfo2)"
  define v2 where "v2 = snd (eraseLostConditional old (alloctype old) varInfo1 varInfo2)"
  define v2' where "v2' = snd (conditionalDealloc (alloctype v1) ca0 {} v2)"
  have nk: "\<not> (k \<in> conditionalAlloc old \<and> k \<in> fst ` set (alloctype old)
       \<and> (map_find (alloctype varInfo1) k = None \<or> map_find (alloctype varInfo2) k = None))"
    using old by (simp add: map_find_None_iff)
  have f1: "map_find (alloctype v1) k = map_find (alloctype varInfo1) k"
    and f2: "map_find (alloctype v2) k = map_find (alloctype varInfo2) k"
    using eraseLost_keep [OF nk] by (simp_all add: v1_def v2_def)
  have dv1: "distinct (map fst (alloctype v1))" and dv2: "distinct (map fst (alloctype v2))"
    using eraseLost_distinct [OF d1 d2] by (simp_all add: v1_def v2_def)
  have dv2': "distinct (map fst (alloctype v2'))"
    unfolding v2'_def by (rule conditionalDealloc_distinct [OF dv2])
  have m1: "(k, b) \<in> set (alloctype v1) \<longleftrightarrow> map_find (alloctype varInfo1) k = Some b" for b
    by (simp add: map_find_Some_iff [OF dv1, symmetric] f1)
  have fv2': "map_find (alloctype v2') k =
      (if k \<in> ca0 \<and> (\<exists>b. (k, b) \<in> set (alloctype v1) \<and> managed b) then None
       else map_find (alloctype varInfo2) k)"
    by (simp only: v2'_def conditionalDealloc_find f2)
  have m2: "(k, b) \<in> set (alloctype v2') \<longleftrightarrow> map_find (alloctype v2') k = Some b" for b
    by (simp add: map_find_Some_iff [OF dv2', symmetric])
  have in1: "k \<in> fst ` set (alloctype v1) \<longleftrightarrow> map_find (alloctype varInfo1) k \<noteq> None"
    by (metis f1 map_find_None_iff)
  have in2: "k \<in> fst ` set (alloctype v2) \<longleftrightarrow> map_find (alloctype varInfo2) k \<noteq> None"
    by (metis f2 map_find_None_iff)
  have "k \<in> conditionalAlloc (mergeBranches ca0 old varInfo1 varInfo2) \<longleftrightarrow>
      ((k \<in> fst ` set (alloctype v1) \<and> map_find (alloctype v2) k = None \<and> map_find (alloctype old) k = None
        \<or> k \<in> fst ` set (alloctype v2) \<and> map_find (alloctype v1) k = None \<and> map_find (alloctype old) k = None)
       \<and> \<not> (k \<in> ca0 \<and> (\<exists>b. (k, b) \<in> set (alloctype v1) \<and> managed b))
       \<and> \<not> (k \<in> ca0 \<and> (\<exists>b. (k, b) \<in> set (alloctype v2') \<and> managed b)))"
    unfolding mergeBranches_conditionalAlloc v1_def v2_def v2'_def by simp
  also have "\<dots> \<longleftrightarrow> \<not> (managed a \<and> k \<in> ca0)"
  proof (rule disjE [OF one])
    assume c: "map_find (alloctype varInfo1) k = Some a \<and> map_find (alloctype varInfo2) k = None"
    then have "map_find (alloctype v2') k = None" by (simp add: fv2')
    with c old show ?thesis by (simp add: in1 in2 f1 f2 m1 m2) blast
  next
    assume c: "map_find (alloctype varInfo1) k = None \<and> map_find (alloctype varInfo2) k = Some a"
    then have "map_find (alloctype v2') k = Some a" by (simp add: fv2' m1)
    with c old show ?thesis by (simp add: in1 in2 f1 f2 m1 m2) blast
  qed
  finally show ?thesis .
qed


lemma eraseLost_find:
  "map_find (alloctype (fst (eraseLostConditional old it v1 v2))) k
     = (if k \<in> conditionalAlloc old \<and> k \<in> fst ` set it
           \<and> (map_find (alloctype v1) k = None \<or> map_find (alloctype v2) k = None)
        then None else map_find (alloctype v1) k)
   \<and> map_find (alloctype (snd (eraseLostConditional old it v1 v2))) k
     = (if k \<in> conditionalAlloc old \<and> k \<in> fst ` set it
           \<and> (map_find (alloctype v1) k = None \<or> map_find (alloctype v2) k = None)
        then None else map_find (alloctype v2) k)
   \<and> map_find (possibleUsage (fst (eraseLostConditional old it v1 v2))) k
     = (if k \<in> conditionalAlloc old \<and> k \<in> fst ` set it
           \<and> (map_find (alloctype v1) k = None \<or> map_find (alloctype v2) k = None)
        then None else map_find (possibleUsage v1) k)
   \<and> map_find (possibleUsage (snd (eraseLostConditional old it v1 v2))) k
     = (if k \<in> conditionalAlloc old \<and> k \<in> fst ` set it
           \<and> (map_find (alloctype v1) k = None \<or> map_find (alloctype v2) k = None)
        then None else map_find (possibleUsage v2) k)"
proof (induction old it v1 v2 rule: eraseLostConditional.induct)
  case (1 old varInfo1 varInfo2)
  show ?case by simp
next
  case (2 old varId a it varInfo1 varInfo2)
  show ?case
  proof (cases "varId \<in> conditionalAlloc old")
    case False
    then have e: "eraseLostConditional old ((varId, a) # it) varInfo1 varInfo2
                    = eraseLostConditional old it varInfo1 varInfo2"
      by simp
    show ?thesis
      unfolding e using "2.IH"(1) [OF False] False by (cases "k = varId") auto
  next
    case True
    show ?thesis
    proof (cases "map_find (alloctype varInfo1) varId = None \<or> map_find (alloctype varInfo2) varId = None")
      case lost: True
      then have e: "eraseLostConditional old ((varId, a) # it) varInfo1 varInfo2
                    = eraseLostConditional old it (erase varInfo1 varId) (erase varInfo2 varId)"
        using True by simp
      show ?thesis
        unfolding e using "2.IH"(2) [OF _ lost] True lost
        by (cases "k = varId") (auto simp: erase_simps map_find_erase)
    next
      case kept: False
      then have e: "eraseLostConditional old ((varId, a) # it) varInfo1 varInfo2
                    = eraseLostConditional old it varInfo1 varInfo2"
        using True by auto
      show ?thesis
        unfolding e using "2.IH"(3) [OF _ kept] True kept by (cases "k = varId") auto
    qed
  qed
qed
section \<open>Facts about the state operations and the statements\<close>

lemma clear_eq: "clear vi = emptyVarInfo"
  by (simp add: clear_def)

lemma erase_find_None: "map_find (alloctype (erase vi k)) k = None"
  by (simp add: erase_simps map_find_erase)

lemma empty_find_None: "map_find (alloctype emptyVarInfo) k = None"
  by (simp add: emptyVarInfo_def map_find_def)

lemma tryFoundIn_iff:
  "tryFoundIn scopes acc \<longleftrightarrow> acc \<or> (\<exists>s \<in> set (takeWhile isExecutable scopes). scopeType s = eTry)"
  by (induction scopes arbitrary: acc) auto

lemma checkDeleter_None_iff:
  "checkDeleter lib deleter = None \<longleftrightarrow>
     (\<exists>d. deleter = Some d \<and> delScope d = None
          \<and> (case delFuncPtr d of None \<Rightarrow> True | Some dtok \<Rightarrow> getDeallocFuncInfo lib dtok = None))"
  by (auto simp: checkDeleter_def Let_def split: option.splits)




section \<open>Facts about the control skeleton\<close>

lemma recursiveLimit_le: "recursiveLimit b \<le> 1000"
  by (cases b) simp_all

lemma preIncrement_simp: "n < 2147483647 \<Longrightarrow> preIncrement n = n + 1"
  by (simp add: preIncrement_def)

lemma ctl_mono:
  "ctl L rc' ss \<noteq> CThrow \<Longrightarrow> rc \<le> rc' \<Longrightarrow> rc' < 2147483647 \<Longrightarrow> L < 2147483647 \<Longrightarrow>
   ctl L rc' ss = ctl L rc ss"
proof (induction L rc' ss arbitrary: rc rule: ctl.induct)
  case (2 L rc' info ifBlock elseBlock rest)
  have p': "preIncrement rc' = rc' + 1" and p: "preIncrement rc = rc + 1"
    using "2.prems" by (simp_all add: preIncrement_simp)
  show ?case
  proof (cases "braces info")
    case False
    with "2.IH"(1) [of rc] "2.prems" show ?thesis by simp
  next
    case True
    define r1' where "r1' = (if condKnown info = Some False then CTrue
                  else if preIncrement rc' > L then CThrow else ctl L (preIncrement rc') ifBlock)"
    define r1 where "r1 = (if condKnown info = Some False then CTrue
                  else if preIncrement rc > L then CThrow else ctl L (preIncrement rc) ifBlock)"
    define r2' where "r2' = (if hasElse info \<and> condKnown info \<noteq> Some True
                       then (if preIncrement rc' > L then CThrow else ctl L (preIncrement rc') elseBlock)
                       else CTrue)"
    define r2 where "r2 = (if hasElse info \<and> condKnown info \<noteq> Some True
                       then (if preIncrement rc > L then CThrow else ctl L (preIncrement rc) elseBlock)
                       else CTrue)"
    have nt: "r1' \<noteq> CThrow"
      using "2.prems"(1) True by (auto simp: r1'_def split: if_splits)
    have e1: "r1 = r1'"
    proof (cases "condKnown info = Some False")
      case True
      then show ?thesis by (simp add: r1_def r1'_def)
    next
      case False
      with nt have a: "\<not> preIncrement rc' > L" and b: "ctl L (preIncrement rc') ifBlock \<noteq> CThrow"
        by (auto simp: r1'_def split: if_splits)
      from "2.IH"(2) [OF _ False a b, of "preIncrement rc"] True "2.prems" a False
      show ?thesis by (simp add: r1_def r1'_def p p')
    qed
    show ?thesis
    proof (cases r1')
      case CThrow
      with nt show ?thesis by simp
    next
      case CFalse
      have w: "ctl L rc' (IfElse info ifBlock elseBlock # rest)
                 = ctl L rc' (ifBlock @ (if hasElse info then elseBlock else []) @ rest)"
        using True CFalse by (simp add: r1'_def)
      have "ctl L rc' (ifBlock @ (if hasElse info then elseBlock else []) @ rest)
              = ctl L rc (ifBlock @ (if hasElse info then elseBlock else []) @ rest)"
        using "2.IH"(3) [of rc] True CFalse "2.prems" w by (simp add: r1'_def)
      then show ?thesis using True CFalse e1 w by (simp add: r1_def r1'_def)
    next
      case CTrue
      have nt2: "r2' \<noteq> CThrow"
        using "2.prems"(1) True CTrue by (auto simp: r1'_def r2'_def split: if_splits)
      have e2: "r2 = r2'"
      proof (cases "hasElse info \<and> condKnown info \<noteq> Some True")
        case False
        then show ?thesis by (auto simp: r2_def r2'_def)
      next
        case h: True
        with nt2 have a: "\<not> preIncrement rc' > L" and b: "ctl L (preIncrement rc') elseBlock \<noteq> CThrow"
          by (auto simp: r2'_def split: if_splits)
        from "2.IH"(4) [of "preIncrement rc"] True CTrue h a b "2.prems"
        show ?thesis by (simp add: r2_def r2'_def r1'_def p p')
      qed
      show ?thesis
      proof (cases r2')
        case CThrow
        with nt2 show ?thesis by simp
      next
        case CFalse
        then show ?thesis using True CTrue e1 e2 by (simp add: r1_def r1'_def r2_def r2'_def)
      next
        case c2: CTrue
        have w: "ctl L rc' (IfElse info ifBlock elseBlock # rest) = ctl L rc' rest"
          using True CTrue c2 by (simp add: r1'_def r2'_def)
        have "ctl L rc' rest = ctl L rc rest"
          using "2.IH"(5) [of rc] True CTrue c2 "2.prems" w
          by (simp add: r1'_def r2'_def)
        then show ?thesis using True CTrue c2 e1 e2 w by (simp add: r1_def r1'_def r2_def r2'_def)
      qed
    qed
  qed
qed simp_all

lemma ctl_append:
  "ctl L rc ss = CFalse \<Longrightarrow> ctl L rc (ss @ tl2) = CFalse"
proof (induction L rc ss rule: ctl.induct)
  case (2 L rc info ifBlock elseBlock rest)
  show ?case
  proof (cases "braces info")
    case False
    with "2.IH"(1) "2.prems" show ?thesis by simp
  next
    case True
    define r1 where "r1 = (if condKnown info = Some False then CTrue
                  else if preIncrement rc > L then CThrow else ctl L (preIncrement rc) ifBlock)"
    define r2 where "r2 = (if hasElse info \<and> condKnown info \<noteq> Some True
                       then (if preIncrement rc > L then CThrow else ctl L (preIncrement rc) elseBlock)
                       else CTrue)"
    show ?thesis
    proof (cases r1)
      case CThrow
      with "2.prems" True show ?thesis by (simp add: r1_def)
    next
      case CFalse
      have w: "ctl L rc (IfElse info ifBlock elseBlock # rest)
                 = ctl L rc (ifBlock @ (if hasElse info then elseBlock else []) @ rest)"
        using True CFalse by (simp add: r1_def)
      have "ctl L rc ((ifBlock @ (if hasElse info then elseBlock else []) @ rest) @ tl2) = CFalse"
        using "2.IH"(3) True CFalse "2.prems" w by (simp add: r1_def)
      then show ?thesis using True CFalse by (simp add: r1_def)
    next
      case CTrue
      show ?thesis
      proof (cases r2)
        case CThrow
        with "2.prems" True CTrue show ?thesis by (simp add: r1_def r2_def)
      next
        case CFalse
        then show ?thesis using True CTrue by (simp add: r1_def r2_def)
      next
        case c2: CTrue
        have w: "ctl L rc (IfElse info ifBlock elseBlock # rest) = ctl L rc rest"
          using True CTrue c2 by (simp add: r1_def r2_def)
        have "ctl L rc (rest @ tl2) = CFalse"
          using "2.IH"(5) True CTrue c2 "2.prems" w by (simp add: r1_def r2_def)
        then show ?thesis using True CTrue c2 by (simp add: r1_def r2_def)
      qed
    qed
  qed
qed simp_all

lemma agrees_addDiags: "agrees (fst (addDiags ds r)) c = agrees (fst r) c"
  by (simp add: addDiags_def)

section \<open>Facts about checkScope and its loop\<close>

lemma checkScope_unfold:
  "checkScope env s e blk vi nz rc =
     (if recursiveLimit (build env) < preIncrement rc
      then (Thrown (InternalError s limitMessage LIMIT), [])
      else walk env (conditionalAlloc vi) e blk vi nz (preIncrement rc))"
  by simp

lemma walk_If_nobraces:
  "\<not> braces info \<Longrightarrow>
   walk env ca0 e (IfElse info A B # rest) vi nz rc =
     addDiags (snd (condEffect info vi)) (walk env ca0 e rest (fst (condEffect info vi)) nz rc)"
  by (simp add: Let_def)

lemma skip_simps:
  "(case condKnown info of None \<Rightarrow> False | Some b \<Rightarrow> \<not> b) = (condKnown info = Some False)"
  "(case condKnown info of None \<Rightarrow> False | Some b \<Rightarrow> b) = (condKnown info = Some True)"
  by (cases "condKnown info"; auto)+

lemma walk_If_braces:
  "braces info \<Longrightarrow>
   walk env ca0 e (IfElse info A B # rest) vi nz rc =
     (case fst (ifResult env info A vi nz rc) of
        Thrown err \<Rightarrow> (Thrown err, snd (condEffect info vi) @ snd (ifResult env info A vi nz rc))
      | Returned False v \<Rightarrow>
          addDiags (snd (condEffect info vi) @ snd (ifResult env info A vi nz rc)
                    @ snd (condWalk info ca0 e (clear (fst (condEffect info vi)), nz)))
            (walk env ca0 e (A @ (if hasElse info then B else []) @ rest)
               (fst (fst (condWalk info ca0 e (clear (fst (condEffect info vi)), nz))))
               (snd (fst (condWalk info ca0 e (clear (fst (condEffect info vi)), nz)))) rc)
      | Returned True v1 \<Rightarrow>
          (case fst (elseResult env info B vi nz rc) of
             Thrown err \<Rightarrow> (Thrown err, snd (condEffect info vi) @ snd (ifResult env info A vi nz rc)
                                         @ snd (elseResult env info B vi nz rc))
           | Returned False v \<Rightarrow>
               (Returned False (clear (fst (condEffect info vi))),
                snd (condEffect info vi) @ snd (ifResult env info A vi nz rc)
                  @ snd (elseResult env info B vi nz rc))
           | Returned True v2 \<Rightarrow>
               addDiags (snd (condEffect info vi) @ snd (ifResult env info A vi nz rc)
                         @ snd (elseResult env info B vi nz rc))
                 (walk env ca0 e rest (mergeBranches ca0 (fst (condEffect info vi)) v1 v2) nz rc)))"
  unfolding ifResult_def elseResult_def ifCopies_def
  by (simp only: walk.simps Let_def skip_simps) (simp del: checkScope.simps cong: Outcome.case_cong bool.case_cong)

lemma stmtSize_pos: "0 < stmtSize s"
  by (cases s) simp_all

lemma walk_ctl:
  "agrees (fst (walk env ca0 e ss vi nz rc)) (ctl (recursiveLimit (build env)) rc ss)"
proof (induction "sum_list (map stmtSize ss)" arbitrary: ss ca0 e vi nz rc rule: less_induct)
  case less
  let ?L = "recursiveLimit (build env)"
  show ?case
  proof (cases ss)
    case Nil
    then show ?thesis by simp
  next
    case (Cons s rest)
    have rest_less: "sum_list (map stmtSize rest) < sum_list (map stmtSize ss)"
      using Cons stmtSize_pos [of s] by simp
    have IHrest: "agrees (fst (walk env ca0' e' rest vi' nz' rc')) (ctl ?L rc' rest)"
      for ca0' e' vi' nz' rc'
      using less [OF rest_less] .
    show ?thesis
    proof (cases s)
      case (Opaque effect)
      with Cons IHrest show ?thesis by (simp add: agrees_addDiags)
    next
      case (Assign a)
      with Cons IHrest show ?thesis by (simp add: agrees_addDiags)
    next
      case UnknownControl
      with Cons show ?thesis by (simp add: clear_eq)
    next
      case (Return tok)
      with Cons IHrest show ?thesis by (simp add: agrees_addDiags)
    next
      case (Throw tok scopes)
      with Cons IHrest show ?thesis by (simp add: agrees_addDiags)
    next
      case Goto
      with Cons show ?thesis by (simp add: clear_eq)
    next
      case BreakContinue
      with Cons IHrest show ?thesis by simp
    next
      case (SmartPointer sp)
      with Cons IHrest show ?thesis by (simp add: agrees_addDiags)
    next
      case (IfElse info A B)
      show ?thesis
      proof (cases "braces info")
        case False
        then show ?thesis
          using Cons IfElse IHrest by (simp add: walk_If_nobraces agrees_addDiags del: walk.simps)
      next
        case True
        define c1 where "c1 = (if condKnown info = Some False then CTrue
                  else if preIncrement rc > ?L then CThrow else ctl ?L (preIncrement rc) A)"
        define c2 where "c2 = (if hasElse info \<and> condKnown info \<noteq> Some True
                       then (if preIncrement rc > ?L then CThrow else ctl ?L (preIncrement rc) B)
                       else CTrue)"
        have A_less: "sum_list (map stmtSize A) < sum_list (map stmtSize ss)"
          using Cons IfElse by simp
        have B_less: "sum_list (map stmtSize B) < sum_list (map stmtSize ss)"
          using Cons IfElse by simp
        have AB_less: "sum_list (map stmtSize (A @ (if hasElse info then B else []) @ rest))
                         < sum_list (map stmtSize ss)"
          using Cons IfElse by simp
        have a1: "agrees (fst (ifResult env info A vi nz rc)) c1"
          using less [OF A_less] by (simp add: ifResult_def c1_def checkScope_unfold del: checkScope.simps)
        have a2: "agrees (fst (elseResult env info B vi nz rc)) c2"
          using less [OF B_less] by (simp add: elseResult_def c2_def checkScope_unfold del: checkScope.simps)
        have cc: "ctl ?L rc ss =
            (case c1 of CThrow \<Rightarrow> CThrow
             | CFalse \<Rightarrow> ctl ?L rc (A @ (if hasElse info then B else []) @ rest)
             | CTrue \<Rightarrow> (case c2 of CThrow \<Rightarrow> CThrow | CFalse \<Rightarrow> CFalse | CTrue \<Rightarrow> ctl ?L rc rest))"
          unfolding c1_def c2_def using Cons IfElse True by simp
        have ww: "walk env ca0 e ss vi nz rc = walk env ca0 e (IfElse info A B # rest) vi nz rc"
          using Cons IfElse by simp
        show ?thesis
        proof (cases "fst (ifResult env info A vi nz rc)")
          case (Thrown err)
          with a1 have "c1 = CThrow" by simp
          then show ?thesis
            using Thrown by (simp add: ww cc walk_If_braces [OF True] del: walk.simps)
        next
          case (Returned b1 v1)
          show ?thesis
          proof (cases b1)
            case False
            with a1 Returned have "c1 = CFalse" by simp
            then show ?thesis
              using Returned False less [OF AB_less]
              by (simp add: ww cc walk_If_braces [OF True] agrees_addDiags del: walk.simps)
          next
            case b1: True
            with a1 Returned have c1t: "c1 = CTrue" by simp
            show ?thesis
            proof (cases "fst (elseResult env info B vi nz rc)")
              case (Thrown err)
              with a2 have "c2 = CThrow" by simp
              then show ?thesis
                using Returned b1 c1t Thrown
                by (simp add: ww cc walk_If_braces [OF True] del: walk.simps)
            next
              case r2: (Returned b2 v2)
              show ?thesis
              proof (cases b2)
                case False
                with a2 r2 have "c2 = CFalse" by simp
                then show ?thesis
                  using Returned b1 c1t r2 False
                  by (simp add: ww cc walk_If_braces [OF True] clear_eq del: walk.simps)
              next
                case b2: True
                with a2 r2 have "c2 = CTrue" by simp
                then show ?thesis
                  using Returned b1 c1t r2 b2 IHrest
                  by (simp add: ww cc walk_If_braces [OF True] agrees_addDiags del: walk.simps)
              qed
            qed
          qed
        qed
      qed
    qed
  qed
qed

lemma agrees_False: "agrees o' CFalse \<Longrightarrow> o' = Returned False emptyVarInfo"
  by (cases o') (auto split: if_splits)

lemma walk_abandons_again:
  assumes "fst (checkScope env s' e' A v1 nz' rc) = Returned False v" and rc: "rc < 2147483647"
  shows "fst (walk env ca0 e (A @ tl2) vi nz rc) = Returned False emptyVarInfo"
proof -
  let ?L = "recursiveLimit (build env)"
  have nl: "\<not> ?L < preIncrement rc"
    using assms(1) by (auto simp: checkScope_unfold simp del: checkScope.simps split: if_splits)
  then have "fst (walk env (conditionalAlloc v1) e' A v1 nz' (preIncrement rc)) = Returned False v"
    using assms(1) by (simp add: checkScope_unfold del: checkScope.simps)
  with walk_ctl [of env "conditionalAlloc v1" e' A v1 nz' "preIncrement rc"]
  have c: "ctl ?L (preIncrement rc) A = CFalse" by simp
  then have "ctl ?L (preIncrement rc) A = ctl ?L rc A"
    using nl rc recursiveLimit_le [of "build env"] by (intro ctl_mono) (simp_all add: preIncrement_simp)
  with c have "ctl ?L rc A = CFalse" by simp
  then have "ctl ?L rc (A @ tl2) = CFalse" by (rule ctl_append)
  with walk_ctl [of env ca0 e "A @ tl2" vi nz rc] show ?thesis
    by (simp add: agrees_False)
qed

section \<open>Facts about the depth of the recursion\<close>

lemma walkDepth_If_braces:
  "braces info \<Longrightarrow>
   walkDepth env ca0 e (IfElse info A B # rest) vi nz rc =
     (case fst (ifResult env info A vi nz rc) of
        Thrown err \<Rightarrow>
          (if condKnown info = Some False then 0
           else checkScopeDepth env (ifStart info) (ifEnd info) A (fst (ifCopies env info vi nz)) nz rc)
      | Returned False v \<Rightarrow>
          max (if condKnown info = Some False then 0
               else checkScopeDepth env (ifStart info) (ifEnd info) A (fst (ifCopies env info vi nz)) nz rc)
            (walkDepth env ca0 e (A @ (if hasElse info then B else []) @ rest)
               (fst (fst (condWalk info ca0 e (clear (fst (condEffect info vi)), nz))))
               (snd (fst (condWalk info ca0 e (clear (fst (condEffect info vi)), nz)))) rc)
      | Returned True v1 \<Rightarrow>
          (case fst (elseResult env info B vi nz rc) of
             Thrown err \<Rightarrow>
               max (if condKnown info = Some False then 0
                    else checkScopeDepth env (ifStart info) (ifEnd info) A (fst (ifCopies env info vi nz)) nz rc)
                   (if hasElse info \<and> condKnown info \<noteq> Some True
                    then checkScopeDepth env (elseStart info) (elseEnd info) B (snd (ifCopies env info vi nz)) nz rc
                    else 0)
           | Returned False v \<Rightarrow>
               max (if condKnown info = Some False then 0
                    else checkScopeDepth env (ifStart info) (ifEnd info) A (fst (ifCopies env info vi nz)) nz rc)
                   (if hasElse info \<and> condKnown info \<noteq> Some True
                    then checkScopeDepth env (elseStart info) (elseEnd info) B (snd (ifCopies env info vi nz)) nz rc
                    else 0)
           | Returned True v2 \<Rightarrow>
               max (max (if condKnown info = Some False then 0
                         else checkScopeDepth env (ifStart info) (ifEnd info) A (fst (ifCopies env info vi nz)) nz rc)
                        (if hasElse info \<and> condKnown info \<noteq> Some True
                         then checkScopeDepth env (elseStart info) (elseEnd info) B (snd (ifCopies env info vi nz)) nz rc
                         else 0))
                 (walkDepth env ca0 e rest (mergeBranches ca0 (fst (condEffect info vi)) v1 v2) nz rc)))"
  by (simp only: walkDepth.simps Let_def)
     (simp del: checkScopeDepth.simps cong: Outcome.case_cong bool.case_cong)

lemma checkScopeDepth_bound:
  assumes rc: "rc < 2147483647"
    and IH: "\<And>ca0 vi nz rc'. rc' < 2147483647 \<Longrightarrow>
               walkDepth env ca0 e blk vi nz rc' \<le> nat (recursiveLimit (build env) - rc') + 1"
  shows "checkScopeDepth env s e blk vi nz rc \<le> nat (recursiveLimit (build env) - rc) + 1"
proof (cases "preIncrement rc > recursiveLimit (build env)")
  case True
  then show ?thesis by simp
next
  case False
  have p: "preIncrement rc = rc + 1" using rc by (simp add: preIncrement_simp)
  with False have le: "rc + 1 \<le> recursiveLimit (build env)" by simp
  then have "rc + 1 < 2147483647" using recursiveLimit_le [of "build env"] by simp
  from IH [OF this, of "conditionalAlloc vi" vi nz] False le show ?thesis
    by (simp add: p)
qed

lemma walkDepth_bound:
  "rc < 2147483647 \<Longrightarrow>
   walkDepth env ca0 e ss vi nz rc \<le> nat (recursiveLimit (build env) - rc) + 1"
proof (induction "sum_list (map stmtSize ss)" arbitrary: ss ca0 e vi nz rc rule: less_induct)
  case less
  let ?B = "nat (recursiveLimit (build env) - rc) + 1"
  note rc = less.prems
  show ?case
  proof (cases ss)
    case Nil
    then show ?thesis by simp
  next
    case (Cons s rest)
    have rest_less: "sum_list (map stmtSize rest) < sum_list (map stmtSize ss)"
      using Cons stmtSize_pos [of s] by simp
    have IHrest: "walkDepth env ca0' e' rest vi' nz' rc \<le> ?B" for ca0' e' vi' nz'
      using less.hyps [OF rest_less rc] .
    show ?thesis
    proof (cases s)
      case (Opaque effect)
      with Cons IHrest show ?thesis by simp
    next
      case (Assign a)
      with Cons IHrest show ?thesis by simp
    next
      case UnknownControl
      with Cons show ?thesis by simp
    next
      case (Return tok)
      with Cons IHrest show ?thesis by simp
    next
      case (Throw tok scopes)
      with Cons IHrest show ?thesis by simp
    next
      case Goto
      with Cons show ?thesis by simp
    next
      case BreakContinue
      with Cons IHrest show ?thesis by simp
    next
      case (SmartPointer sp)
      with Cons IHrest show ?thesis by simp
    next
      case (IfElse info A B)
      show ?thesis
      proof (cases "braces info")
        case False
        then show ?thesis using Cons IfElse IHrest by simp
      next
        case True
        have A_less: "sum_list (map stmtSize A) < sum_list (map stmtSize ss)"
          using Cons IfElse by simp
        have B_less: "sum_list (map stmtSize B) < sum_list (map stmtSize ss)"
          using Cons IfElse by simp
        have AB_less: "sum_list (map stmtSize (A @ (if hasElse info then B else []) @ rest))
                         < sum_list (map stmtSize ss)"
          using Cons IfElse by simp
        have d1: "checkScopeDepth env s' e' A vi' nz' rc \<le> ?B" for s' e' vi' nz'
          by (rule checkScopeDepth_bound [OF rc]) (rule less.hyps [OF A_less])
        have d2: "checkScopeDepth env s' e' B vi' nz' rc \<le> ?B" for s' e' vi' nz'
          by (rule checkScopeDepth_bound [OF rc]) (rule less.hyps [OF B_less])
        have dAB: "walkDepth env ca0 e (A @ (if hasElse info then B else []) @ rest) vi' nz' rc \<le> ?B"
          for vi' nz'
          using less.hyps [OF AB_less rc] .
        have ww: "walkDepth env ca0 e ss vi nz rc = walkDepth env ca0 e (IfElse info A B # rest) vi nz rc"
          using Cons IfElse by simp
        show ?thesis
          unfolding ww walkDepth_If_braces [OF True]
          using d1 d2 dAB IHrest
          by (auto split: Outcome.splits bool.splits simp del: checkScopeDepth.simps)
      qed
    qed
  qed
qed

lemma blockDepth_append: "blockDepth (a @ b) = max (blockDepth a) (blockDepth b)"
  by (induction a) simp_all


lemma walk_limitOnly: "limitOnly (fst (walk env ca0 e ss vi nz rc))"
proof (induction "sum_list (map stmtSize ss)" arbitrary: ss ca0 e vi nz rc rule: less_induct)
  case less
  show ?case
  proof (cases ss)
    case Nil
    then show ?thesis by simp
  next
    case (Cons s rest)
    have rest_less: "sum_list (map stmtSize rest) < sum_list (map stmtSize ss)"
      using Cons stmtSize_pos [of s] by simp
    have IHrest: "limitOnly (fst (walk env ca0' e' rest vi' nz' rc'))" for ca0' e' vi' nz' rc'
      using less [OF rest_less] .
    show ?thesis
    proof (cases s)
      case (Opaque effect)
      with Cons IHrest show ?thesis by (simp add: addDiags_def)
    next
      case (Assign a)
      with Cons IHrest show ?thesis by (simp add: addDiags_def)
    next
      case UnknownControl
      with Cons show ?thesis by simp
    next
      case (Return tok)
      with Cons IHrest show ?thesis by (simp add: addDiags_def)
    next
      case (Throw tok scopes)
      with Cons IHrest show ?thesis by (simp add: addDiags_def)
    next
      case Goto
      with Cons show ?thesis by simp
    next
      case BreakContinue
      with Cons IHrest show ?thesis by simp
    next
      case (SmartPointer sp)
      with Cons IHrest show ?thesis by (simp add: addDiags_def)
    next
      case (IfElse info A B)
      show ?thesis
      proof (cases "braces info")
        case False
        then show ?thesis
          using Cons IfElse IHrest by (simp add: walk_If_nobraces addDiags_def del: walk.simps)
      next
        case True
        have A_less: "sum_list (map stmtSize A) < sum_list (map stmtSize ss)"
          using Cons IfElse by simp
        have B_less: "sum_list (map stmtSize B) < sum_list (map stmtSize ss)"
          using Cons IfElse by simp
        have AB_less: "sum_list (map stmtSize (A @ (if hasElse info then B else []) @ rest))
                         < sum_list (map stmtSize ss)"
          using Cons IfElse by simp
        have a1: "limitOnly (fst (ifResult env info A vi nz rc))"
          using less [OF A_less] by (simp add: ifResult_def checkScope_unfold del: checkScope.simps)
        have a2: "limitOnly (fst (elseResult env info B vi nz rc))"
          using less [OF B_less] by (simp add: elseResult_def checkScope_unfold del: checkScope.simps)
        have ww: "walk env ca0 e ss vi nz rc = walk env ca0 e (IfElse info A B # rest) vi nz rc"
          using Cons IfElse by simp
        show ?thesis
          unfolding ww walk_If_braces [OF True]
          using a1 a2 less [OF AB_less] IHrest
          by (auto split: Outcome.splits bool.splits simp: addDiags_def)
      qed
    qed
  qed
qed

lemma ctl_shallow:
  "rc + int (blockDepth ss) \<le> L \<Longrightarrow> rc < 2147483647 \<Longrightarrow> L < 2147483647 \<Longrightarrow> ctl L rc ss \<noteq> CThrow"
proof (induction L rc ss rule: ctl.induct)
  case (2 L rc info ifBlock elseBlock rest)
  show ?case
  proof (cases "braces info")
    case False
    with "2.IH"(1) "2.prems" show ?thesis by simp
  next
    case True
    have p: "preIncrement rc = rc + 1" using "2.prems" by (simp add: preIncrement_simp)
    have le: "rc + 1 \<le> L" and dA: "rc + 1 + int (blockDepth ifBlock) \<le> L"
      and dB: "hasElse info \<Longrightarrow> rc + 1 + int (blockDepth elseBlock) \<le> L"
      and dR: "rc + int (blockDepth rest) \<le> L"
      and dAB: "rc + int (blockDepth (ifBlock @ (if hasElse info then elseBlock else []) @ rest)) \<le> L"
      using "2.prems"(1) True by (auto simp: blockDepth_append)
    have lt: "rc + 1 < 2147483647" using le "2.prems"(3) by simp
    define c1 where "c1 = (if condKnown info = Some False then CTrue
                  else if preIncrement rc > L then CThrow else ctl L (preIncrement rc) ifBlock)"
    define c2 where "c2 = (if hasElse info \<and> condKnown info \<noteq> Some True
                       then (if preIncrement rc > L then CThrow else ctl L (preIncrement rc) elseBlock)
                       else CTrue)"
    have n1: "c1 \<noteq> CThrow"
    proof (cases "condKnown info = Some False")
      case True
      then show ?thesis by (simp add: c1_def)
    next
      case False
      have np: "\<not> L < preIncrement rc" using le p by simp
      from "2.IH"(2) [OF _ False np] True dA lt "2.prems"(3) np False show ?thesis
        by (simp add: c1_def p)
    qed
    have cc: "ctl L rc (IfElse info ifBlock elseBlock # rest) =
            (case c1 of CThrow \<Rightarrow> CThrow
             | CFalse \<Rightarrow> ctl L rc (ifBlock @ (if hasElse info then elseBlock else []) @ rest)
             | CTrue \<Rightarrow> (case c2 of CThrow \<Rightarrow> CThrow | CFalse \<Rightarrow> CFalse | CTrue \<Rightarrow> ctl L rc rest))"
      unfolding c1_def c2_def using True by simp
    show ?thesis
    proof (cases c1)
      case CThrow
      with n1 show ?thesis by simp
    next
      case CFalse
      from "2.IH"(3) [OF _ CFalse [unfolded c1_def]] True dAB "2.prems"(2,3) CFalse show ?thesis
        by (simp add: cc del: ctl.simps)
    next
      case CTrue
      have n2: "c2 \<noteq> CThrow"
      proof (cases "hasElse info \<and> condKnown info \<noteq> Some True")
        case False
        then show ?thesis by (auto simp: c2_def)
      next
        case e: True
        have np: "\<not> L < preIncrement rc" using le p by simp
        from "2.IH"(4) [OF _ CTrue [unfolded c1_def] e np] True dB lt "2.prems"(3) e np show ?thesis
          by (simp add: c2_def p)
      qed
      show ?thesis
      proof (cases c2)
        case CThrow
        with n2 show ?thesis by simp
      next
        case CFalse
        with CTrue show ?thesis by (simp add: cc del: ctl.simps)
      next
        case c2t: CTrue
        from "2.IH"(5) [OF _ CTrue [unfolded c1_def] c2t [unfolded c2_def]] True dR "2.prems"(2,3)
          CTrue c2t
        show ?thesis by (simp add: cc del: ctl.simps)
      qed
    qed
  qed
qed simp_all


lemma depthFits_max:
  "depthFits L rc o' d \<Longrightarrow> d' \<le> nat (L - rc) \<Longrightarrow> depthFits L rc o' (max d' d)"
  "depthFits L rc o' d \<Longrightarrow> d' \<le> nat (L - rc) \<Longrightarrow> depthFits L rc o' (max d d')"
  by (cases o'; simp)+

lemma depthFits_Returned:
  "depthFits L rc r d \<Longrightarrow> r = Returned b v \<Longrightarrow> d \<le> nat (L - rc)"
  by simp

lemma checkScopeDepth_fits:
  assumes rc: "rc \<le> recursiveLimit (build env)"
    and IH: "\<And>ca0 vi nz rc'. rc' \<le> recursiveLimit (build env) \<Longrightarrow>
               depthFits (recursiveLimit (build env)) rc' (fst (walk env ca0 e blk vi nz rc'))
                 (walkDepth env ca0 e blk vi nz rc')"
  shows "depthFits (recursiveLimit (build env)) rc (fst (checkScope env s e blk vi nz rc))
           (checkScopeDepth env s e blk vi nz rc)"
proof -
  have p: "preIncrement rc = rc + 1"
    using rc recursiveLimit_le [of "build env"] by (simp add: preIncrement_simp)
  show ?thesis
  proof (cases "rc + 1 \<le> recursiveLimit (build env)")
    case False
    then show ?thesis by (simp add: p)
  next
    case True
    from IH [OF True, of "conditionalAlloc vi" vi nz] True show ?thesis
      by (cases "fst (walk env (conditionalAlloc vi) e blk vi nz (rc + 1))") (auto simp: p)
  qed
qed

lemma walkDepth_fits:
  "rc \<le> recursiveLimit (build env) \<Longrightarrow>
   depthFits (recursiveLimit (build env)) rc (fst (walk env ca0 e ss vi nz rc))
     (walkDepth env ca0 e ss vi nz rc)"
proof (induction "sum_list (map stmtSize ss)" arbitrary: ss ca0 e vi nz rc rule: less_induct)
  case less
  let ?L = "recursiveLimit (build env)"
  note rc = less.prems
  show ?case
  proof (cases ss)
    case Nil
    then show ?thesis by simp
  next
    case (Cons s rest)
    have rest_less: "sum_list (map stmtSize rest) < sum_list (map stmtSize ss)"
      using Cons stmtSize_pos [of s] by simp
    have IHrest: "depthFits ?L rc (fst (walk env ca0' e' rest vi' nz' rc))
                    (walkDepth env ca0' e' rest vi' nz' rc)" for ca0' e' vi' nz'
      using less.hyps [OF rest_less rc] .
    show ?thesis
    proof (cases s)
      case (Opaque effect)
      with Cons IHrest show ?thesis by (simp add: addDiags_def)
    next
      case (Assign a)
      with Cons IHrest show ?thesis by (simp add: addDiags_def)
    next
      case UnknownControl
      with Cons show ?thesis by simp
    next
      case (Return tok)
      with Cons IHrest show ?thesis by (simp add: addDiags_def)
    next
      case (Throw tok scopes)
      with Cons IHrest show ?thesis by (simp add: addDiags_def)
    next
      case Goto
      with Cons show ?thesis by simp
    next
      case BreakContinue
      with Cons IHrest show ?thesis by simp
    next
      case (SmartPointer sp)
      with Cons IHrest show ?thesis by (simp add: addDiags_def)
    next
      case (IfElse info A B)
      show ?thesis
      proof (cases "braces info")
        case False
        then show ?thesis
          using Cons IfElse IHrest by (simp add: walk_If_nobraces addDiags_def del: walk.simps)
      next
        case True
        define d1 where "d1 = (if condKnown info = Some False then 0
               else checkScopeDepth env (ifStart info) (ifEnd info) A (fst (ifCopies env info vi nz)) nz rc)"
        define d2 where "d2 = (if hasElse info \<and> condKnown info \<noteq> Some True
                    then checkScopeDepth env (elseStart info) (elseEnd info) B (snd (ifCopies env info vi nz)) nz rc
                    else 0)"
        have A_less: "sum_list (map stmtSize A) < sum_list (map stmtSize ss)"
          using Cons IfElse by simp
        have B_less: "sum_list (map stmtSize B) < sum_list (map stmtSize ss)"
          using Cons IfElse by simp
        have AB_less: "sum_list (map stmtSize (A @ (if hasElse info then B else []) @ rest))
                         < sum_list (map stmtSize ss)"
          using Cons IfElse by simp
        have f1: "depthFits ?L rc (fst (ifResult env info A vi nz rc)) d1"
          unfolding ifResult_def d1_def
          using checkScopeDepth_fits [OF rc, of "ifEnd info" A "ifStart info"] less.hyps [OF A_less]
          by simp
        have f2: "depthFits ?L rc (fst (elseResult env info B vi nz rc)) d2"
          unfolding elseResult_def d2_def
          using checkScopeDepth_fits [OF rc, of "elseEnd info" B "elseStart info"] less.hyps [OF B_less]
          by simp
        have fAB: "depthFits ?L rc
                     (fst (walk env ca0 e (A @ (if hasElse info then B else []) @ rest) vi' nz' rc))
                     (walkDepth env ca0 e (A @ (if hasElse info then B else []) @ rest) vi' nz' rc)"
          for vi' nz'
          using less.hyps [OF AB_less rc] .
        have ww: "walk env ca0 e ss vi nz rc = walk env ca0 e (IfElse info A B # rest) vi nz rc"
          and wd: "walkDepth env ca0 e ss vi nz rc = walkDepth env ca0 e (IfElse info A B # rest) vi nz rc"
          using Cons IfElse by simp_all
        show ?thesis
        proof (cases "fst (ifResult env info A vi nz rc)")
          case (Thrown err)
          with f1 show ?thesis
            unfolding ww wd walk_If_braces [OF True] walkDepth_If_braces [OF True] d1_def [symmetric]
            by simp
        next
          case r1: (Returned b1 v1)
          with f1 have l1: "d1 \<le> nat (?L - rc)" by simp
          show ?thesis
          proof (cases b1)
            case False
            with r1 l1 fAB show ?thesis
              unfolding ww wd walk_If_braces [OF True] walkDepth_If_braces [OF True] d1_def [symmetric]
              by (simp add: addDiags_def depthFits_max)
          next
            case b1: True
            show ?thesis
            proof (cases "fst (elseResult env info B vi nz rc)")
              case (Thrown err)
              with f2 r1 b1 l1 show ?thesis
                unfolding ww wd walk_If_braces [OF True] walkDepth_If_braces [OF True]
                  d1_def [symmetric] d2_def [symmetric]
                by simp
            next
              case r2: (Returned b2 v2)
              with f2 have l2: "d2 \<le> nat (?L - rc)" by simp
              show ?thesis
              proof (cases b2)
                case False
                with r1 b1 r2 l1 l2 show ?thesis
                  unfolding ww wd walk_If_braces [OF True] walkDepth_If_braces [OF True]
                    d1_def [symmetric] d2_def [symmetric]
                  by simp
              next
                case b2: True
                with r1 b1 r2 l1 l2 IHrest show ?thesis
                  unfolding ww wd walk_If_braces [OF True] walkDepth_If_braces [OF True]
                    d1_def [symmetric] d2_def [symmetric]
                  by (simp add: addDiags_def depthFits_max)
              qed
            qed
          qed
        qed
      qed
    qed
  qed
qed

section \<open>Facts about the sample inputs\<close>

lemma exIf_simps:
  "braces exIf" "condKnown exIf = None" "condEffect exIf v = (v, [])" "condAst exIf = CNull"
  "condWalk exIf ca e s = (s, [])" "ifStart exIf = mkTok ''{'' 0 40" "ifEnd exIf = mkTok ''}'' 0 50"
  "\<not> hasElse exIf"
  by (simp_all add: exIf_def)

lemma exEnv_limit: "recursiveLimit (build exEnv) = 1000"
  by (simp add: exEnv_def)

lemma ret_exAlloc_inner:
  "ret exEnv (mkTok ''}'' 0 50) exAlloc True = (exAlloc, [])"
  by (simp add: ret_def exAlloc_def emptyVarInfo_def exEnv_def mkTok_def Let_def)


lemma mkTok_simps:
  "tokStr (mkTok s v i) = s" "tokVarId (mkTok s v i) = v" "tokIndex (mkTok s v i) = i"
  "prevStr (mkTok s v i) = ''(''" "astTopStr (mkTok s v i) = ''(''"
  by (simp_all add: mkTok_def)

lemma exAssignment_simps:
  "asVarTok exAssignment = mkTok ''p'' 1 42" "asOtherVars exAssignment = None"
  "\<not> isVarUsedInTree (asRhs exAssignment) 1" "asLocalVarNoAutoDealloc exAssignment"
  "asCall exAssignment = Some (mkTok ''malloc'' 0 44, [mkTok ''2'' 0 46])"
  "asNew exAssignment = None" "\<not> asNotzero exAssignment"
  by (simp_all add: exAssignment_def mkTok_simps)

lemma exLib_malloc:
  "getAllocFuncInfo (library exEnv) (mkTok ''malloc'' 0 i) = Some \<lparr>groupId = 1, arg = -1, reallocArg = 0\<rparr>"
  "getReallocFuncInfo (library exEnv) (mkTok ''malloc'' 0 i) = None"
  by (simp_all add: exEnv_def exLib_def mkTok_def)

lemma assign_exAssignment_empty:
  "assignmentStmt exEnv exAssignment ca e (emptyVarInfo, nz)
     = ((emptyVarInfo\<lparr>alloctype := [(1, mkAllocInfo 1 ALLOC (Some (mkTok ''malloc'' 0 44)))]\<rparr>,
         nz - {1}), [])"
  by (simp add: assignmentStmt_def exAssignment_simps exLib_malloc Let_def mkTok_simps
        leakIfAllocated_def emptyVarInfo_def erase_def map_erase_def map_find_def
        changeAllocStatusIfRealloc_def allocSubscript_def defaultAllocInfo_def mkAllocInfo_def
        map_assign.simps)

lemma conditionalAlloc_empty:
  "conditionalAlloc (emptyVarInfo\<lparr>alloctype := a\<rparr>) = {}" "conditionalAlloc emptyVarInfo = {}"
  by (simp_all add: emptyVarInfo_def)

lemma exIfGoto_simps:
  "braces exIfGoto" "condKnown exIfGoto = None" "condEffect exIfGoto v = (v, [])"
  "condAst exIfGoto = CNull" "condWalk exIfGoto ca e s = (s, [])"
  "ifStart exIfGoto = mkTok ''{'' 0 40" "ifEnd exIfGoto = mkTok ''}'' 0 59" "\<not> hasElse exIfGoto"
  by (simp_all add: exIfGoto_def exIf_def)

lemma exElseGoto_simps:
  "braces exElseGoto" "condKnown exElseGoto = None" "condEffect exElseGoto v = (v, [])"
  "condAst exElseGoto = CNull" "condWalk exElseGoto ca e s = (s, [])"
  "ifStart exElseGoto = mkTok ''{'' 0 40" "ifEnd exElseGoto = mkTok ''}'' 0 41" "hasElse exElseGoto"
  "elseStart exElseGoto = mkTok ''{'' 0 43" "elseEnd exElseGoto = mkTok ''}'' 0 62"
  by (simp_all add: exElseGoto_def exIf_def)

lemma assignMalloc_simps:
  "asVarTok (assignMalloc i n) = mkTok ''p'' 1 i" "asOtherVars (assignMalloc i n) = None"
  "\<not> isVarUsedInTree (asRhs (assignMalloc i n)) 1" "asLocalVarNoAutoDealloc (assignMalloc i n)"
  "asCall (assignMalloc i n) = Some (mkTok ''malloc'' 0 (i + 2), [mkTok n 0 (i + 4)])"
  "asNew (assignMalloc i n) = None" "\<not> asNotzero (assignMalloc i n)"
  by (simp_all add: assignMalloc_def mkTok_simps)

lemma assignMalloc_empty:
  "assignmentStmt exEnv (assignMalloc i n) {} e (emptyVarInfo, {})
     = ((emptyVarInfo\<lparr>alloctype := [(1, mkAllocInfo 1 ALLOC (Some (mkTok ''malloc'' 0 (i + 2))))]\<rparr>,
         {}), [])"
  by (simp add: assignmentStmt_def assignMalloc_simps exLib_malloc Let_def mkTok_simps
        leakIfAllocated_def emptyVarInfo_def erase_def map_erase_def map_find_def
        changeAllocStatusIfRealloc_def allocSubscript_def defaultAllocInfo_def mkAllocInfo_def)

lemma assignMalloc_allocated:
  "assignmentStmt exEnv (assignMalloc i n) {} e
       (emptyVarInfo\<lparr>alloctype := [(1, mkAllocInfo 1 ALLOC t)]\<rparr>, {})
     = ((emptyVarInfo\<lparr>alloctype := [(1, mkAllocInfo 1 ALLOC (Some (mkTok ''malloc'' 0 (i + 2))))]\<rparr>,
         {}), [MemLeak (mkTok ''p'' 1 i) ''p''])"
  by (simp add: assignmentStmt_def assignMalloc_simps exLib_malloc Let_def mkTok_simps
        leakIfAllocated_def emptyVarInfo_def erase_def map_erase_def map_find_def
        changeAllocStatusIfRealloc_def allocSubscript_def defaultAllocInfo_def mkAllocInfo_def
        leakError_def exEnv_def exLib_def)
lemma checkScope_limit:
  "recursiveLimit (build env) \<le> rc \<Longrightarrow> rc < 2147483647 \<Longrightarrow>
   checkScope env s e blk vi nz rc = (Thrown (InternalError s limitMessage LIMIT), [])"
  by (simp add: preIncrement_simp)

lemma nestIf_thrown:
  "rc \<le> recursiveLimit (build env) \<Longrightarrow> n = nat (recursiveLimit (build env) - rc) \<Longrightarrow>
   checkScope env s e (nestIf n) vi nz rc
     = (Thrown (InternalError (if n = 0 then s else ifStart exIf) limitMessage LIMIT), [])"
proof (induction n arbitrary: s e vi rc)
  case 0
  then have "recursiveLimit (build env) \<le> rc" "rc < 2147483647"
    using recursiveLimit_le [of "build env"] by simp_all
  then show ?case by (simp add: checkScope_limit del: checkScope.simps)
next
  case (Suc n)
  have p: "preIncrement rc = rc + 1"
    using Suc.prems recursiveLimit_le [of "build env"] by (simp add: preIncrement_simp)
  from Suc.prems have lt: "\<not> recursiveLimit (build env) < preIncrement rc"
    and le: "preIncrement rc \<le> recursiveLimit (build env)"
    and n: "n = nat (recursiveLimit (build env) - preIncrement rc)"
    unfolding p by simp_all
  have r: "ifResult env exIf (nestIf n) vi nz (preIncrement rc)
             = (Thrown (InternalError (ifStart exIf) limitMessage LIMIT), [])"
    using Suc.IH [OF le n, of "ifStart exIf" "ifEnd exIf"]
    by (simp add: ifResult_def exIf_simps del: checkScope.simps)
  have "walk env (conditionalAlloc vi) e [IfElse exIf (nestIf n) []] vi nz (preIncrement rc)
          = (Thrown (InternalError (ifStart exIf) limitMessage LIMIT), [])"
    by (simp add: walk_If_braces [OF exIf_simps(1)] r exIf_simps del: walk.simps)
  with lt show ?case
    by (simp add: checkScope_unfold del: checkScope.simps walk.simps)
qed

lemma nestIf_1000:
  "checkScope exEnv (mkTok ''{'' 0 10) (mkTok ''}'' 0 66) (nestIf 1000) emptyVarInfo {} 0
     = (Thrown (InternalError (mkTok ''{'' 0 40) limitMessage LIMIT), [])"
proof -
  have h1: "0 \<le> recursiveLimit (build exEnv)" by (simp add: exEnv_limit)
  have h2: "(1000::nat) = nat (recursiveLimit (build exEnv) - 0)" by (simp add: exEnv_limit)
  have ne: "((1000::nat) = 0) = False" by simp
  show ?thesis
    using nestIf_thrown [OF h1 h2, of "mkTok ''{'' 0 10" "mkTok ''}'' 0 66" emptyVarInfo "{}"]
    by (simp only: ne if_False exIf_simps)
qed


lemma check_exLeaky:
  "checkScope exEnv (mkTok ''{'' 0 70) (mkTok ''}'' 0 99) exLeaky emptyVarInfo {} 0
     = (Returned True emptyVarInfo, [MemLeak (mkTok ''}'' 0 99) ''p''])"
proof -
  have r: "ret exEnv (mkTok ''}'' 0 99)
             (emptyVarInfo\<lparr>alloctype := [(1, mkAllocInfo 1 ALLOC (Some (mkTok ''malloc'' 0 44)))]\<rparr>) True
           = (emptyVarInfo, [MemLeak (mkTok ''}'' 0 99) ''p''])"
    by (simp add: ret_def emptyVarInfo_def Let_def retReport_def managed_def mkAllocInfo_def
          map_find_def leakError_def erase_def map_erase_def exEnv_def exLib_def mkTok_def)
  have p: "preIncrement 0 = 1" by (simp add: preIncrement_def)
  have c: "conditionalAlloc emptyVarInfo = {}" by (simp add: emptyVarInfo_def)
  show ?thesis
    by (simp add: exLeaky_def p c exEnv_limit assign_exAssignment_empty r addDiags_def)
qed
section \<open>Deallocation and reallocation events\<close>

text \<open>
  C4 (as amended): a deallocation event on a variable without a record emits no diagnostic, records
  no possible usage and changes no other variable's record; when the event is a definite
  deallocation (status neither NOALLOC nor OWNED) outside a return statement, a record with
  status DEALLOC, the event's family and the call token is installed for the variable, and
  otherwise nothing is installed.
\<close>

theorem C4_untracked_dealloc:
  assumes "map_find (alloctype vi) (tokVarId argT) = None"
  shows "snd (changeAllocStatus lib vi allocation tok argT) = []
       \<and> possibleUsage (fst (changeAllocStatus lib vi allocation tok argT)) = possibleUsage vi
       \<and> conditionalAlloc (fst (changeAllocStatus lib vi allocation tok argT)) = conditionalAlloc vi
       \<and> referenced (fst (changeAllocStatus lib vi allocation tok argT)) = referenced vi
       \<and> (\<forall>k. k \<noteq> tokVarId argT \<longrightarrow>
             map_find (alloctype (fst (changeAllocStatus lib vi allocation tok argT))) k
               = map_find (alloctype vi) k)
       \<and> map_find (alloctype (fst (changeAllocStatus lib vi allocation tok argT))) (tokVarId argT)
           = (if status allocation \<noteq> NOALLOC \<and> status allocation \<noteq> OWNED \<and> astTopStr tok \<noteq> ''return''
              then Some \<lparr>status = DEALLOC, atype = atype allocation,
                         reallocedFromType = None, allocTok = Some tok\<rparr>
              else None)"
  using assms
  by (simp add: changeAllocStatus_def map_find_assign defaultAllocInfo_def mkAllocInfo_def)

text \<open>
  Instance of C4_untracked_dealloc: \<open>free(p)\<close> on the empty state.
\<close>

theorem C4_untracked_dealloc_witness:
  "map_find (alloctype emptyVarInfo) (tokVarId (mkTok ''p'' 1 3)) = None
   \<and> snd (changeAllocStatus exLib emptyVarInfo
         (mkAllocInfo 1 DEALLOC (Some (mkTok ''free'' 0 2))) (mkTok ''free'' 0 2) (mkTok ''p'' 1 3)) = []
   \<and> map_find (alloctype (fst (changeAllocStatus exLib emptyVarInfo
         (mkAllocInfo 1 DEALLOC (Some (mkTok ''free'' 0 2))) (mkTok ''free'' 0 2) (mkTok ''p'' 1 3)))) 2
      = None"
proof -
  have h: "map_find (alloctype emptyVarInfo) (tokVarId (mkTok ''p'' 1 3)) = None"
    by (simp add: emptyVarInfo_def map_find_def)
  have t: "tokVarId (mkTok ''p'' 1 3) = 1" by (simp add: mkTok_def)
  from C4_untracked_dealloc [OF h, of exLib "mkAllocInfo 1 DEALLOC (Some (mkTok ''free'' 0 2))"
        "mkTok ''free'' 0 2"] h
  show ?thesis by (simp add: t emptyVarInfo_def map_find_def)
qed

text \<open>
  C4 as stated fails: \<open>free(p)\<close> on a variable without a record installs a DEALLOC record for it.
\<close>

theorem C4_counterexample:
  "map_find (alloctype emptyVarInfo) (tokVarId (mkTok ''p'' 1 3)) = None
   \<and> status (mkAllocInfo 1 DEALLOC (Some (mkTok ''free'' 0 1))) = DEALLOC
   \<and> map_find (alloctype (fst (changeAllocStatus exLib emptyVarInfo
         (mkAllocInfo 1 DEALLOC (Some (mkTok ''free'' 0 1))) (mkTok ''free'' 0 1) (mkTok ''p'' 1 3)))) 1
       = Some \<lparr>status = DEALLOC, atype = 1, reallocedFromType = None,
               allocTok = Some (mkTok ''free'' 0 1)\<rparr>"
  by (simp add: changeAllocStatus_def emptyVarInfo_def mkAllocInfo_def mkTok_def exLib_def
        map_find_def defaultAllocInfo_def)

text \<open>
  C6 (as amended): a deallocation event (status other than NOALLOC) whose function is not also a
  library allocator, on a variable whose record is managed, emits exactly one DoubleFree and
  no Leak, overwrites the record's status with the event's status and keeps every record.
\<close>

theorem C6_double_free:
  assumes "map_find (alloctype vi) (tokVarId argT) = Some var"
    and "managed var"
    and "status allocation \<noteq> NOALLOC"
    and "case allocTok allocation of None \<Rightarrow> True | Some t \<Rightarrow> getAllocFuncInfo lib t = None"
  shows "snd (changeAllocStatus lib vi allocation tok argT)
           = doubleFreeError lib tok (allocTok var) (tokStr argT) (atype allocation)
       \<and> length (filter isDoubleFree (snd (changeAllocStatus lib vi allocation tok argT))) = 1
       \<and> filter isLeak (snd (changeAllocStatus lib vi allocation tok argT)) = []
       \<and> map_find (alloctype (fst (changeAllocStatus lib vi allocation tok argT))) (tokVarId argT)
           = Some (var\<lparr>status := status allocation\<rparr>)
       \<and> (\<forall>k. k \<noteq> tokVarId argT \<longrightarrow>
             map_find (alloctype (fst (changeAllocStatus lib vi allocation tok argT))) k
               = map_find (alloctype vi) k)"
proof -
  have nb: "\<not> (case allocTok allocation of None \<Rightarrow> False | Some t \<Rightarrow> getAllocFuncInfo lib t \<noteq> None)"
    using assms(4) by (cases "allocTok allocation") simp_all
  have eq: "changeAllocStatus lib vi allocation tok argT =
      (vi\<lparr>alloctype := map_assign (tokVarId argT) (var\<lparr>status := status allocation\<rparr>) (alloctype vi)\<rparr>,
       doubleFreeError lib tok (allocTok var) (tokStr argT) (atype allocation))"
    using assms(1,2,3) nb by (simp add: changeAllocStatus_def)
  show ?thesis
    by (simp add: eq doubleFreeError_one map_find_assign)
qed

text \<open>
  Instance of C6_double_free: a second \<open>free(p)\<close>.
\<close>

theorem C6_double_free_witness:
  "managed (mkAllocInfo 1 DEALLOC (Some (mkTok ''free'' 0 1)))
   \<and> length (filter isDoubleFree (snd (changeAllocStatus exLib exFreed
        (mkAllocInfo 1 DEALLOC (Some (mkTok ''free'' 0 5))) (mkTok ''free'' 0 5) (mkTok ''p'' 1 7)))) = 1
   \<and> map_find (alloctype (fst (changeAllocStatus exLib exFreed
        (mkAllocInfo 1 DEALLOC (Some (mkTok ''free'' 0 5))) (mkTok ''free'' 0 5) (mkTok ''p'' 1 7)))) 1
       = Some (mkAllocInfo 1 DEALLOC (Some (mkTok ''free'' 0 1)))"
proof -
  have h1: "map_find (alloctype exFreed) (tokVarId (mkTok ''p'' 1 7))
              = Some (mkAllocInfo 1 DEALLOC (Some (mkTok ''free'' 0 1)))"
    by (simp add: exFreed_def emptyVarInfo_def mkTok_def map_find_def)
  have h2: "managed (mkAllocInfo 1 DEALLOC (Some (mkTok ''free'' 0 1)))"
    by (simp add: managed_def mkAllocInfo_def)
  have h3: "status (mkAllocInfo 1 DEALLOC (Some (mkTok ''free'' 0 5))) \<noteq> NOALLOC"
    by (simp add: mkAllocInfo_def)
  have h4: "case allocTok (mkAllocInfo 1 DEALLOC (Some (mkTok ''free'' 0 5))) of
              None \<Rightarrow> True | Some t \<Rightarrow> getAllocFuncInfo exLib t = None"
    by (simp add: mkAllocInfo_def exLib_def mkTok_def)
  have t: "tokVarId (mkTok ''p'' 1 7) = 1" by (simp add: mkTok_def)
  have u: "(mkAllocInfo 1 DEALLOC (Some (mkTok ''free'' 0 1)))
             \<lparr>status := status (mkAllocInfo 1 DEALLOC (Some (mkTok ''free'' 0 5)))\<rparr>
           = mkAllocInfo 1 DEALLOC (Some (mkTok ''free'' 0 1))"
    by (simp add: mkAllocInfo_def)
  from C6_double_free [OF h1 h2 h3 h4, of "mkTok ''free'' 0 5"] h2 show ?thesis
    by (simp add: t doubleFreeError_one mkAllocInfo_def)
qed

text \<open>
  C6 as stated fails: a deallocator that is also an allocator (\<open>fdopen\<close>) erases the managed record
  and emits nothing.
\<close>

theorem C6_counterexample:
  "map_find (alloctype exFreed) (tokVarId (mkTok ''p'' 1 7))
      = Some (mkAllocInfo 1 DEALLOC (Some (mkTok ''free'' 0 1)))
   \<and> managed (mkAllocInfo 1 DEALLOC (Some (mkTok ''free'' 0 1)))
   \<and> status (mkAllocInfo 1 DEALLOC (Some (mkTok ''fdopen'' 0 5))) = DEALLOC
   \<and> snd (changeAllocStatus exLib exFreed
        (mkAllocInfo 1 DEALLOC (Some (mkTok ''fdopen'' 0 5))) (mkTok ''fdopen'' 0 5) (mkTok ''p'' 1 7)) = []
   \<and> map_find (alloctype (fst (changeAllocStatus exLib exFreed
        (mkAllocInfo 1 DEALLOC (Some (mkTok ''fdopen'' 0 5))) (mkTok ''fdopen'' 0 5) (mkTok ''p'' 1 7)))) 1
       = None"
  by (simp add: changeAllocStatus_def exFreed_def emptyVarInfo_def mkTok_def map_find_def
        mkAllocInfo_def managed_def exLib_def erase_def map_erase_def)



section \<open>The join: conditional allocation and the union of the maps\<close>

text \<open>
  C1 (as amended): at the join, a variable that has a record in exactly one of the two block copies and had
  none before the \<open>if\<close> is in the merged \<open>conditionalAlloc\<close> set, unless that record is managed
  and the variable was in \<open>conditionalAlloc\<close> when \<open>checkScope\<close> was entered. The join reports
  nothing: when both blocks return true, the diagnostics of the \<open>if\<close> are those of its condition
  and of its two blocks, and the loop goes on from the merged state.
\<close>

theorem C1_merge_conditional:
  assumes d1: "distinct (map fst (alloctype varInfo1))"
    and d2: "distinct (map fst (alloctype varInfo2))"
    and old: "map_find (alloctype old) k = None"
    and one: "map_find (alloctype varInfo1) k = Some a \<and> map_find (alloctype varInfo2) k = None
            \<or> map_find (alloctype varInfo1) k = None \<and> map_find (alloctype varInfo2) k = Some a"
  shows "(k \<in> conditionalAlloc (mergeBranches ca0 old varInfo1 varInfo2)
            \<longleftrightarrow> \<not> (managed a \<and> k \<in> ca0))
       \<and> (braces info
            \<and> fst (ifResult env info ifBlock varInfo notzero rc) = Returned True w1
            \<and> fst (elseResult env info elseBlock varInfo notzero rc) = Returned True w2 \<longrightarrow>
          walk env ca0 endToken (IfElse info ifBlock elseBlock # rest) varInfo notzero rc
            = addDiags (snd (condEffect info varInfo)
                        @ snd (ifResult env info ifBlock varInfo notzero rc)
                        @ snd (elseResult env info elseBlock varInfo notzero rc))
                (walk env ca0 endToken rest
                   (mergeBranches ca0 (fst (condEffect info varInfo)) w1 w2) notzero rc))"
proof (intro conjI impI)
  show "k \<in> conditionalAlloc (mergeBranches ca0 old varInfo1 varInfo2)
          \<longleftrightarrow> \<not> (managed a \<and> k \<in> ca0)"
    by (rule merge_conditional_iff [OF d1 d2 old one])
next
  assume h: "braces info
            \<and> fst (ifResult env info ifBlock varInfo notzero rc) = Returned True w1
            \<and> fst (elseResult env info elseBlock varInfo notzero rc) = Returned True w2"
  then have b: "braces info" by simp
  from h show "walk env ca0 endToken (IfElse info ifBlock elseBlock # rest) varInfo notzero rc
            = addDiags (snd (condEffect info varInfo)
                        @ snd (ifResult env info ifBlock varInfo notzero rc)
                        @ snd (elseResult env info elseBlock varInfo notzero rc))
                (walk env ca0 endToken rest
                   (mergeBranches ca0 (fst (condEffect info varInfo)) w1 w2) notzero rc)"
    by (simp add: walk_If_braces [OF b] del: walk.simps)
qed

text \<open>
  Instance of C1_merge_conditional: \<open>if (c) { p = malloc(..); }\<close> as the whole body of a
  function. \<open>p\<close> is conditionally allocated after the join, which reports nothing; the leak is
  reported at the end of the function.
\<close>

theorem C1_merge_conditional_witness:
  "map_find (alloctype emptyVarInfo) 1 = None
   \<and> fst (ifResult exEnv exIf [Assign exAssignment] emptyVarInfo {} 1)
       = Returned True (emptyVarInfo\<lparr>alloctype := [(1, mkAllocInfo 1 ALLOC (Some (mkTok ''malloc'' 0 44)))]\<rparr>)
   \<and> fst (elseResult exEnv exIf [] emptyVarInfo {} 1) = Returned True emptyVarInfo
   \<and> 1 \<in> conditionalAlloc (mergeBranches {} emptyVarInfo
            (emptyVarInfo\<lparr>alloctype := [(1, mkAllocInfo 1 ALLOC (Some (mkTok ''malloc'' 0 44)))]\<rparr>)
            emptyVarInfo)
   \<and> walk exEnv {} (mkTok ''}'' 0 99) [IfElse exIf [Assign exAssignment] []] emptyVarInfo {} 1
       = (Returned True emptyVarInfo, [MemLeak (mkTok ''}'' 0 99) ''p''])"
proof -
  let ?v1 = "emptyVarInfo\<lparr>alloctype := [(1, mkAllocInfo 1 ALLOC (Some (mkTok ''malloc'' 0 44)))]\<rparr>"
  have d1: "distinct (map fst (alloctype ?v1))" by (simp add: emptyVarInfo_def)
  have d2: "distinct (map fst (alloctype emptyVarInfo))" by (simp add: emptyVarInfo_def)
  have old: "map_find (alloctype emptyVarInfo) 1 = None" by (simp add: emptyVarInfo_def map_find_def)
  have one: "map_find (alloctype ?v1) 1 = Some (mkAllocInfo 1 ALLOC (Some (mkTok ''malloc'' 0 44)))
               \<and> map_find (alloctype emptyVarInfo) 1 = None
           \<or> map_find (alloctype ?v1) 1 = None
               \<and> map_find (alloctype emptyVarInfo) 1 = Some (mkAllocInfo 1 ALLOC (Some (mkTok ''malloc'' 0 44)))"
    by (simp add: emptyVarInfo_def map_find_def)
  have a2: "assignmentStmt exEnv exAssignment ca e (emptyVarInfo, {}) = ((?v1, {}), [])" for ca e
    by (simp add: assign_exAssignment_empty)
  have p: "preIncrement 1 = 2" by (simp add: preIncrement_def)
  have ca: "conditionalAlloc emptyVarInfo = {}" by (simp add: emptyVarInfo_def)
  have r1: "ret exEnv (mkTok ''}'' 0 50) ?v1 True = (?v1, [])"
    by (simp add: ret_def emptyVarInfo_def exEnv_def mkTok_def Let_def)
  have i: "ifResult exEnv exIf [Assign exAssignment] emptyVarInfo {} 1 = (Returned True ?v1, [])"
    by (simp add: ifResult_def ifCopies_def exIf_simps exEnv_limit a2 r1 addDiags_def p ca)
  have e: "elseResult exEnv exIf [] emptyVarInfo {} 1 = (Returned True emptyVarInfo, [])"
    by (simp add: elseResult_def ifCopies_def exIf_simps)
  have m: "mergeBranches {} emptyVarInfo ?v1 emptyVarInfo
             = \<lparr>alloctype = [(1, mkAllocInfo 1 ALLOC (Some (mkTok ''malloc'' 0 44)))],
                possibleUsage = [], conditionalAlloc = {1}, referenced = {}\<rparr>"
    by (simp add: mergeBranches_def emptyVarInfo_def map_find_def managed_def mkAllocInfo_def
          Let_def map_insert_def)
  have r2: "ret exEnv (mkTok ''}'' 0 99)
              \<lparr>alloctype = [(1, mkAllocInfo 1 ALLOC (Some (mkTok ''malloc'' 0 44)))],
               possibleUsage = [], conditionalAlloc = {1}, referenced = {}\<rparr> True
            = (emptyVarInfo, [MemLeak (mkTok ''}'' 0 99) ''p''])"
    by (simp add: ret_def emptyVarInfo_def exEnv_def retReport_def managed_def mkAllocInfo_def
          map_find_def leakError_def exLib_def Let_def erase_def map_erase_def)
  from C1_merge_conditional [OF d1 d2 old one, of "{}" exIf exEnv "[Assign exAssignment]" emptyVarInfo
         "{}" 1 ?v1 "[]" emptyVarInfo "mkTok ''}'' 0 99" "[]"]
  have c: "1 \<in> conditionalAlloc (mergeBranches {} emptyVarInfo ?v1 emptyVarInfo)
         \<and> walk exEnv {} (mkTok ''}'' 0 99) [IfElse exIf [Assign exAssignment] []] emptyVarInfo {} 1
             = (Returned True emptyVarInfo, [MemLeak (mkTok ''}'' 0 99) ''p''])"
    by (simp add: i e exIf_simps m r2 addDiags_def del: walk.simps(4))
  show ?thesis using old i e c by simp
qed

text \<open>
  C1 as stated fails: \<open>p\<close> was conditionally allocated on entry, lost its record before the \<open>if\<close>, and is
  freed in the if-block only; it is not in the merged \<open>conditionalAlloc\<close>.
\<close>

theorem C1_counterexample:
  "map_find (alloctype emptyVarInfo) 1 = None
   \<and> map_find (alloctype exFreed) 1 = Some (mkAllocInfo 1 DEALLOC (Some (mkTok ''free'' 0 1)))
   \<and> 1 \<notin> conditionalAlloc (mergeBranches {1} emptyVarInfo exFreed emptyVarInfo)"
  by (simp add: mergeBranches_def exFreed_def emptyVarInfo_def map_find_def managed_def mkAllocInfo_def
        Let_def erase_def map_erase_def)

text \<open>
  C5 (as amended): the entries of the two copies are put into the empty merged maps with
  \<open>std::map::insert\<close>, the if-block's first, so on a key of both copies the if-block's
  entry is the one kept, in the allocation map and in the possible-usage map alike. Before that the
  join first erases a variable from both copies when it was conditionally allocated before
  the \<open>if\<close> and a block lost its record, from the else-block's copy when it was in
  \<open>conditionalAlloc\<close> on entry and its if-block record is managed, and from the if-block's
  copy when it was in \<open>conditionalAlloc\<close> on entry and its else-block record is managed and
  still there. So the else-block's entry is kept on a key of both copies only in that last case.
\<close>

theorem C5_merge_union:
  assumes d1: "distinct (map fst (alloctype varInfo1))"
    and d2: "distinct (map fst (alloctype varInfo2))"
  shows "(let lost = (k \<in> conditionalAlloc old \<and> map_find (alloctype old) k \<noteq> None
                      \<and> (map_find (alloctype varInfo1) k = None \<or> map_find (alloctype varInfo2) k = None));
              managed1 = (k \<in> conditionalAlloc0
                          \<and> (\<exists>a. map_find (alloctype varInfo1) k = Some a \<and> managed a));
              managed2 = (k \<in> conditionalAlloc0 \<and> \<not> managed1
                          \<and> (\<exists>a. map_find (alloctype varInfo2) k = Some a \<and> managed a))
          in map_find (alloctype (mergeBranches conditionalAlloc0 old varInfo1 varInfo2)) k
               = (if lost then None
                  else case (if managed2 then None else map_find (alloctype varInfo1) k) of
                         Some w \<Rightarrow> Some w
                       | None \<Rightarrow> if managed1 then None else map_find (alloctype varInfo2) k)
           \<and> map_find (possibleUsage (mergeBranches conditionalAlloc0 old varInfo1 varInfo2)) k
               = (if lost then None
                  else case (if managed2 then None else map_find (possibleUsage varInfo1) k) of
                         Some w \<Rightarrow> Some w
                       | None \<Rightarrow> if managed1 then None else map_find (possibleUsage varInfo2) k))
       \<and> (map_find (alloctype varInfo1) k = Some a1 \<and> map_find (alloctype varInfo2) k = Some a2 \<longrightarrow>
            map_find (alloctype (mergeBranches conditionalAlloc0 old varInfo1 varInfo2)) k
              = Some (if k \<in> conditionalAlloc0 \<and> \<not> managed a1 \<and> managed a2 then a2 else a1)
            \<and> (map_find (possibleUsage varInfo1) k = Some u1
                 \<and> map_find (possibleUsage varInfo2) k = Some u2 \<longrightarrow>
                map_find (possibleUsage (mergeBranches conditionalAlloc0 old varInfo1 varInfo2)) k
                  = Some (if k \<in> conditionalAlloc0 \<and> \<not> managed a1 \<and> managed a2 then u2 else u1)))"
proof -
  define ca0 where "ca0 = conditionalAlloc0"
  define v1 where "v1 = fst (eraseLostConditional old (alloctype old) varInfo1 varInfo2)"
  define v2 where "v2 = snd (eraseLostConditional old (alloctype old) varInfo1 varInfo2)"
  define v2' where "v2' = snd (conditionalDealloc (alloctype v1) ca0 {} v2)"
  define v1' where "v1' = snd (conditionalDealloc (alloctype v2') ca0 {} v1)"
  define lost where "lost = (k \<in> conditionalAlloc old \<and> map_find (alloctype old) k \<noteq> None
                      \<and> (map_find (alloctype varInfo1) k = None \<or> map_find (alloctype varInfo2) k = None))"
  define managed1 where "managed1 = (k \<in> ca0 \<and> (\<exists>a. map_find (alloctype varInfo1) k = Some a \<and> managed a))"
  define managed2 where "managed2 = (k \<in> ca0 \<and> \<not> managed1
                          \<and> (\<exists>a. map_find (alloctype varInfo2) k = Some a \<and> managed a))"
  have l: "(k \<in> conditionalAlloc old \<and> k \<in> fst ` set (alloctype old)
             \<and> (map_find (alloctype varInfo1) k = None \<or> map_find (alloctype varInfo2) k = None)) = lost"
    by (auto simp: lost_def map_find_None_iff)
  note ef = eraseLost_find [of old "alloctype old" varInfo1 varInfo2 k, unfolded l,
                            folded v1_def v2_def]
  have f1: "map_find (alloctype v1) k = (if lost then None else map_find (alloctype varInfo1) k)"
    and f2: "map_find (alloctype v2) k = (if lost then None else map_find (alloctype varInfo2) k)"
    and u1: "map_find (possibleUsage v1) k = (if lost then None else map_find (possibleUsage varInfo1) k)"
    and u2: "map_find (possibleUsage v2) k = (if lost then None else map_find (possibleUsage varInfo2) k)"
    using ef by simp_all
  have dv1: "distinct (map fst (alloctype v1))" and dv2: "distinct (map fst (alloctype v2))"
    using eraseLost_distinct [OF d1 d2] by (simp_all add: v1_def v2_def)
  have dv2': "distinct (map fst (alloctype v2'))"
    unfolding v2'_def by (rule conditionalDealloc_distinct [OF dv2])
  have m1: "(k \<in> ca0 \<and> (\<exists>a. (k, a) \<in> set (alloctype v1) \<and> managed a)) = (\<not> lost \<and> managed1)"
    by (auto simp: map_find_Some_iff [OF dv1, symmetric] f1 managed1_def)
  have fv2': "map_find (alloctype v2') k
                = (if lost \<or> managed1 then None else map_find (alloctype varInfo2) k)"
    and uv2': "map_find (possibleUsage v2') k
                = (if lost \<or> managed1 then None else map_find (possibleUsage varInfo2) k)"
    by (simp_all add: v2'_def conditionalDealloc_find conditionalDealloc_findU m1 f2 u2)
  have m2: "(k \<in> ca0 \<and> (\<exists>a. (k, a) \<in> set (alloctype v2') \<and> managed a)) = (\<not> lost \<and> managed2)"
    by (auto simp: map_find_Some_iff [OF dv2', symmetric] fv2' managed2_def)
  have fv1': "map_find (alloctype v1') k
                = (if lost \<or> managed2 then None else map_find (alloctype varInfo1) k)"
    and uv1': "map_find (possibleUsage v1') k
                = (if lost \<or> managed2 then None else map_find (possibleUsage varInfo1) k)"
    by (simp_all add: v1'_def conditionalDealloc_find conditionalDealloc_findU m2 f1 u1)
  have a: "map_find (alloctype (mergeBranches ca0 old varInfo1 varInfo2)) k
             = (case map_find (alloctype v1') k of Some w \<Rightarrow> Some w | None \<Rightarrow> map_find (alloctype v2') k)"
    unfolding mergeBranches_maps map_find_insert_range v1'_def v2'_def v1_def v2_def
    by (simp add: map_find_Nil split: option.splits)
  have u: "map_find (possibleUsage (mergeBranches ca0 old varInfo1 varInfo2)) k
             = (case map_find (possibleUsage v1') k of Some w \<Rightarrow> Some w
                | None \<Rightarrow> map_find (possibleUsage v2') k)"
    unfolding mergeBranches_maps map_find_insert_range v1'_def v2'_def v1_def v2_def
    by (simp add: map_find_Nil split: option.splits)
  have A: "map_find (alloctype (mergeBranches ca0 old varInfo1 varInfo2)) k
               = (if lost then None
                  else case (if managed2 then None else map_find (alloctype varInfo1) k) of
                         Some w \<Rightarrow> Some w
                       | None \<Rightarrow> if managed1 then None else map_find (alloctype varInfo2) k)"
    by (simp add: a fv1' fv2' split: option.splits)
  have U: "map_find (possibleUsage (mergeBranches ca0 old varInfo1 varInfo2)) k
               = (if lost then None
                  else case (if managed2 then None else map_find (possibleUsage varInfo1) k) of
                         Some w \<Rightarrow> Some w
                       | None \<Rightarrow> if managed1 then None else map_find (possibleUsage varInfo2) k)"
    by (simp add: u uv1' uv2' split: option.splits)
  have B: "map_find (alloctype (mergeBranches ca0 old varInfo1 varInfo2)) k
              = Some (if k \<in> ca0 \<and> \<not> managed a1 \<and> managed a2 then a2 else a1)"
    if "map_find (alloctype varInfo1) k = Some a1 \<and> map_find (alloctype varInfo2) k = Some a2"
    using that by (simp add: A lost_def managed1_def managed2_def)
  have V: "map_find (possibleUsage (mergeBranches ca0 old varInfo1 varInfo2)) k
                  = Some (if k \<in> ca0 \<and> \<not> managed a1 \<and> managed a2 then u2 else u1)"
    if "map_find (alloctype varInfo1) k = Some a1 \<and> map_find (alloctype varInfo2) k = Some a2"
      "map_find (possibleUsage varInfo1) k = Some u1 \<and> map_find (possibleUsage varInfo2) k = Some u2"
    using that by (simp add: U lost_def managed1_def managed2_def)
  show ?thesis
    unfolding Let_def ca0_def [symmetric] lost_def [symmetric] managed1_def [symmetric]
      managed2_def [symmetric]
    using A U B V by blast
qed

text \<open>
  Instance of C5_merge_union: \<open>p\<close> allocated in both blocks at different tokens, with a
  possible usage noted in both blocks at different calls.
\<close>

theorem C5_merge_union_witness:
  "distinct (map fst (alloctype (exAlloc\<lparr>possibleUsage := [(1, (Some (mkTok ''f'' 0 5), USED))]\<rparr>)))
   \<and> distinct (map fst (alloctype (exAlloc2\<lparr>possibleUsage := [(1, (Some (mkTok ''g'' 0 11), USED))]\<rparr>)))
   \<and> map_find (alloctype (mergeBranches {} exAlloc
         (exAlloc\<lparr>possibleUsage := [(1, (Some (mkTok ''f'' 0 5), USED))]\<rparr>)
         (exAlloc2\<lparr>possibleUsage := [(1, (Some (mkTok ''g'' 0 11), USED))]\<rparr>))) 1
       = Some (mkAllocInfo 1 ALLOC (Some (mkTok ''malloc'' 0 2)))
   \<and> map_find (possibleUsage (mergeBranches {} exAlloc
         (exAlloc\<lparr>possibleUsage := [(1, (Some (mkTok ''f'' 0 5), USED))]\<rparr>)
         (exAlloc2\<lparr>possibleUsage := [(1, (Some (mkTok ''g'' 0 11), USED))]\<rparr>))) 1
       = Some (Some (mkTok ''f'' 0 5), USED)"
proof -
  let ?w1 = "exAlloc\<lparr>possibleUsage := [(1, (Some (mkTok ''f'' 0 5), USED))]\<rparr>"
  let ?w2 = "exAlloc2\<lparr>possibleUsage := [(1, (Some (mkTok ''g'' 0 11), USED))]\<rparr>"
  have d1: "distinct (map fst (alloctype ?w1))" by (simp add: exAlloc_def emptyVarInfo_def)
  have d2: "distinct (map fst (alloctype ?w2))" by (simp add: exAlloc2_def emptyVarInfo_def)
  have k1: "map_find (alloctype ?w1) 1 = Some (mkAllocInfo 1 ALLOC (Some (mkTok ''malloc'' 0 2)))"
    by (simp add: exAlloc_def emptyVarInfo_def map_find_def)
  have k2: "map_find (alloctype ?w2) 1 = Some (mkAllocInfo 1 ALLOC (Some (mkTok ''malloc'' 0 9)))"
    by (simp add: exAlloc2_def emptyVarInfo_def map_find_def)
  have p1: "map_find (possibleUsage ?w1) 1 = Some (Some (mkTok ''f'' 0 5), USED)"
    by (simp add: map_find_def)
  have p2: "map_find (possibleUsage ?w2) 1 = Some (Some (mkTok ''g'' 0 11), USED)"
    by (simp add: map_find_def)
  from C5_merge_union [OF d1 d2, of 1 exAlloc "{}" "mkAllocInfo 1 ALLOC (Some (mkTok ''malloc'' 0 2))"
         "mkAllocInfo 1 ALLOC (Some (mkTok ''malloc'' 0 9))" "(Some (mkTok ''f'' 0 5), USED)"
         "(Some (mkTok ''g'' 0 11), USED)", THEN conjunct2] k1 k2 p1 p2
  have "map_find (alloctype (mergeBranches {} exAlloc ?w1 ?w2)) 1
          = Some (mkAllocInfo 1 ALLOC (Some (mkTok ''malloc'' 0 2)))
      \<and> map_find (possibleUsage (mergeBranches {} exAlloc ?w1 ?w2)) 1
          = Some (Some (mkTok ''f'' 0 5), USED)"
    by simp
  with d1 d2 show ?thesis by simp
qed

text \<open>
  C5 as stated fails: the merged entry is not the else-block's.
\<close>

theorem C5_counterexample:
  "map_find (alloctype exAlloc) 1 = Some (mkAllocInfo 1 ALLOC (Some (mkTok ''malloc'' 0 2)))
   \<and> map_find (alloctype exAlloc2) 1 = Some (mkAllocInfo 1 ALLOC (Some (mkTok ''malloc'' 0 9)))
   \<and> map_find (alloctype (mergeBranches {} exAlloc exAlloc exAlloc2)) 1
       \<noteq> map_find (alloctype exAlloc2) 1"
  by (simp add: mergeBranches_def exAlloc_def exAlloc2_def emptyVarInfo_def map_find_def
        managed_def mkAllocInfo_def map_insert_def mkTok_def Let_def erase_def map_erase_def)
section \<open>Comparisons of the condition\<close>

text \<open>
  C3 (as amended): for an allocation-success comparison against \<open>v\<close> the copy of the else-block gets
  \<open>reallocToAlloc(v)\<close> and then loses the record of \<open>v\<close>, and it is cleared as a whole
  exactly when the token is also a comparison \<open>!= 0\<close> of a variable in \<open>notzero\<close>. The copy of
  the if-block is unchanged, so it keeps the record of \<open>v\<close>, except that it is cleared as a
  whole exactly when it holds an ALLOC record of an allocation through an out-parameter whose
  return value is the variable of the comparison \<open>!= 0\<close>. For an allocation-failure comparison
  the copy of the if-block gets \<open>reallocToAlloc(v)\<close> and loses the record of \<open>v\<close>, and the
  copy of the else-block is unchanged. A comparison of either kind that is an argument of a call in
  the condition erases the record of \<open>v\<close> from both copies. The two blocks are analysed from
  the copies so made.
\<close>

theorem C3_condition_comparison:
  "(isVarTokComparison tok3 alloc_success_conds = Some vartok \<longrightarrow>
      snd (visitComparison env notzero tok3 (varInfo1, varInfo2))
        = (if (case astIsVariableComparison tok3 ''!='' ''0'' of
                 Some vt \<Rightarrow> tokVarId vt \<in> notzero | None \<Rightarrow> False)
           then emptyVarInfo
           else erase (reallocToAlloc env varInfo2 (tokVarId vartok)) (tokVarId vartok))
      \<and> fst (visitComparison env notzero tok3 (varInfo1, varInfo2))
        = (if list_ex (\<lambda>info. status (snd info) = ALLOC \<and>
                 (case (outparamRet env (allocTok (snd info)), astIsVariableComparison tok3 ''!='' ''0'') of
                    (Some rtok, Some vt) \<Rightarrow> tokVarId rtok \<noteq> 0 \<and> tokVarId rtok = tokVarId vt
                  | _ \<Rightarrow> False)) (alloctype varInfo1)
           then emptyVarInfo else varInfo1)
      \<and> map_find (alloctype (snd (visitComparison env notzero tok3 (varInfo1, varInfo2)))) (tokVarId vartok)
        = None
      \<and> ((\<forall>info \<in> set (alloctype varInfo1). outparamRet env (allocTok (snd info)) = None) \<longrightarrow>
            fst (visitComparison env notzero tok3 (varInfo1, varInfo2)) = varInfo1))
   \<and> (isVarTokComparison tok3 alloc_success_conds = None
        \<and> isVarTokComparison tok3 alloc_failed_conds = Some vartok \<longrightarrow>
      visitComparison env notzero tok3 (varInfo1, varInfo2)
        = (erase (reallocToAlloc env varInfo1 (tokVarId vartok)) (tokVarId vartok), varInfo2)
      \<and> map_find (alloctype (fst (visitComparison env notzero tok3 (varInfo1, varInfo2)))) (tokVarId vartok)
        = None)
   \<and> (isVarTokComparison tok3 alloc_success_conds = Some vartok
        \<or> isVarTokComparison tok3 alloc_success_conds = None
          \<and> isVarTokComparison tok3 alloc_failed_conds = Some vartok \<longrightarrow>
      visitCallParams ((True, tok3) # params) (varInfo1, varInfo2)
        = visitCallParams params (erase varInfo1 (tokVarId vartok), erase varInfo2 (tokVarId vartok)))
   \<and> (condAst info = CLeaf tok3 \<and> condKnown info = None \<and> hasElse info \<longrightarrow>
      ifResult env info ifBlock varInfo notzero rc
        = checkScope env (ifStart info) (ifEnd info) ifBlock
            (fst (visitComparison env notzero tok3
                    (fst (condEffect info varInfo), fst (condEffect info varInfo)))) notzero rc
      \<and> elseResult env info elseBlock varInfo notzero rc
        = checkScope env (elseStart info) (elseEnd info) elseBlock
            (snd (visitComparison env notzero tok3
                    (fst (condEffect info varInfo), fst (condEffect info varInfo)))) notzero rc)"
proof (intro conjI impI)
  assume s: "isVarTokComparison tok3 alloc_success_conds = Some vartok"
  show r2: "snd (visitComparison env notzero tok3 (varInfo1, varInfo2))
        = (if (case astIsVariableComparison tok3 ''!='' ''0'' of
                 Some vt \<Rightarrow> tokVarId vt \<in> notzero | None \<Rightarrow> False)
           then emptyVarInfo
           else erase (reallocToAlloc env varInfo2 (tokVarId vartok)) (tokVarId vartok))"
    by (simp add: visitComparison_def s Let_def clear_eq split: option.splits)
  show "map_find (alloctype (snd (visitComparison env notzero tok3 (varInfo1, varInfo2))))
          (tokVarId vartok) = None"
    unfolding r2 by (simp add: erase_find_None empty_find_None)
  show r1: "fst (visitComparison env notzero tok3 (varInfo1, varInfo2))
        = (if list_ex (\<lambda>info. status (snd info) = ALLOC \<and>
                 (case (outparamRet env (allocTok (snd info)), astIsVariableComparison tok3 ''!='' ''0'') of
                    (Some rtok, Some vt) \<Rightarrow> tokVarId rtok \<noteq> 0 \<and> tokVarId rtok = tokVarId vt
                  | _ \<Rightarrow> False)) (alloctype varInfo1)
           then emptyVarInfo else varInfo1)"
    by (simp add: visitComparison_def s Let_def clear_eq)
  assume "\<forall>info \<in> set (alloctype varInfo1). outparamRet env (allocTok (snd info)) = None"
  then have "\<not> list_ex (\<lambda>info. status (snd info) = ALLOC \<and>
                 (case (outparamRet env (allocTok (snd info)), astIsVariableComparison tok3 ''!='' ''0'') of
                    (Some rtok, Some vt) \<Rightarrow> tokVarId rtok \<noteq> 0 \<and> tokVarId rtok = tokVarId vt
                  | _ \<Rightarrow> False)) (alloctype varInfo1)"
    by (auto simp: list_ex_iff)
  then show "fst (visitComparison env notzero tok3 (varInfo1, varInfo2)) = varInfo1"
    unfolding r1 by simp
next
  assume f: "isVarTokComparison tok3 alloc_success_conds = None
        \<and> isVarTokComparison tok3 alloc_failed_conds = Some vartok"
  then show e: "visitComparison env notzero tok3 (varInfo1, varInfo2)
        = (erase (reallocToAlloc env varInfo1 (tokVarId vartok)) (tokVarId vartok), varInfo2)"
    by (simp add: visitComparison_def)
  show "map_find (alloctype (fst (visitComparison env notzero tok3 (varInfo1, varInfo2)))) (tokVarId vartok) = None"
    by (simp add: e erase_find_None)
next
  assume "isVarTokComparison tok3 alloc_success_conds = Some vartok
        \<or> isVarTokComparison tok3 alloc_success_conds = None
          \<and> isVarTokComparison tok3 alloc_failed_conds = Some vartok"
  then show "visitCallParams ((True, tok3) # params) (varInfo1, varInfo2)
        = visitCallParams params (erase varInfo1 (tokVarId vartok), erase varInfo2 (tokVarId vartok))"
    by auto
next
  assume a: "condAst info = CLeaf tok3 \<and> condKnown info = None \<and> hasElse info"
  then show "ifResult env info ifBlock varInfo notzero rc
        = checkScope env (ifStart info) (ifEnd info) ifBlock
            (fst (visitComparison env notzero tok3
                    (fst (condEffect info varInfo), fst (condEffect info varInfo)))) notzero rc"
    by (simp add: ifResult_def ifCopies_def del: checkScope.simps)
  from a show "elseResult env info elseBlock varInfo notzero rc
        = checkScope env (elseStart info) (elseEnd info) elseBlock
            (snd (visitComparison env notzero tok3
                    (fst (condEffect info varInfo), fst (condEffect info varInfo)))) notzero rc"
    by (simp add: elseResult_def ifCopies_def del: checkScope.simps)
qed

text \<open>
  Instances of C3_condition_comparison: \<open>if (p != 0)\<close> with \<open>p\<close> allocated, once with nothing
  known about \<open>p\<close> and once with \<open>p\<close> in \<open>notzero\<close> and \<open>q\<close> allocated too, and
  \<open>if (p == 0)\<close>.
\<close>

theorem C3_condition_comparison_witness:
  "isVarTokComparison [((''!='', ''0''), mkTok ''p'' 1 4)] alloc_success_conds = Some (mkTok ''p'' 1 4)
   \<and> visitComparison exEnv {} [((''!='', ''0''), mkTok ''p'' 1 4)] (exAlloc, exAlloc)
       = (exAlloc, emptyVarInfo)
   \<and> visitComparison exEnv {} [((''!='', ''0''), mkTok ''p'' 1 4)] (exTwo, exTwo)
       = (exTwo, emptyVarInfo\<lparr>alloctype := [(2, mkAllocInfo 1 ALLOC (Some (mkTok ''malloc'' 0 8)))]\<rparr>)
   \<and> visitComparison exEnv {1} [((''!='', ''0''), mkTok ''p'' 1 4)] (exTwo, exTwo)
       = (exTwo, emptyVarInfo)
   \<and> isVarTokComparison [((''=='', ''0''), mkTok ''p'' 1 4)] alloc_success_conds = None
   \<and> isVarTokComparison [((''=='', ''0''), mkTok ''p'' 1 4)] alloc_failed_conds = Some (mkTok ''p'' 1 4)
   \<and> visitComparison exEnv {} [((''=='', ''0''), mkTok ''p'' 1 4)] (exTwo, exTwo)
       = (emptyVarInfo\<lparr>alloctype := [(2, mkAllocInfo 1 ALLOC (Some (mkTok ''malloc'' 0 8)))]\<rparr>, exTwo)"
proof -
  let ?ne = "[((''!='', ''0''), mkTok ''p'' 1 4)]" and ?eq = "[((''=='', ''0''), mkTok ''p'' 1 4)]"
  let ?q = "emptyVarInfo\<lparr>alloctype := [(2, mkAllocInfo 1 ALLOC (Some (mkTok ''malloc'' 0 8)))]\<rparr>"
  have s: "isVarTokComparison ?ne alloc_success_conds = Some (mkTok ''p'' 1 4)"
    by (simp add: alloc_success_conds_def astIsVariableComparison_def)
  have n: "isVarTokComparison ?eq alloc_success_conds = None"
    by (simp add: alloc_success_conds_def astIsVariableComparison_def)
  have f: "isVarTokComparison ?eq alloc_failed_conds = Some (mkTok ''p'' 1 4)"
    by (simp add: alloc_failed_conds_def astIsVariableComparison_def)
  have c: "astIsVariableComparison ?ne ''!='' ''0'' = Some (mkTok ''p'' 1 4)"
    by (simp add: astIsVariableComparison_def)
  have o: "outparamRet exEnv t = None" for t
    by (simp add: exEnv_def)
  have e1: "erase (reallocToAlloc exEnv exAlloc 1) 1 = emptyVarInfo"
    by (simp add: exEnv_def reallocToAllocSpec_def exAlloc_def emptyVarInfo_def map_find_def
          mkAllocInfo_def erase_def map_erase_def)
  have e2: "erase (reallocToAlloc exEnv exTwo 1) 1 = ?q"
    by (simp add: exEnv_def reallocToAllocSpec_def exTwo_def emptyVarInfo_def map_find_def
          mkAllocInfo_def erase_def map_erase_def)
  note t = C3_condition_comparison [of ?ne "mkTok ''p'' 1 4" exEnv, THEN conjunct1, rule_format, OF s]
  note u = C3_condition_comparison [of ?eq "mkTok ''p'' 1 4" exEnv, THEN conjunct2, THEN conjunct1,
             rule_format, OF conjI [OF n f]]
  have a1: "visitComparison exEnv {} ?ne (exAlloc, exAlloc) = (exAlloc, emptyVarInfo)"
    using t [of "{}" exAlloc exAlloc]
    by (simp add: c o e1 mkTok_simps prod_eq_iff list_ex_iff)
  have a2: "visitComparison exEnv {} ?ne (exTwo, exTwo) = (exTwo, ?q)"
    using t [of "{}" exTwo exTwo]
    by (simp add: c o e2 mkTok_simps prod_eq_iff list_ex_iff)
  have a3: "visitComparison exEnv {1} ?ne (exTwo, exTwo) = (exTwo, emptyVarInfo)"
    using t [of "{1}" exTwo exTwo]
    by (simp add: c o mkTok_simps prod_eq_iff list_ex_iff)
  have a4: "visitComparison exEnv {} ?eq (exTwo, exTwo) = (?q, exTwo)"
    using u [of "{}" exTwo exTwo]
    by (simp add: e2 mkTok_simps)
  from s n f a1 a2 a3 a4 show ?thesis by simp
qed

text \<open>
  C3 as stated fails: after \<open>if (p != 0)\<close> the copy of the if-block still holds the record of \<open>p\<close>.
\<close>

theorem C3_counterexample:
  "isVarTokComparison [((''!='', ''0''), mkTok ''p'' 1 4)] alloc_success_conds = Some (mkTok ''p'' 1 4)
   \<and> map_find (alloctype (fst (visitCond exEnv {} (CLeaf [((''!='', ''0''), mkTok ''p'' 1 4)])
          (exAlloc, exAlloc)))) 1 = Some (mkAllocInfo 1 ALLOC (Some (mkTok ''malloc'' 0 2)))"
  by (simp add: visitComparison_def alloc_success_conds_def astIsVariableComparison_def Let_def
        exEnv_def exAlloc_def emptyVarInfo_def map_find_def mkAllocInfo_def mkTok_def)
section \<open>Smart pointers and throw\<close>

text \<open>
  C9: \<open>p\<close> holds memory from \<open>new\<close> and \<open>q\<close> memory from \<open>malloc\<close> when
  \<open>std::unique_ptr<T, D> up(p, d);\<close> is declared with a deleter \<open>d\<close> of which nothing can be
  scanned. The declaration branch clears the whole state, so the record of \<open>q\<close> is lost and
  its leak at the end of the function is not reported. The branch of \<open>functionCall\<close> for a smart
  pointer that is an argument of a call, and the declaration branch itself when there is no
  deleter, change the record of \<open>p\<close> only, and the leak of \<open>q\<close> is reported.
\<close>

theorem C9_unresolved_deleter_clears:
  "spDeleter exSmartPtr = Some \<lparr>delFuncPtr = None, delScope = None\<rparr>
   \<and> tokVarId (spVtok exSmartPtr) = 1
   \<and> map_find (alloctype exNewAndMalloc) 2 = Some (mkAllocInfo 1 ALLOC (Some (mkTok ''malloc'' 0 8)))
   \<and> smartPointerStmt exEnv (mkTok ''}'' 0 99) exSmartPtr exNewAndMalloc = (emptyVarInfo, [])
   \<and> map_find (alloctype (fst (smartPointerStmt exEnv (mkTok ''}'' 0 99) exSmartPtr exNewAndMalloc))) 2
       = None
   \<and> walk exEnv {} (mkTok ''}'' 0 99) [SmartPointer exSmartPtr] exNewAndMalloc {} 1
       = (Returned True emptyVarInfo, [])
   \<and> smartPointerArg exEnv exSmartPtr exNewAndMalloc
       = (emptyVarInfo\<lparr>alloctype := [(1, mkAllocInfo NEW OWNED None),
                                        (2, mkAllocInfo 1 ALLOC (Some (mkTok ''malloc'' 0 8)))]\<rparr>, [])
   \<and> smartPointerStmt exEnv (mkTok ''}'' 0 99) (exSmartPtr\<lparr>spDeleter := None\<rparr>) exNewAndMalloc
       = (emptyVarInfo\<lparr>alloctype := [(1, mkAllocInfo NEW OWNED (Some (mkTok ''unique_ptr'' 0 12))),
                                        (2, mkAllocInfo 1 ALLOC (Some (mkTok ''malloc'' 0 8)))]\<rparr>, [])
   \<and> walk exEnv {} (mkTok ''}'' 0 99) [SmartPointer (exSmartPtr\<lparr>spDeleter := None\<rparr>)]
         exNewAndMalloc {} 1
       = (Returned True emptyVarInfo, [MemLeak (mkTok ''}'' 0 99) ''q''])"
proof -
  let ?e = "mkTok ''}'' 0 99"
  let ?own = "emptyVarInfo\<lparr>alloctype := [(1, mkAllocInfo NEW OWNED (Some (mkTok ''unique_ptr'' 0 12))),
                                        (2, mkAllocInfo 1 ALLOC (Some (mkTok ''malloc'' 0 8)))]\<rparr>"
  have sp: "spMatches exSmartPtr" "\<not> spReleased exSmartPtr e" "spVtok exSmartPtr = mkTok ''p'' 1 20"
    "spFtok exSmartPtr = mkTok ''unique_ptr'' 0 12" "\<not> spArrayDelete exSmartPtr"
    "spDeleter exSmartPtr = Some \<lparr>delFuncPtr = None, delScope = None\<rparr>" for e
    by (simp_all add: exSmartPtr_def)
  have q: "map_find (alloctype exNewAndMalloc) 2 = Some (mkAllocInfo 1 ALLOC (Some (mkTok ''malloc'' 0 8)))"
    by (simp add: exNewAndMalloc_def emptyVarInfo_def map_find_def)
  have a: "smartPointerStmt exEnv ?e exSmartPtr exNewAndMalloc = (emptyVarInfo, [])"
    by (simp add: smartPointerStmt_def sp checkDeleter_def clear_eq)
  have b: "smartPointerArg exEnv exSmartPtr exNewAndMalloc
       = (emptyVarInfo\<lparr>alloctype := [(1, mkAllocInfo NEW OWNED None),
                                        (2, mkAllocInfo 1 ALLOC (Some (mkTok ''malloc'' 0 8)))]\<rparr>, [])"
    by (simp add: smartPointerArg_def sp changeAllocStatus_def exNewAndMalloc_def emptyVarInfo_def
          map_find_def mkAllocInfo_def mkTok_simps managed_def NEW_def exLib_malloc)
  have c: "smartPointerStmt exEnv ?e (exSmartPtr\<lparr>spDeleter := None\<rparr>) exNewAndMalloc = (?own, [])"
    by (simp add: smartPointerStmt_def sp checkDeleter_def changeAllocStatus_def exNewAndMalloc_def
          emptyVarInfo_def map_find_def mkAllocInfo_def mkTok_simps managed_def NEW_def
          exEnv_def exLib_def)
  have r0: "ret exEnv ?e emptyVarInfo True = (emptyVarInfo, [])"
    by (simp add: ret_def emptyVarInfo_def)
  have r1: "ret exEnv ?e ?own True = (emptyVarInfo, [MemLeak ?e ''q''])"
    by (simp add: ret_def emptyVarInfo_def Let_def retReport_def managed_def mkAllocInfo_def
          map_find_def leakError_def erase_def map_erase_def exEnv_def exLib_def mkTok_def NEW_def)
  have w0: "walk exEnv {} ?e [SmartPointer exSmartPtr] exNewAndMalloc {} 1
              = (Returned True emptyVarInfo, [])"
    by (simp add: a r0 addDiags_def)
  have w1: "walk exEnv {} ?e [SmartPointer (exSmartPtr\<lparr>spDeleter := None\<rparr>)] exNewAndMalloc {} 1
              = (Returned True emptyVarInfo, [MemLeak ?e ''q''])"
    by (simp add: c r1 addDiags_def)
  have n: "map_find (alloctype emptyVarInfo) 2 = None"
    by (simp add: emptyVarInfo_def map_find_def)
  show ?thesis
    by (simp only: sp q a b c w0 w1 n fst_conv mkTok_simps simp_thms)
qed

text \<open>
  C10 (as amended): a \<open>throw\<close> with a try scope among the scopes around it, searched outwards up to
  the first scope that is not executable, clears the state and reports nothing; any other
  \<open>throw\<close> is handled exactly as a \<open>return\<close> at the same token.
\<close>

theorem C10_throw:
  "((\<exists>s \<in> set (takeWhile isExecutable scopes). scopeType s = eTry) \<longrightarrow>
       throwStmt env tok scopes varInfo = (emptyVarInfo, [])
       \<and> walk env ca0 endToken (Throw tok scopes # rest) varInfo notzero rc
           = walk env ca0 endToken rest emptyVarInfo notzero rc)
   \<and> (\<not> (\<exists>s \<in> set (takeWhile isExecutable scopes). scopeType s = eTry) \<longrightarrow>
       throwStmt env tok scopes varInfo = returnStmt env tok varInfo
       \<and> walk env ca0 endToken (Throw tok scopes # rest) varInfo notzero rc
           = walk env ca0 endToken (Return tok # rest) varInfo notzero rc)"
  by (simp add: throwStmt_def returnStmt_def tryFoundIn_iff clear_eq addDiags_def)

text \<open>
  Instances of C10_throw: a \<open>throw\<close> two scopes below a \<open>try\<close>, and one in a function without \<open>try\<close>,
  each with \<open>p\<close> allocated.
\<close>

theorem C10_throw_witness:
  "(\<exists>s \<in> set (takeWhile isExecutable exTryScopes). scopeType s = eTry)
   \<and> throwStmt exEnv (mkTok ''throw'' 0 30) exTryScopes exAlloc = (emptyVarInfo, [])
   \<and> \<not> (\<exists>s \<in> set (takeWhile isExecutable exFunScopes). scopeType s = eTry)
   \<and> throwStmt exEnv (mkTok ''throw'' 0 30) exFunScopes exAlloc
       = (emptyVarInfo, [MemLeak (mkTok ''throw'' 0 30) ''p''])"
proof -
  have a: "\<exists>s \<in> set (takeWhile isExecutable exTryScopes). scopeType s = eTry"
    by (simp add: exTryScopes_def)
  have b: "\<not> (\<exists>s \<in> set (takeWhile isExecutable exFunScopes). scopeType s = eTry)"
    by (simp add: exFunScopes_def)
  have r: "returnStmt exEnv (mkTok ''throw'' 0 30) exAlloc
             = (emptyVarInfo, [MemLeak (mkTok ''throw'' 0 30) ''p''])"
    by (simp add: returnStmt_def ret_def exAlloc_def emptyVarInfo_def exEnv_def retReport_def
          managed_def mkAllocInfo_def map_find_def leakError_def exLib_def clear_def Let_def)
  from C10_throw [of exTryScopes exEnv "mkTok ''throw'' 0 30" exAlloc] a
  have c: "throwStmt exEnv (mkTok ''throw'' 0 30) exTryScopes exAlloc = (emptyVarInfo, [])"
    by blast
  from C10_throw [of exFunScopes exEnv "mkTok ''throw'' 0 30" exAlloc] b r
  have d: "throwStmt exEnv (mkTok ''throw'' 0 30) exFunScopes exAlloc
       = (emptyVarInfo, [MemLeak (mkTok ''throw'' 0 30) ''p''])"
    by simp
  from a b c d show ?thesis by blast
qed

text \<open>
  C10 as stated fails: a \<open>throw\<close> in a member function of a class declared inside a \<open>try\<close> block
  has an enclosing try scope, but the search stops at the class: the \<open>throw\<close> is handled as a
  \<open>return\<close> and the leak of \<open>p\<close> is reported.
\<close>

theorem C10_counterexample:
  "eTry \<in> scopeType ` set exLocalClassScopes
   \<and> throwStmt exEnv (mkTok ''throw'' 0 30) exLocalClassScopes exAlloc
       = (emptyVarInfo, [MemLeak (mkTok ''throw'' 0 30) ''p''])"
  by (simp add: exLocalClassScopes_def throwStmt_def ret_def exAlloc_def emptyVarInfo_def exEnv_def
        retReport_def managed_def mkAllocInfo_def map_find_def leakError_def exLib_def clear_def
        Let_def erase_def map_erase_def)
section \<open>Abandoned blocks\<close>

text \<open>
  C2: \<open>p\<close> holds memory from \<open>malloc\<close> when the loop reaches
  \<open>if (c) { p = malloc(2); p = malloc(3); goto out; }\<close>. The analysis of the if-block reports
  the two lost allocations and returns false. The loop of the enclosing \<open>checkScope\<close> clears
  its state and does not return: it goes on with the tokens of the \<open>if\<close>, takes the statements
  of the block as its own and reports the leak at the second assignment once more before it
  returns false at the \<open>goto\<close>. With the same statements in the else-block the loop returns
  false at once, and each leak is reported once.
\<close>

theorem C2_if_block_abandoned:
  "ifResult exEnv exIfGoto exGotoBlock exAlloc {} 1
     = (Returned False emptyVarInfo, [MemLeak (mkTok ''p'' 1 42) ''p'', MemLeak (mkTok ''p'' 1 49) ''p''])
   \<and> walk exEnv {} (mkTok ''}'' 0 99) [IfElse exIfGoto exGotoBlock []] exAlloc {} 1
     = (Returned False emptyVarInfo,
        [MemLeak (mkTok ''p'' 1 42) ''p'', MemLeak (mkTok ''p'' 1 49) ''p'',
         MemLeak (mkTok ''p'' 1 49) ''p''])
   \<and> elseResult exEnv exElseGoto exGotoElseBlock exAlloc {} 1
     = (Returned False emptyVarInfo, [MemLeak (mkTok ''p'' 1 45) ''p'', MemLeak (mkTok ''p'' 1 52) ''p''])
   \<and> walk exEnv {} (mkTok ''}'' 0 99) [IfElse exElseGoto [] exGotoElseBlock] exAlloc {} 1
     = (Returned False emptyVarInfo,
        [MemLeak (mkTok ''p'' 1 45) ''p'', MemLeak (mkTok ''p'' 1 52) ''p''])"
proof -
  let ?e = "mkTok ''}'' 0 99"
  have i: "ifResult exEnv exIfGoto exGotoBlock exAlloc {} 1
     = (Returned False emptyVarInfo, [MemLeak (mkTok ''p'' 1 42) ''p'', MemLeak (mkTok ''p'' 1 49) ''p''])"
    by (simp add: ifResult_def ifCopies_def exIfGoto_simps exGotoBlock_def preIncrement_def
          exEnv_limit exAlloc_def assignMalloc_allocated assignMalloc_empty addDiags_def clear_eq
          conditionalAlloc_empty)
  have w: "walk exEnv {} ?e (exGotoBlock @ []) emptyVarInfo {} 1
             = (Returned False emptyVarInfo, [MemLeak (mkTok ''p'' 1 49) ''p''])"
    by (simp add: exGotoBlock_def assignMalloc_allocated assignMalloc_empty addDiags_def clear_eq)
  have wi: "walk exEnv {} ?e [IfElse exIfGoto exGotoBlock []] exAlloc {} 1
     = (Returned False emptyVarInfo,
        [MemLeak (mkTok ''p'' 1 42) ''p'', MemLeak (mkTok ''p'' 1 49) ''p'',
         MemLeak (mkTok ''p'' 1 49) ''p''])"
    using w by (simp add: walk_If_braces [OF exIfGoto_simps(1)] i exIfGoto_simps clear_eq addDiags_def
          del: walk.simps)
  have i0: "ifResult exEnv exElseGoto [] exAlloc {} 1 = (Returned True exAlloc, [])"
    by (simp add: ifResult_def ifCopies_def exElseGoto_simps preIncrement_def exEnv_limit
          ret_def exAlloc_def emptyVarInfo_def exEnv_def mkTok_def Let_def)
  have el: "elseResult exEnv exElseGoto exGotoElseBlock exAlloc {} 1
     = (Returned False emptyVarInfo, [MemLeak (mkTok ''p'' 1 45) ''p'', MemLeak (mkTok ''p'' 1 52) ''p''])"
    by (simp add: elseResult_def ifCopies_def exElseGoto_simps exGotoElseBlock_def preIncrement_def
          exEnv_limit exAlloc_def assignMalloc_allocated assignMalloc_empty addDiags_def clear_eq
          conditionalAlloc_empty)
  have we: "walk exEnv {} ?e [IfElse exElseGoto [] exGotoElseBlock] exAlloc {} 1
     = (Returned False emptyVarInfo,
        [MemLeak (mkTok ''p'' 1 45) ''p'', MemLeak (mkTok ''p'' 1 52) ''p''])"
    by (simp add: walk_If_braces [OF exElseGoto_simps(1)] i0 el exElseGoto_simps clear_eq
          del: walk.simps)
  show ?thesis
    by (simp only: i wi el we simp_thms)
qed
section \<open>The recursion limit\<close>

text \<open>
  C8 (as amended): \<open>checkScope\<close> is a total function (its definition comes with the proof that
  the recursion ends), and its limit is at most 1000 in every build. Entered with a count below
  \<open>INT_MAX\<close>, as \<open>check\<close> does with 0, it never has more calls of itself active than the
  limit leaves room for plus one, so at most 1001 from \<open>check\<close>, the last of which throws at
  once; the depth reaches that bound exactly when the call throws. Entered with a count that has
  reached the limit it throws \<open>InternalError\<close> of type \<open>LIMIT\<close> at its start token, without
  looking at the block and without a report. A block whose \<open>if\<close> statements nest less deeply
  than the limit leaves room is analysed without an exception, and every exception that comes
  out of \<open>checkScope\<close> is the one of the limit. \<open>check\<close> does not handle the exception: it
  leaves the loop over the function scopes, so the scopes after the one that threw are not
  analysed.
\<close>

theorem C8_recursion_limit:
  "recursiveLimit (build env) \<le> 1000
   \<and> (rc < 2147483647 \<longrightarrow>
        checkScopeDepth env s e blk vi nz rc \<le> nat (recursiveLimit (build env) - rc) + 1)
   \<and> checkScopeDepth env s e blk emptyVarInfo {} 0 \<le> 1001
   \<and> (rc \<le> recursiveLimit (build env) \<longrightarrow>
        ((\<exists>err. fst (checkScope env s e blk vi nz rc) = Thrown err)
           \<longleftrightarrow> checkScopeDepth env s e blk vi nz rc = nat (recursiveLimit (build env) - rc) + 1))
   \<and> (rc < 2147483647 \<and> recursiveLimit (build env) \<le> rc \<longrightarrow>
        checkScope env s e blk vi nz rc = (Thrown (InternalError s limitMessage LIMIT), [])
        \<and> checkScopeDepth env s e blk vi nz rc = 1)
   \<and> (rc + 1 + int (blockDepth blk) \<le> recursiveLimit (build env) \<longrightarrow>
        (\<exists>b v. fst (checkScope env s e blk vi nz rc) = Returned b v))
   \<and> (fst (checkScope env s e blk vi nz rc) = Thrown err \<longrightarrow>
        (\<exists>t. err = InternalError t limitMessage LIMIT))
   \<and> (fst (checkScope env s e blk emptyVarInfo {} 0) = Thrown err \<longrightarrow>
        check env ((s, e, blk) # functionScopes)
          = (Some (Thrown err), snd (checkScope env s e blk emptyVarInfo {} 0)))"
proof -
  let ?L = "recursiveLimit (build env)"
  have L: "?L \<le> 1000" by (rule recursiveLimit_le)
  have wb: "rc' < 2147483647 \<Longrightarrow> walkDepth env ca0 e blk vi' nz' rc' \<le> nat (?L - rc') + 1"
    for ca0 vi' nz' rc'
    by (rule walkDepth_bound)
  have bound: "checkScopeDepth env s e blk vi' nz' rc' \<le> nat (?L - rc') + 1" if "rc' < 2147483647"
    for vi' nz' rc'
    using that wb by (rule checkScopeDepth_bound)
  have b0: "checkScopeDepth env s e blk emptyVarInfo {} 0 \<le> 1001"
  proof -
    have "checkScopeDepth env s e blk emptyVarInfo {} 0 \<le> nat (?L - 0) + 1"
      by (rule bound) simp
    also have "\<dots> \<le> 1001" using L by simp
    finally show ?thesis .
  qed
  have fits: "depthFits ?L rc (fst (checkScope env s e blk vi nz rc)) (checkScopeDepth env s e blk vi nz rc)"
    if "rc \<le> ?L"
    using that walkDepth_fits by (rule checkScopeDepth_fits)
  have exact: "(\<exists>err. fst (checkScope env s e blk vi nz rc) = Thrown err)
           \<longleftrightarrow> checkScopeDepth env s e blk vi nz rc = nat (?L - rc) + 1" if "rc \<le> ?L"
    using fits [OF that]
    by (cases "fst (checkScope env s e blk vi nz rc)") (simp_all del: checkScope.simps checkScopeDepth.simps)
  have atlimit: "checkScope env s e blk vi nz rc = (Thrown (InternalError s limitMessage LIMIT), [])
        \<and> checkScopeDepth env s e blk vi nz rc = 1" if "rc < 2147483647 \<and> ?L \<le> rc"
    using that by (simp add: preIncrement_simp)
  have shallow: "\<exists>b v. fst (checkScope env s e blk vi nz rc) = Returned b v"
    if d: "rc + 1 + int (blockDepth blk) \<le> ?L"
  proof -
    from d L have lt: "rc < 2147483647" and lt1: "rc + 1 < 2147483647" and le: "\<not> ?L < rc + 1"
      and Lt: "?L < 2147483647" by simp_all
    have c: "ctl ?L (rc + 1) blk \<noteq> CThrow"
      using d lt1 Lt by (intro ctl_shallow) simp_all
    have cs: "checkScope env s e blk vi nz rc = walk env (conditionalAlloc vi) e blk vi nz (rc + 1)"
      using le lt by (simp add: checkScope_unfold preIncrement_simp del: checkScope.simps)
    from walk_ctl [of env "conditionalAlloc vi" e blk vi nz "rc + 1"] c show ?thesis
      unfolding cs by (cases "fst (walk env (conditionalAlloc vi) e blk vi nz (rc + 1))") simp_all
  qed
  have only: "\<exists>t. err = InternalError t limitMessage LIMIT"
    if "fst (checkScope env s e blk vi nz rc) = Thrown err"
    using that walk_limitOnly [of env "conditionalAlloc vi" e blk vi nz "preIncrement rc"]
    by (auto simp: checkScope_unfold simp del: checkScope.simps split: if_splits)
  have chk: "check env ((s, e, blk) # functionScopes)
          = (Some (Thrown err), snd (checkScope env s e blk emptyVarInfo {} 0))"
    if "fst (checkScope env s e blk emptyVarInfo {} 0) = Thrown err"
    using that by (simp add: Let_def del: checkScope.simps)
  from L bound b0 exact atlimit shallow only chk show ?thesis by blast
qed

text \<open>
  Instances of C8_recursion_limit: a call at count 1000; the body of a function with 1000 nested
  \<open>if\<close> statements, which throws and reaches the depth 1001; the body \<open>{ p = malloc(2); }\<close>,
  which has no \<open>if\<close>; and \<open>check\<close> on the two functions in that order.
\<close>

theorem C8_recursion_limit_witness:
  "recursiveLimit (build exEnv) \<le> 1000
   \<and> checkScope exEnv (mkTok ''{'' 0 40) (mkTok ''}'' 0 50) [] exAlloc {} 1000
       = (Thrown (InternalError (mkTok ''{'' 0 40) limitMessage LIMIT), [])
   \<and> checkScopeDepth exEnv (mkTok ''{'' 0 10) (mkTok ''}'' 0 66) (nestIf 1000) emptyVarInfo {} 0 = 1001
   \<and> (\<exists>b v. fst (checkScope exEnv (mkTok ''{'' 0 70) (mkTok ''}'' 0 99) exLeaky emptyVarInfo {} 0)
               = Returned b v)
   \<and> check exEnv [(mkTok ''{'' 0 10, mkTok ''}'' 0 66, nestIf 1000),
                   (mkTok ''{'' 0 70, mkTok ''}'' 0 99, exLeaky)]
       = (Some (Thrown (InternalError (mkTok ''{'' 0 40) limitMessage LIMIT)), [])"
proof -
  note n = nestIf_1000
  let ?err = "InternalError (mkTok ''{'' 0 40) limitMessage LIMIT"
  have h5: "(1000::int) < 2147483647 \<and> recursiveLimit (build exEnv) \<le> 1000"
    by (simp add: exEnv_limit)
  have a: "recursiveLimit (build exEnv) \<le> 1000"
    by (rule C8_recursion_limit [THEN conjunct1])
  have b: "checkScope exEnv (mkTok ''{'' 0 40) (mkTok ''}'' 0 50) [] exAlloc {} 1000
       = (Thrown (InternalError (mkTok ''{'' 0 40) limitMessage LIMIT), [])"
    using C8_recursion_limit [of exEnv 1000 "mkTok ''{'' 0 40" "mkTok ''}'' 0 50" "[]" exAlloc "{}",
            THEN conjunct2, THEN conjunct2, THEN conjunct2, THEN conjunct2, THEN conjunct1,
            rule_format, OF h5]
    by (rule conjunct1)
  have h4: "(0::int) \<le> recursiveLimit (build exEnv)" by (simp add: exEnv_limit)
  have t: "\<exists>err. fst (checkScope exEnv (mkTok ''{'' 0 10) (mkTok ''}'' 0 66) (nestIf 1000)
                         emptyVarInfo {} 0) = Thrown err"
    by (rule exI [of _ ?err]) (simp only: n fst_conv)
  have ar: "nat (recursiveLimit (build exEnv) - 0) + 1 = 1001" by (simp add: exEnv_limit)
  have c: "checkScopeDepth exEnv (mkTok ''{'' 0 10) (mkTok ''}'' 0 66) (nestIf 1000) emptyVarInfo {} 0
             = 1001"
    using C8_recursion_limit [of exEnv 0 "mkTok ''{'' 0 10" "mkTok ''}'' 0 66" "nestIf 1000"
            emptyVarInfo "{}", THEN conjunct2, THEN conjunct2, THEN conjunct2, THEN conjunct1,
            rule_format, OF h4, THEN iffD1, OF t]
    by (simp only: ar)
  have h6: "0 + 1 + int (blockDepth exLeaky) \<le> recursiveLimit (build exEnv)"
    by (simp add: exEnv_limit exLeaky_def)
  have d: "\<exists>b v. fst (checkScope exEnv (mkTok ''{'' 0 70) (mkTok ''}'' 0 99) exLeaky emptyVarInfo {} 0)
               = Returned b v"
    by (rule C8_recursion_limit [of exEnv 0 "mkTok ''{'' 0 70" "mkTok ''}'' 0 99" exLeaky
            emptyVarInfo "{}", THEN conjunct2, THEN conjunct2, THEN conjunct2, THEN conjunct2,
            THEN conjunct2, THEN conjunct1, rule_format, OF h6])
  have f: "fst (checkScope exEnv (mkTok ''{'' 0 10) (mkTok ''}'' 0 66) (nestIf 1000) emptyVarInfo {} 0)
             = Thrown ?err"
    by (simp only: n fst_conv)
  have g: "check exEnv [(mkTok ''{'' 0 10, mkTok ''}'' 0 66, nestIf 1000),
                   (mkTok ''{'' 0 70, mkTok ''}'' 0 99, exLeaky)]
       = (Some (Thrown ?err), [])"
    using C8_recursion_limit [of exEnv 0 "mkTok ''{'' 0 10" "mkTok ''}'' 0 66" "nestIf 1000"
            emptyVarInfo "{}" ?err "[(mkTok ''{'' 0 70, mkTok ''}'' 0 99, exLeaky)]",
            THEN conjunct2, THEN conjunct2, THEN conjunct2, THEN conjunct2,
            THEN conjunct2, THEN conjunct2, THEN conjunct2, rule_format, OF f]
    by (simp only: n snd_conv)
  from a b c d g show ?thesis by (intro conjI)
qed

text \<open>
  C8 as stated fails: the exception does not abort the analysis of the current function only. Alone,
  the second function gets its leak reported; after a function that exceeds the limit it is not
  analysed at all.
\<close>

theorem C8_counterexample:
  "check exEnv [(mkTok ''{'' 0 70, mkTok ''}'' 0 99, exLeaky)]
     = (None, [MemLeak (mkTok ''}'' 0 99) ''p''])
   \<and> check exEnv [(mkTok ''{'' 0 10, mkTok ''}'' 0 66, nestIf 1000),
                   (mkTok ''{'' 0 70, mkTok ''}'' 0 99, exLeaky)]
     = (Some (Thrown (InternalError (mkTok ''{'' 0 40) limitMessage LIMIT)), [])"
proof -
  note n = nestIf_1000
  have a: "check exEnv [(mkTok ''{'' 0 70, mkTok ''}'' 0 99, exLeaky)]
            = (None, [MemLeak (mkTok ''}'' 0 99) ''p''])"
    by (simp add: check_exLeaky Let_def del: checkScope.simps)
  have b: "check exEnv [(mkTok ''{'' 0 10, mkTok ''}'' 0 66, nestIf 1000),
                   (mkTok ''{'' 0 70, mkTok ''}'' 0 99, exLeaky)]
     = (Some (Thrown (InternalError (mkTok ''{'' 0 40) limitMessage LIMIT)), [])"
    by (simp only: check.simps Let_def n fst_conv snd_conv Outcome.case)
  from a b show ?thesis by (rule conjI)
qed

end
